theory Spec2Isabelle
  imports Main "HOL-Library.Word"
begin

unbundle bit_operations_syntax

section \<open>The Tegra234 pin controller: registers, groups and configuration parameters\<close>

text \<open>
  This theory embeds the pin-multiplexing and pin-configuration driver
  \<^verbatim>\<open>pinctrl-tegra234.c\<close>: the mux selection, the GPIO save and restore of the
  mux register, the location of a configuration parameter, the group getter
  and setter, the clearing of the parked bits, and the table of pin groups of
  the Tegra234.

  Registers are 32 bits wide (\<^verbatim>\<open>u32\<close>), a configuration argument is 16 bits
  wide (\<^verbatim>\<open>u16\<close>). The fields of a pin group are C integers whose declaration
  (\<^verbatim>\<open>pinctrl-tegra234.h\<close>) is not among the sources: they are kept as
  mathematical integers here, and every conversion that the driver's own
  variables force on them (\<^verbatim>\<open>s8\<close>, \<^verbatim>\<open>s32\<close>, \<^verbatim>\<open>u32\<close>) is written out.
\<close>

type_synonym u32 = "32 word"
type_synonym u16 = "16 word"

definition s8 :: "int \<Rightarrow> int" where
  "s8 x = (x + 128) mod 256 - 128"

definition s32 :: "int \<Rightarrow> int" where
  "s32 x = (x + 2147483648) mod 4294967296 - 2147483648"

definition u32_of :: "int \<Rightarrow> nat" where
  "u32_of x = nat (x mod 4294967296)"

text \<open>\<^verbatim>\<open>BIT(nr)\<close> of the kernel is \<^verbatim>\<open>1UL << nr\<close>, an unsigned long of 64 bits.\<close>

definition BIT :: "int \<Rightarrow> 64 word" where
  "BIT nr = push_bit (nat nr) 1"

subsection \<open>Pin groups and the per-chip data\<close>

text \<open>
  \<^verbatim>\<open>struct tegra_pingroup\<close>, with the fields the driver reads. \<^verbatim>\<open>npins\<close> is
  \<^verbatim>\<open>ARRAY_SIZE\<close> of the pin array in every entry of the table, so it is the
  length of \<open>pins\<close>; \<^verbatim>\<open>ARRAY_SIZE(g->funcs)\<close> is the length of \<open>funcs\<close>.
  A register offset of \<open>-1\<close> and a bit position of \<open>-1\<close> mean that the group
  does not have the register or the field. \<^verbatim>\<open>parked_bitmask\<close> is combined with
  the \<^verbatim>\<open>u32\<close> value of a register and is a \<^verbatim>\<open>u32\<close> itself. Where the driver
  calls an index into the group table \<^verbatim>\<open>group\<close>, the variable is \<open>grp\<close> here.
\<close>

record tegra_pingroup =
  name :: string
  pins :: "nat list"
  funcs :: "nat list"
  mux_reg :: int
  mux_bank :: int
  mux_bit :: int
  pupd_reg :: int
  pupd_bank :: int
  pupd_bit :: int
  tri_reg :: int
  tri_bank :: int
  tri_bit :: int
  drv_reg :: int
  drv_bank :: int
  lpbk_reg :: int
  lpbk_bank :: int
  lpbk_bit :: int
  pad_reg :: int
  pad_bank :: int
  pad_bit :: int
  einput_bit :: int
  odrain_bit :: int
  lock_bit :: int
  ioreset_bit :: int
  rcv_sel_bit :: int
  hsm_bit :: int
  sfsel_bit :: int
  schmitt_bit :: int
  lpmd_bit :: int
  drvdn_bit :: int
  drvdn_width :: int
  drvup_bit :: int
  drvup_width :: int
  slwr_bit :: int
  slwr_width :: int
  slwf_bit :: int
  slwf_width :: int
  drvtype_bit :: int
  parked_bitmask :: u32

definition npins :: "tegra_pingroup \<Rightarrow> nat" where
  "npins g = length (pins g)"

text \<open>
  \<^verbatim>\<open>struct tegra_pinctrl_soc_data\<close>: the groups and the four flags that say in
  which register a field lives. \<^verbatim>\<open>ngroups\<close> is \<^verbatim>\<open>ARRAY_SIZE(groups)\<close>.
\<close>

record tegra_pinctrl_soc_data =
  ngpios :: nat
  groups :: "tegra_pingroup list"
  hsm_in_mux :: bool
  schmitt_in_mux :: bool
  drvtype_in_mux :: bool
  sfsel_in_mux :: bool

definition ngroups :: "tegra_pinctrl_soc_data \<Rightarrow> nat" where
  "ngroups soc = length (groups soc)"

subsection \<open>The register banks\<close>

text \<open>
  \<^verbatim>\<open>struct tegra_pmx\<close>: the register banks, addressed by bank and byte offset
  (both \<^verbatim>\<open>u32\<close>), and the shadow \<^verbatim>\<open>gpio_conf\<close> indexed by pin. The registers are
  modelled as a store that returns what was written last. \<open>mmio\<close> records every
  access to a register in the order the driver makes it, so that "no register is
  read or written" is a statement about the model.
\<close>

datatype mmio = Readl nat nat | Writel nat nat u32

record tegra_pmx =
  regs :: "nat \<times> nat \<Rightarrow> u32"
  gpio_conf :: "nat \<Rightarrow> u32"
  mmio :: "mmio list"

definition pmx_readl :: "tegra_pmx \<Rightarrow> nat \<Rightarrow> nat \<Rightarrow> u32 \<times> tegra_pmx" where
  "pmx_readl pmx bank reg =
     (regs pmx (bank, reg), pmx\<lparr>mmio := mmio pmx @ [Readl bank reg]\<rparr>)"

text \<open>A write is followed by a read of the same register, whose value is dropped.\<close>

definition pmx_writel :: "tegra_pmx \<Rightarrow> u32 \<Rightarrow> nat \<Rightarrow> nat \<Rightarrow> tegra_pmx" where
  "pmx_writel pmx val bank reg =
     snd (pmx_readl
       (pmx\<lparr>regs := (regs pmx)((bank, reg) := val),
            mmio := mmio pmx @ [Writel bank reg val]\<rparr>) bank reg)"

subsection \<open>Results\<close>

text \<open>
  Each return of an error in the driver is one constructor, named after the
  message the driver logs there; \<open>errno\<close> gives the code that is returned.
  \<open>Undefined_behaviour\<close> stands for the places where C gives the operation no
  meaning: a shift by a negative amount or by the width of the type or more, and
  an index past the end of the group table. The model stops there, with the
  state that the accesses before that point have left.
\<close>

datatype failure =
    Invalid_config_param
  | Not_supported_on_group
  | LOCK_bit_cannot_be_cleared
  | Too_big_for_register
  | No_mux_register
  | Function_not_in_group
  | Pingroup_not_found
  | No_sfsel_field
  | Undefined_behaviour

definition ENOTSUPP :: int where "ENOTSUPP = 524"
definition EINVAL :: int where "EINVAL = 22"

fun errno :: "failure \<Rightarrow> int option" where
  "errno Invalid_config_param = Some (- ENOTSUPP)"
| "errno Not_supported_on_group = Some (- ENOTSUPP)"
| "errno LOCK_bit_cannot_be_cleared = Some (- EINVAL)"
| "errno Too_big_for_register = Some (- EINVAL)"
| "errno No_mux_register = Some (- EINVAL)"
| "errno Function_not_in_group = Some (- EINVAL)"
| "errno Pingroup_not_found = Some (- EINVAL)"
| "errno No_sfsel_field = Some (- EINVAL)"
| "errno Undefined_behaviour = None"

subsection \<open>Selecting a function\<close>

text \<open>
  The loop of \<^verbatim>\<open>tegra_pinctrl_set_mux\<close> over \<^verbatim>\<open>g->funcs\<close>: it stops at the first
  slot that holds the function and otherwise ends with \<open>i\<close> at the size of the
  array.
\<close>

fun funcs_scan :: "nat list \<Rightarrow> nat \<Rightarrow> nat \<Rightarrow> nat" where
  "funcs_scan [] function i = i"
| "funcs_scan (f # fs) function i =
     (if f = function then i else funcs_scan fs function (i + 1))"

definition tegra_pinctrl_set_mux ::
  "tegra_pinctrl_soc_data \<Rightarrow> tegra_pmx \<Rightarrow> nat \<Rightarrow> nat \<Rightarrow> (failure + unit) \<times> tegra_pmx" where
  "tegra_pinctrl_set_mux soc pmx function grp =
     (if \<not> grp < ngroups soc then (Inl Undefined_behaviour, pmx)
      else
        let g = groups soc ! grp in
        if mux_reg g < 0 then (Inl No_mux_register, pmx)
        else
          let i = funcs_scan (funcs g) function 0 in
          if i = length (funcs g) then (Inl Function_not_in_group, pmx)
          else
            let (val, pmx1) = pmx_readl pmx (u32_of (mux_bank g)) (u32_of (mux_reg g)) in
            if \<not> (0 \<le> mux_bit g \<and> mux_bit g < 32) then (Inl Undefined_behaviour, pmx1)
            else
              let val = val AND NOT (push_bit (nat (mux_bit g)) 3);
                  val = val OR push_bit (nat (mux_bit g)) (of_nat i)
              in
                if sfsel_in_mux soc then
                  if \<not> (0 \<le> sfsel_bit g \<and> sfsel_bit g < 32)
                  then (Inl Undefined_behaviour, pmx1)
                  else
                    (Inr (),
                     pmx_writel pmx1 (val OR push_bit (nat (sfsel_bit g)) 1)
                       (u32_of (mux_bank g)) (u32_of (mux_reg g)))
                else
                  (Inr (), pmx_writel pmx1 val (u32_of (mux_bank g)) (u32_of (mux_reg g))))"

subsection \<open>GPIO request and release\<close>

text \<open>
  The search for the group of a pin, the same loop in the three GPIO functions:
  a group with another number of pins than one is skipped, and the loop stops
  at the first group whose only pin is \<open>offset\<close>, or ends with \<open>grp\<close> at
  \<^verbatim>\<open>ngroups\<close>.
\<close>

fun pin_group_scan :: "tegra_pingroup list \<Rightarrow> nat \<Rightarrow> nat \<Rightarrow> nat" where
  "pin_group_scan [] offset grp = grp"
| "pin_group_scan (g # gs) offset grp =
     (if npins g \<noteq> 1 then pin_group_scan gs offset (grp + 1)
      else if offset = pins g ! 0 then grp
      else pin_group_scan gs offset (grp + 1))"

definition tegra_pinctrl_gpio_save_config ::
  "tegra_pinctrl_soc_data \<Rightarrow> tegra_pmx \<Rightarrow> nat \<Rightarrow> (failure + unit) \<times> tegra_pmx" where
  "tegra_pinctrl_gpio_save_config soc pmx offset =
     (let grp = pin_group_scan (groups soc) offset 0 in
      if grp = ngroups soc then (Inl Pingroup_not_found, pmx)
      else
        let g = groups soc ! grp in
        if mux_reg g \<ge> 0 then
          let (val, pmx1) = pmx_readl pmx (u32_of (mux_bank g)) (u32_of (mux_reg g)) in
          (Inr (), pmx1\<lparr>gpio_conf := (gpio_conf pmx1)(offset := val)\<rparr>)
        else (Inr (), pmx))"

definition tegra_pinctrl_gpio_restore_config ::
  "tegra_pinctrl_soc_data \<Rightarrow> tegra_pmx \<Rightarrow> nat \<Rightarrow> (failure + unit) \<times> tegra_pmx" where
  "tegra_pinctrl_gpio_restore_config soc pmx offset =
     (let grp = pin_group_scan (groups soc) offset 0 in
      if grp = ngroups soc then (Inl Pingroup_not_found, pmx)
      else
        let g = groups soc ! grp in
        if mux_reg g \<ge> 0 then
          (Inr (), pmx_writel pmx (gpio_conf pmx offset)
                     (u32_of (mux_bank g)) (u32_of (mux_reg g)))
        else (Inr (), pmx))"

text \<open>
  \<^verbatim>\<open>tegra_pinctrl_gpio_request_enable\<close> saves the mux register and then, where the
  chip has the SFIO/GPIO selection in the mux register, clears that bit. Its
  second search has no test for "not found": it runs only after the first one
  has found the group.
\<close>

definition tegra_pinctrl_gpio_request_enable ::
  "tegra_pinctrl_soc_data \<Rightarrow> tegra_pmx \<Rightarrow> nat \<Rightarrow> (failure + unit) \<times> tegra_pmx" where
  "tegra_pinctrl_gpio_request_enable soc pmx offset =
     (case tegra_pinctrl_gpio_save_config soc pmx offset of
        (Inl e, pmx1) \<Rightarrow> (Inl e, pmx1)
      | (Inr u, pmx1) \<Rightarrow>
          if \<not> sfsel_in_mux soc then (Inr (), pmx1)
          else
            let grp = pin_group_scan (groups soc) offset 0 in
            if \<not> grp < ngroups soc then (Inl Undefined_behaviour, pmx1)
            else
              let g = groups soc ! grp in
              if mux_reg g < 0 \<or> sfsel_bit g < 0 then (Inl No_sfsel_field, pmx1)
              else
                let (val, pmx2) = pmx_readl pmx1 (u32_of (mux_bank g)) (u32_of (mux_reg g)) in
                if \<not> sfsel_bit g < 64 then (Inl Undefined_behaviour, pmx2)
                else
                  (Inr (),
                   pmx_writel pmx2 (ucast ((ucast val :: 64 word) AND NOT (BIT (sfsel_bit g))))
                     (u32_of (mux_bank g)) (u32_of (mux_reg g))))"

definition tegra_pinctrl_gpio_disable_free ::
  "tegra_pinctrl_soc_data \<Rightarrow> tegra_pmx \<Rightarrow> nat \<Rightarrow> tegra_pmx" where
  "tegra_pinctrl_gpio_disable_free soc pmx offset =
     snd (tegra_pinctrl_gpio_restore_config soc pmx offset)"

subsection \<open>Where a configuration parameter lives\<close>

text \<open>
  \<^verbatim>\<open>enum tegra_pinconf_param\<close>. \<open>TEGRA_PINCONF_PARAM_other\<close> stands for every
  value outside the enumeration, which the \<^verbatim>\<open>default\<close> branch of
  \<^verbatim>\<open>tegra_pinconf_reg\<close> receives. The packing of a parameter and its argument
  into one \<^verbatim>\<open>unsigned long\<close> is done by macros of the header; a configuration is
  the pair they pack.
\<close>

datatype tegra_pinconf_param =
    TEGRA_PINCONF_PARAM_PULL
  | TEGRA_PINCONF_PARAM_TRISTATE
  | TEGRA_PINCONF_PARAM_ENABLE_INPUT
  | TEGRA_PINCONF_PARAM_OPEN_DRAIN
  | TEGRA_PINCONF_PARAM_LOCK
  | TEGRA_PINCONF_PARAM_IORESET
  | TEGRA_PINCONF_PARAM_RCV_SEL
  | TEGRA_PINCONF_PARAM_LOOPBACK
  | TEGRA_PINCONF_PARAM_HIGH_SPEED_MODE
  | TEGRA_PINCONF_PARAM_SCHMITT
  | TEGRA_PINCONF_PARAM_LOW_POWER_MODE
  | TEGRA_PINCONF_PARAM_DRIVE_DOWN_STRENGTH
  | TEGRA_PINCONF_PARAM_DRIVE_UP_STRENGTH
  | TEGRA_PINCONF_PARAM_SLEW_RATE_FALLING
  | TEGRA_PINCONF_PARAM_SLEW_RATE_RISING
  | TEGRA_PINCONF_PARAM_DRIVE_TYPE
  | TEGRA_PINCONF_PARAM_FUNCTION
  | TEGRA_PINCONF_PARAM_PAD_POWER
  | TEGRA_PINCONF_PARAM_other

type_synonym config = "tegra_pinconf_param \<times> u16"

text \<open>
  The \<^verbatim>\<open>switch\<close> of \<^verbatim>\<open>tegra_pinconf_reg\<close>: bank, register, bit and width as
  the branch assigns them, before they are stored in the caller's \<^verbatim>\<open>s8\<close> and
  \<^verbatim>\<open>s32\<close> variables.
\<close>

fun pinconf_reg_switch ::
  "tegra_pinctrl_soc_data \<Rightarrow> tegra_pingroup \<Rightarrow> tegra_pinconf_param \<Rightarrow> (int \<times> int \<times> int \<times> int) option" where
  "pinconf_reg_switch soc g TEGRA_PINCONF_PARAM_PULL =
     Some (pupd_bank g, pupd_reg g, pupd_bit g, 2)"
| "pinconf_reg_switch soc g TEGRA_PINCONF_PARAM_TRISTATE =
     Some (tri_bank g, tri_reg g, tri_bit g, 1)"
| "pinconf_reg_switch soc g TEGRA_PINCONF_PARAM_ENABLE_INPUT =
     Some (mux_bank g, mux_reg g, einput_bit g, 1)"
| "pinconf_reg_switch soc g TEGRA_PINCONF_PARAM_OPEN_DRAIN =
     Some (mux_bank g, mux_reg g, odrain_bit g, 1)"
| "pinconf_reg_switch soc g TEGRA_PINCONF_PARAM_LOCK =
     Some (mux_bank g, mux_reg g, lock_bit g, 1)"
| "pinconf_reg_switch soc g TEGRA_PINCONF_PARAM_IORESET =
     Some (mux_bank g, mux_reg g, ioreset_bit g, 1)"
| "pinconf_reg_switch soc g TEGRA_PINCONF_PARAM_RCV_SEL =
     Some (mux_bank g, mux_reg g, rcv_sel_bit g, 1)"
| "pinconf_reg_switch soc g TEGRA_PINCONF_PARAM_LOOPBACK =
     Some (lpbk_bank g, lpbk_reg g, lpbk_bit g, 1)"
| "pinconf_reg_switch soc g TEGRA_PINCONF_PARAM_HIGH_SPEED_MODE =
     (if hsm_in_mux soc then Some (mux_bank g, mux_reg g, hsm_bit g, 1)
      else Some (drv_bank g, drv_reg g, hsm_bit g, 1))"
| "pinconf_reg_switch soc g TEGRA_PINCONF_PARAM_SCHMITT =
     (if schmitt_in_mux soc then Some (mux_bank g, mux_reg g, schmitt_bit g, 1)
      else Some (drv_bank g, drv_reg g, schmitt_bit g, 1))"
| "pinconf_reg_switch soc g TEGRA_PINCONF_PARAM_LOW_POWER_MODE =
     Some (drv_bank g, drv_reg g, lpmd_bit g, 2)"
| "pinconf_reg_switch soc g TEGRA_PINCONF_PARAM_DRIVE_DOWN_STRENGTH =
     Some (drv_bank g, drv_reg g, drvdn_bit g, drvdn_width g)"
| "pinconf_reg_switch soc g TEGRA_PINCONF_PARAM_DRIVE_UP_STRENGTH =
     Some (drv_bank g, drv_reg g, drvup_bit g, drvup_width g)"
| "pinconf_reg_switch soc g TEGRA_PINCONF_PARAM_SLEW_RATE_FALLING =
     Some (drv_bank g, drv_reg g, slwf_bit g, slwf_width g)"
| "pinconf_reg_switch soc g TEGRA_PINCONF_PARAM_SLEW_RATE_RISING =
     Some (drv_bank g, drv_reg g, slwr_bit g, slwr_width g)"
| "pinconf_reg_switch soc g TEGRA_PINCONF_PARAM_DRIVE_TYPE =
     (if drvtype_in_mux soc then Some (mux_bank g, mux_reg g, drvtype_bit g, 2)
      else Some (drv_bank g, drv_reg g, drvtype_bit g, 2))"
| "pinconf_reg_switch soc g TEGRA_PINCONF_PARAM_FUNCTION =
     Some (mux_bank g, mux_reg g, mux_bit g, 2)"
| "pinconf_reg_switch soc g TEGRA_PINCONF_PARAM_PAD_POWER =
     Some (pad_bank g, pad_reg g, pad_bit g, 1)"
| "pinconf_reg_switch soc g TEGRA_PINCONF_PARAM_other = None"

text \<open>
  \<^verbatim>\<open>tegra_pinconf_reg\<close>: the result is the error, or \<open>(bank, reg, bit', width)\<close>
  as the caller's variables hold them. The flag \<^verbatim>\<open>report_err\<close> only chooses
  whether a message is logged and is left out.
\<close>

definition tegra_pinconf_reg ::
  "tegra_pinctrl_soc_data \<Rightarrow> tegra_pingroup \<Rightarrow> tegra_pinconf_param \<Rightarrow>
     failure + (int \<times> int \<times> int \<times> int)" where
  "tegra_pinconf_reg soc g param =
     (case pinconf_reg_switch soc g param of
        None \<Rightarrow> Inl Invalid_config_param
      | Some (bank, reg, bit', width) \<Rightarrow>
          if s32 reg < 0 \<or> s8 bit' < 0 then Inl Not_supported_on_group
          else Inr (s8 bank, s32 reg, s8 bit', s8 width))"

subsection \<open>Reading and writing a parameter of a group\<close>

text \<open>\<^verbatim>\<open>!arg\<close> on a \<^verbatim>\<open>u16\<close>.\<close>

definition lnot :: "u16 \<Rightarrow> u16" where
  "lnot arg = (if arg = 0 then 1 else 0)"

definition tegra_pinconf_group_get ::
  "tegra_pinctrl_soc_data \<Rightarrow> tegra_pmx \<Rightarrow> nat \<Rightarrow> tegra_pinconf_param \<Rightarrow>
     (failure + config) \<times> tegra_pmx" where
  "tegra_pinconf_group_get soc pmx grp param =
     (if \<not> grp < ngroups soc then (Inl Undefined_behaviour, pmx)
      else
        let g = groups soc ! grp in
        case tegra_pinconf_reg soc g param of
          Inl e \<Rightarrow> (Inl e, pmx)
        | Inr (bank, reg, bit', width) \<Rightarrow>
            let (val, pmx1) = pmx_readl pmx (u32_of bank) (u32_of reg) in
            if 0 \<le> width \<and> width < 32 \<and> bit' < 32 then
              let mask = push_bit (nat width) (1 :: u32) - 1;
                  arg = (ucast (drop_bit (nat bit') val AND mask) :: u16);
                  arg = (if param = TEGRA_PINCONF_PARAM_PAD_POWER then lnot arg else arg)
              in (Inr (param, arg), pmx1)
            else (Inl Undefined_behaviour, pmx1))"

text \<open>
  The body of the loop of \<^verbatim>\<open>tegra_pinconf_group_set\<close> for one configuration.
  \<open>Inr ()\<close> means that the loop goes on with the next one.
\<close>

definition group_set_body ::
  "tegra_pinctrl_soc_data \<Rightarrow> tegra_pingroup \<Rightarrow> config \<Rightarrow> tegra_pmx \<Rightarrow>
     (failure + unit) \<times> tegra_pmx" where
  "group_set_body soc g c pmx =
     (let param = fst c;
          arg = snd c;
          arg = (if param = TEGRA_PINCONF_PARAM_PAD_POWER then lnot arg else arg)
      in
        case tegra_pinconf_reg soc g param of
          Inl e \<Rightarrow> (Inl e, pmx)
        | Inr (bank, reg, bit', width) \<Rightarrow>
            let (val, pmx1) = pmx_readl pmx (u32_of bank) (u32_of reg) in
            if param = TEGRA_PINCONF_PARAM_LOCK \<and> \<not> bit' < 64 then (Inl Undefined_behaviour, pmx1)
            else if param = TEGRA_PINCONF_PARAM_LOCK \<and>
                    (ucast val :: 64 word) AND BIT bit' \<noteq> 0 \<and> arg = 0
            then (Inl LOCK_bit_cannot_be_cleared, pmx1)
            else
              let arg = (if width = 1 then lnot (lnot arg) else arg) in
              if \<not> (0 \<le> width \<and> width < 32) then (Inl Undefined_behaviour, pmx1)
              else
                let mask = push_bit (nat width) (1 :: u32) - 1 in
                if (ucast arg :: u32) AND NOT mask \<noteq> 0 then (Inl Too_big_for_register, pmx1)
                else if \<not> bit' < 32 then (Inl Undefined_behaviour, pmx1)
                else
                  let val = val AND NOT (push_bit (nat bit') mask);
                      val = val OR push_bit (nat bit') (ucast arg)
                  in (Inr (), pmx_writel pmx1 val (u32_of bank) (u32_of reg)))"

fun group_set_loop ::
  "tegra_pinctrl_soc_data \<Rightarrow> tegra_pingroup \<Rightarrow> config list \<Rightarrow> tegra_pmx \<Rightarrow>
     (failure + unit) \<times> tegra_pmx" where
  "group_set_loop soc g [] pmx = (Inr (), pmx)"
| "group_set_loop soc g (c # cs) pmx =
     (case group_set_body soc g c pmx of
        (Inl e, pmx1) \<Rightarrow> (Inl e, pmx1)
      | (Inr u, pmx1) \<Rightarrow> group_set_loop soc g cs pmx1)"

definition tegra_pinconf_group_set ::
  "tegra_pinctrl_soc_data \<Rightarrow> tegra_pmx \<Rightarrow> nat \<Rightarrow> config list \<Rightarrow>
     (failure + unit) \<times> tegra_pmx" where
  "tegra_pinconf_group_set soc pmx grp configs =
     (if \<not> grp < ngroups soc then (Inl Undefined_behaviour, pmx)
      else group_set_loop soc (groups soc ! grp) configs pmx)"

subsection \<open>Clearing the parked bits\<close>

text \<open>
  The register that the pass works on for one group: the mux register, unless
  \<^verbatim>\<open>mux_reg\<close> is \<open>-1\<close>, and then the drive register. Bank and offset are held in
  \<^verbatim>\<open>unsigned int\<close> variables.
\<close>

definition parked_bits_reg :: "tegra_pingroup \<Rightarrow> nat \<times> nat" where
  "parked_bits_reg g =
     (if mux_reg g \<noteq> - 1 then (u32_of (mux_bank g), u32_of (mux_reg g))
      else (u32_of (drv_bank g), u32_of (drv_reg g)))"

definition clear_parked_bits_body :: "tegra_pingroup \<Rightarrow> tegra_pmx \<Rightarrow> tegra_pmx" where
  "clear_parked_bits_body g pmx =
     (if parked_bitmask g > 0 then
        let (bank, reg) = parked_bits_reg g;
            (val, pmx1) = pmx_readl pmx bank reg
        in pmx_writel pmx1 (val AND NOT (parked_bitmask g)) bank reg
      else pmx)"

fun clear_parked_bits_loop :: "tegra_pingroup list \<Rightarrow> tegra_pmx \<Rightarrow> tegra_pmx" where
  "clear_parked_bits_loop [] pmx = pmx"
| "clear_parked_bits_loop (g # gs) pmx =
     clear_parked_bits_loop gs (clear_parked_bits_body g pmx)"

definition tegra_pinctrl_clear_parked_bits ::
  "tegra_pinctrl_soc_data \<Rightarrow> tegra_pmx \<Rightarrow> tegra_pmx" where
  "tegra_pinctrl_clear_parked_bits soc pmx = clear_parked_bits_loop (groups soc) pmx"

subsection \<open>The tables of the Tegra234\<close>

text \<open>
  \<^verbatim>\<open>enum pin_id\<close>, from \<^verbatim>\<open>T234_PIN_TABLE\<close>: a GPIO pin has the number of its
  entry, the other pins follow the GPIO pins.
\<close>

definition TEGRA_PIN_DAP6_SCLK_PA0 :: nat where "TEGRA_PIN_DAP6_SCLK_PA0 = 0"
definition TEGRA_PIN_DAP6_DOUT_PA1 :: nat where "TEGRA_PIN_DAP6_DOUT_PA1 = 1"
definition TEGRA_PIN_DAP6_DIN_PA2 :: nat where "TEGRA_PIN_DAP6_DIN_PA2 = 2"
definition TEGRA_PIN_DAP6_FS_PA3 :: nat where "TEGRA_PIN_DAP6_FS_PA3 = 3"
definition TEGRA_PIN_DAP4_SCLK_PA4 :: nat where "TEGRA_PIN_DAP4_SCLK_PA4 = 4"
definition TEGRA_PIN_DAP4_DOUT_PA5 :: nat where "TEGRA_PIN_DAP4_DOUT_PA5 = 5"
definition TEGRA_PIN_DAP4_DIN_PA6 :: nat where "TEGRA_PIN_DAP4_DIN_PA6 = 6"
definition TEGRA_PIN_DAP4_FS_PA7 :: nat where "TEGRA_PIN_DAP4_FS_PA7 = 7"
definition TEGRA_PIN_SOC_GPIO08_PB0 :: nat where "TEGRA_PIN_SOC_GPIO08_PB0 = 8"
definition TEGRA_PIN_QSPI0_SCK_PC0 :: nat where "TEGRA_PIN_QSPI0_SCK_PC0 = 9"
definition TEGRA_PIN_QSPI0_CS_N_PC1 :: nat where "TEGRA_PIN_QSPI0_CS_N_PC1 = 10"
definition TEGRA_PIN_QSPI0_IO0_PC2 :: nat where "TEGRA_PIN_QSPI0_IO0_PC2 = 11"
definition TEGRA_PIN_QSPI0_IO1_PC3 :: nat where "TEGRA_PIN_QSPI0_IO1_PC3 = 12"
definition TEGRA_PIN_QSPI0_IO2_PC4 :: nat where "TEGRA_PIN_QSPI0_IO2_PC4 = 13"
definition TEGRA_PIN_QSPI0_IO3_PC5 :: nat where "TEGRA_PIN_QSPI0_IO3_PC5 = 14"
definition TEGRA_PIN_QSPI1_SCK_PC6 :: nat where "TEGRA_PIN_QSPI1_SCK_PC6 = 15"
definition TEGRA_PIN_QSPI1_CS_N_PC7 :: nat where "TEGRA_PIN_QSPI1_CS_N_PC7 = 16"
definition TEGRA_PIN_QSPI1_IO0_PD0 :: nat where "TEGRA_PIN_QSPI1_IO0_PD0 = 17"
definition TEGRA_PIN_QSPI1_IO1_PD1 :: nat where "TEGRA_PIN_QSPI1_IO1_PD1 = 18"
definition TEGRA_PIN_QSPI1_IO2_PD2 :: nat where "TEGRA_PIN_QSPI1_IO2_PD2 = 19"
definition TEGRA_PIN_QSPI1_IO3_PD3 :: nat where "TEGRA_PIN_QSPI1_IO3_PD3 = 20"
definition TEGRA_PIN_EQOS_TXC_PE0 :: nat where "TEGRA_PIN_EQOS_TXC_PE0 = 21"
definition TEGRA_PIN_EQOS_TD0_PE1 :: nat where "TEGRA_PIN_EQOS_TD0_PE1 = 22"
definition TEGRA_PIN_EQOS_TD1_PE2 :: nat where "TEGRA_PIN_EQOS_TD1_PE2 = 23"
definition TEGRA_PIN_EQOS_TD2_PE3 :: nat where "TEGRA_PIN_EQOS_TD2_PE3 = 24"
definition TEGRA_PIN_EQOS_TD3_PE4 :: nat where "TEGRA_PIN_EQOS_TD3_PE4 = 25"
definition TEGRA_PIN_EQOS_TX_CTL_PE5 :: nat where "TEGRA_PIN_EQOS_TX_CTL_PE5 = 26"
definition TEGRA_PIN_EQOS_RD0_PE6 :: nat where "TEGRA_PIN_EQOS_RD0_PE6 = 27"
definition TEGRA_PIN_EQOS_RD1_PE7 :: nat where "TEGRA_PIN_EQOS_RD1_PE7 = 28"
definition TEGRA_PIN_EQOS_RD2_PF0 :: nat where "TEGRA_PIN_EQOS_RD2_PF0 = 29"
definition TEGRA_PIN_EQOS_RD3_PF1 :: nat where "TEGRA_PIN_EQOS_RD3_PF1 = 30"
definition TEGRA_PIN_EQOS_RX_CTL_PF2 :: nat where "TEGRA_PIN_EQOS_RX_CTL_PF2 = 31"
definition TEGRA_PIN_EQOS_RXC_PF3 :: nat where "TEGRA_PIN_EQOS_RXC_PF3 = 32"
definition TEGRA_PIN_EQOS_SMA_MDIO_PF4 :: nat where "TEGRA_PIN_EQOS_SMA_MDIO_PF4 = 33"
definition TEGRA_PIN_EQOS_SMA_MDC_PF5 :: nat where "TEGRA_PIN_EQOS_SMA_MDC_PF5 = 34"
definition TEGRA_PIN_SOC_GPIO13_PG0 :: nat where "TEGRA_PIN_SOC_GPIO13_PG0 = 35"
definition TEGRA_PIN_SOC_GPIO14_PG1 :: nat where "TEGRA_PIN_SOC_GPIO14_PG1 = 36"
definition TEGRA_PIN_SOC_GPIO15_PG2 :: nat where "TEGRA_PIN_SOC_GPIO15_PG2 = 37"
definition TEGRA_PIN_SOC_GPIO16_PG3 :: nat where "TEGRA_PIN_SOC_GPIO16_PG3 = 38"
definition TEGRA_PIN_SOC_GPIO17_PG4 :: nat where "TEGRA_PIN_SOC_GPIO17_PG4 = 39"
definition TEGRA_PIN_SOC_GPIO18_PG5 :: nat where "TEGRA_PIN_SOC_GPIO18_PG5 = 40"
definition TEGRA_PIN_SOC_GPIO19_PG6 :: nat where "TEGRA_PIN_SOC_GPIO19_PG6 = 41"
definition TEGRA_PIN_SOC_GPIO20_PG7 :: nat where "TEGRA_PIN_SOC_GPIO20_PG7 = 42"
definition TEGRA_PIN_SOC_GPIO21_PH0 :: nat where "TEGRA_PIN_SOC_GPIO21_PH0 = 43"
definition TEGRA_PIN_SOC_GPIO22_PH1 :: nat where "TEGRA_PIN_SOC_GPIO22_PH1 = 44"
definition TEGRA_PIN_SOC_GPIO06_PH2 :: nat where "TEGRA_PIN_SOC_GPIO06_PH2 = 45"
definition TEGRA_PIN_UART4_TX_PH3 :: nat where "TEGRA_PIN_UART4_TX_PH3 = 46"
definition TEGRA_PIN_UART4_RX_PH4 :: nat where "TEGRA_PIN_UART4_RX_PH4 = 47"
definition TEGRA_PIN_UART4_RTS_PH5 :: nat where "TEGRA_PIN_UART4_RTS_PH5 = 48"
definition TEGRA_PIN_UART4_CTS_PH6 :: nat where "TEGRA_PIN_UART4_CTS_PH6 = 49"
definition TEGRA_PIN_SOC_GPIO41_PH7 :: nat where "TEGRA_PIN_SOC_GPIO41_PH7 = 50"
definition TEGRA_PIN_SOC_GPIO42_PI0 :: nat where "TEGRA_PIN_SOC_GPIO42_PI0 = 51"
definition TEGRA_PIN_SOC_GPIO43_PI1 :: nat where "TEGRA_PIN_SOC_GPIO43_PI1 = 52"
definition TEGRA_PIN_SOC_GPIO44_PI2 :: nat where "TEGRA_PIN_SOC_GPIO44_PI2 = 53"
definition TEGRA_PIN_GEN1_I2C_SCL_PI3 :: nat where "TEGRA_PIN_GEN1_I2C_SCL_PI3 = 54"
definition TEGRA_PIN_GEN1_I2C_SDA_PI4 :: nat where "TEGRA_PIN_GEN1_I2C_SDA_PI4 = 55"
definition TEGRA_PIN_CPU_PWR_REQ_PI5 :: nat where "TEGRA_PIN_CPU_PWR_REQ_PI5 = 56"
definition TEGRA_PIN_SOC_GPIO07_PI6 :: nat where "TEGRA_PIN_SOC_GPIO07_PI6 = 57"
definition TEGRA_PIN_SDMMC1_CLK_PJ0 :: nat where "TEGRA_PIN_SDMMC1_CLK_PJ0 = 58"
definition TEGRA_PIN_SDMMC1_CMD_PJ1 :: nat where "TEGRA_PIN_SDMMC1_CMD_PJ1 = 59"
definition TEGRA_PIN_SDMMC1_DAT0_PJ2 :: nat where "TEGRA_PIN_SDMMC1_DAT0_PJ2 = 60"
definition TEGRA_PIN_SDMMC1_DAT1_PJ3 :: nat where "TEGRA_PIN_SDMMC1_DAT1_PJ3 = 61"
definition TEGRA_PIN_SDMMC1_DAT2_PJ4 :: nat where "TEGRA_PIN_SDMMC1_DAT2_PJ4 = 62"
definition TEGRA_PIN_SDMMC1_DAT3_PJ5 :: nat where "TEGRA_PIN_SDMMC1_DAT3_PJ5 = 63"
definition TEGRA_PIN_PEX_L0_CLKREQ_N_PK0 :: nat where "TEGRA_PIN_PEX_L0_CLKREQ_N_PK0 = 64"
definition TEGRA_PIN_PEX_L0_RST_N_PK1 :: nat where "TEGRA_PIN_PEX_L0_RST_N_PK1 = 65"
definition TEGRA_PIN_PEX_L1_CLKREQ_N_PK2 :: nat where "TEGRA_PIN_PEX_L1_CLKREQ_N_PK2 = 66"
definition TEGRA_PIN_PEX_L1_RST_N_PK3 :: nat where "TEGRA_PIN_PEX_L1_RST_N_PK3 = 67"
definition TEGRA_PIN_PEX_L2_CLKREQ_N_PK4 :: nat where "TEGRA_PIN_PEX_L2_CLKREQ_N_PK4 = 68"
definition TEGRA_PIN_PEX_L2_RST_N_PK5 :: nat where "TEGRA_PIN_PEX_L2_RST_N_PK5 = 69"
definition TEGRA_PIN_PEX_L3_CLKREQ_N_PK6 :: nat where "TEGRA_PIN_PEX_L3_CLKREQ_N_PK6 = 70"
definition TEGRA_PIN_PEX_L3_RST_N_PK7 :: nat where "TEGRA_PIN_PEX_L3_RST_N_PK7 = 71"
definition TEGRA_PIN_PEX_L4_CLKREQ_N_PL0 :: nat where "TEGRA_PIN_PEX_L4_CLKREQ_N_PL0 = 72"
definition TEGRA_PIN_PEX_L4_RST_N_PL1 :: nat where "TEGRA_PIN_PEX_L4_RST_N_PL1 = 73"
definition TEGRA_PIN_PEX_WAKE_N_PL2 :: nat where "TEGRA_PIN_PEX_WAKE_N_PL2 = 74"
definition TEGRA_PIN_SOC_GPIO34_PL3 :: nat where "TEGRA_PIN_SOC_GPIO34_PL3 = 75"
definition TEGRA_PIN_DP_AUX_CH0_HPD_PM0 :: nat where "TEGRA_PIN_DP_AUX_CH0_HPD_PM0 = 76"
definition TEGRA_PIN_DP_AUX_CH1_HPD_PM1 :: nat where "TEGRA_PIN_DP_AUX_CH1_HPD_PM1 = 77"
definition TEGRA_PIN_DP_AUX_CH2_HPD_PM2 :: nat where "TEGRA_PIN_DP_AUX_CH2_HPD_PM2 = 78"
definition TEGRA_PIN_DP_AUX_CH3_HPD_PM3 :: nat where "TEGRA_PIN_DP_AUX_CH3_HPD_PM3 = 79"
definition TEGRA_PIN_SOC_GPIO55_PM4 :: nat where "TEGRA_PIN_SOC_GPIO55_PM4 = 80"
definition TEGRA_PIN_SOC_GPIO36_PM5 :: nat where "TEGRA_PIN_SOC_GPIO36_PM5 = 81"
definition TEGRA_PIN_SOC_GPIO53_PM6 :: nat where "TEGRA_PIN_SOC_GPIO53_PM6 = 82"
definition TEGRA_PIN_SOC_GPIO38_PM7 :: nat where "TEGRA_PIN_SOC_GPIO38_PM7 = 83"
definition TEGRA_PIN_DP_AUX_CH3_N_PN0 :: nat where "TEGRA_PIN_DP_AUX_CH3_N_PN0 = 84"
definition TEGRA_PIN_SOC_GPIO39_PN1 :: nat where "TEGRA_PIN_SOC_GPIO39_PN1 = 85"
definition TEGRA_PIN_SOC_GPIO40_PN2 :: nat where "TEGRA_PIN_SOC_GPIO40_PN2 = 86"
definition TEGRA_PIN_DP_AUX_CH1_P_PN3 :: nat where "TEGRA_PIN_DP_AUX_CH1_P_PN3 = 87"
definition TEGRA_PIN_DP_AUX_CH1_N_PN4 :: nat where "TEGRA_PIN_DP_AUX_CH1_N_PN4 = 88"
definition TEGRA_PIN_DP_AUX_CH2_P_PN5 :: nat where "TEGRA_PIN_DP_AUX_CH2_P_PN5 = 89"
definition TEGRA_PIN_DP_AUX_CH2_N_PN6 :: nat where "TEGRA_PIN_DP_AUX_CH2_N_PN6 = 90"
definition TEGRA_PIN_DP_AUX_CH3_P_PN7 :: nat where "TEGRA_PIN_DP_AUX_CH3_P_PN7 = 91"
definition TEGRA_PIN_EXTPERIPH1_CLK_PP0 :: nat where "TEGRA_PIN_EXTPERIPH1_CLK_PP0 = 92"
definition TEGRA_PIN_EXTPERIPH2_CLK_PP1 :: nat where "TEGRA_PIN_EXTPERIPH2_CLK_PP1 = 93"
definition TEGRA_PIN_CAM_I2C_SCL_PP2 :: nat where "TEGRA_PIN_CAM_I2C_SCL_PP2 = 94"
definition TEGRA_PIN_CAM_I2C_SDA_PP3 :: nat where "TEGRA_PIN_CAM_I2C_SDA_PP3 = 95"
definition TEGRA_PIN_SOC_GPIO23_PP4 :: nat where "TEGRA_PIN_SOC_GPIO23_PP4 = 96"
definition TEGRA_PIN_SOC_GPIO24_PP5 :: nat where "TEGRA_PIN_SOC_GPIO24_PP5 = 97"
definition TEGRA_PIN_SOC_GPIO25_PP6 :: nat where "TEGRA_PIN_SOC_GPIO25_PP6 = 98"
definition TEGRA_PIN_PWR_I2C_SCL_PP7 :: nat where "TEGRA_PIN_PWR_I2C_SCL_PP7 = 99"
definition TEGRA_PIN_PWR_I2C_SDA_PQ0 :: nat where "TEGRA_PIN_PWR_I2C_SDA_PQ0 = 100"
definition TEGRA_PIN_SOC_GPIO28_PQ1 :: nat where "TEGRA_PIN_SOC_GPIO28_PQ1 = 101"
definition TEGRA_PIN_SOC_GPIO29_PQ2 :: nat where "TEGRA_PIN_SOC_GPIO29_PQ2 = 102"
definition TEGRA_PIN_SOC_GPIO30_PQ3 :: nat where "TEGRA_PIN_SOC_GPIO30_PQ3 = 103"
definition TEGRA_PIN_SOC_GPIO31_PQ4 :: nat where "TEGRA_PIN_SOC_GPIO31_PQ4 = 104"
definition TEGRA_PIN_SOC_GPIO32_PQ5 :: nat where "TEGRA_PIN_SOC_GPIO32_PQ5 = 105"
definition TEGRA_PIN_SOC_GPIO33_PQ6 :: nat where "TEGRA_PIN_SOC_GPIO33_PQ6 = 106"
definition TEGRA_PIN_SOC_GPIO35_PQ7 :: nat where "TEGRA_PIN_SOC_GPIO35_PQ7 = 107"
definition TEGRA_PIN_SOC_GPIO37_PR0 :: nat where "TEGRA_PIN_SOC_GPIO37_PR0 = 108"
definition TEGRA_PIN_SOC_GPIO56_PR1 :: nat where "TEGRA_PIN_SOC_GPIO56_PR1 = 109"
definition TEGRA_PIN_UART1_TX_PR2 :: nat where "TEGRA_PIN_UART1_TX_PR2 = 110"
definition TEGRA_PIN_UART1_RX_PR3 :: nat where "TEGRA_PIN_UART1_RX_PR3 = 111"
definition TEGRA_PIN_UART1_RTS_PR4 :: nat where "TEGRA_PIN_UART1_RTS_PR4 = 112"
definition TEGRA_PIN_UART1_CTS_PR5 :: nat where "TEGRA_PIN_UART1_CTS_PR5 = 113"
definition TEGRA_PIN_CAN2_DOUT_PS0 :: nat where "TEGRA_PIN_CAN2_DOUT_PS0 = 114"
definition TEGRA_PIN_CAN2_DIN_PS1 :: nat where "TEGRA_PIN_CAN2_DIN_PS1 = 115"
definition TEGRA_PIN_CAN2_STB_PS2 :: nat where "TEGRA_PIN_CAN2_STB_PS2 = 116"
definition TEGRA_PIN_CAN2_EN_PS3 :: nat where "TEGRA_PIN_CAN2_EN_PS3 = 117"
definition TEGRA_PIN_CAN2_ERR_PS4 :: nat where "TEGRA_PIN_CAN2_ERR_PS4 = 118"
definition TEGRA_PIN_CAN3_DOUT_PS5 :: nat where "TEGRA_PIN_CAN3_DOUT_PS5 = 119"
definition TEGRA_PIN_CAN3_DIN_PS6 :: nat where "TEGRA_PIN_CAN3_DIN_PS6 = 120"
definition TEGRA_PIN_CAN3_STB_PS7 :: nat where "TEGRA_PIN_CAN3_STB_PS7 = 121"
definition TEGRA_PIN_CAN3_EN_PT0 :: nat where "TEGRA_PIN_CAN3_EN_PT0 = 122"
definition TEGRA_PIN_CAN3_ERR_PT1 :: nat where "TEGRA_PIN_CAN3_ERR_PT1 = 123"
definition TEGRA_PIN_SOC_ERROR_PU0 :: nat where "TEGRA_PIN_SOC_ERROR_PU0 = 124"
definition TEGRA_PIN_UART7_TX_PU1 :: nat where "TEGRA_PIN_UART7_TX_PU1 = 125"
definition TEGRA_PIN_UART7_RX_PU2 :: nat where "TEGRA_PIN_UART7_RX_PU2 = 126"
definition TEGRA_PIN_SPI7_SCK_PU3 :: nat where "TEGRA_PIN_SPI7_SCK_PU3 = 127"
definition TEGRA_PIN_SPI7_MISO_PU4 :: nat where "TEGRA_PIN_SPI7_MISO_PU4 = 128"
definition TEGRA_PIN_SPI7_MOSI_PU5 :: nat where "TEGRA_PIN_SPI7_MOSI_PU5 = 129"
definition TEGRA_PIN_SPI7_CS0_PU6 :: nat where "TEGRA_PIN_SPI7_CS0_PU6 = 130"
definition TEGRA_PIN_SOC_GPIO51_PU7 :: nat where "TEGRA_PIN_SOC_GPIO51_PU7 = 131"
definition TEGRA_PIN_SOC_GPIO52_PV0 :: nat where "TEGRA_PIN_SOC_GPIO52_PV0 = 132"
definition TEGRA_PIN_SOC_GPIO61_PW0 :: nat where "TEGRA_PIN_SOC_GPIO61_PW0 = 133"
definition TEGRA_PIN_SOC_GPIO62_PW1 :: nat where "TEGRA_PIN_SOC_GPIO62_PW1 = 134"
definition TEGRA_PIN_GPU_PWR_REQ_PX0 :: nat where "TEGRA_PIN_GPU_PWR_REQ_PX0 = 135"
definition TEGRA_PIN_CV_PWR_REQ_PX1 :: nat where "TEGRA_PIN_CV_PWR_REQ_PX1 = 136"
definition TEGRA_PIN_GP_PWM2_PX2 :: nat where "TEGRA_PIN_GP_PWM2_PX2 = 137"
definition TEGRA_PIN_GP_PWM3_PX3 :: nat where "TEGRA_PIN_GP_PWM3_PX3 = 138"
definition TEGRA_PIN_UART2_TX_PX4 :: nat where "TEGRA_PIN_UART2_TX_PX4 = 139"
definition TEGRA_PIN_UART2_RX_PX5 :: nat where "TEGRA_PIN_UART2_RX_PX5 = 140"
definition TEGRA_PIN_UART2_RTS_PX6 :: nat where "TEGRA_PIN_UART2_RTS_PX6 = 141"
definition TEGRA_PIN_UART2_CTS_PX7 :: nat where "TEGRA_PIN_UART2_CTS_PX7 = 142"
definition TEGRA_PIN_SPI3_SCK_PY0 :: nat where "TEGRA_PIN_SPI3_SCK_PY0 = 143"
definition TEGRA_PIN_SPI3_MISO_PY1 :: nat where "TEGRA_PIN_SPI3_MISO_PY1 = 144"
definition TEGRA_PIN_SPI3_MOSI_PY2 :: nat where "TEGRA_PIN_SPI3_MOSI_PY2 = 145"
definition TEGRA_PIN_SPI3_CS0_PY3 :: nat where "TEGRA_PIN_SPI3_CS0_PY3 = 146"
definition TEGRA_PIN_SPI3_CS1_PY4 :: nat where "TEGRA_PIN_SPI3_CS1_PY4 = 147"
definition TEGRA_PIN_UART5_TX_PY5 :: nat where "TEGRA_PIN_UART5_TX_PY5 = 148"
definition TEGRA_PIN_UART5_RX_PY6 :: nat where "TEGRA_PIN_UART5_RX_PY6 = 149"
definition TEGRA_PIN_UART5_RTS_PY7 :: nat where "TEGRA_PIN_UART5_RTS_PY7 = 150"
definition TEGRA_PIN_UART5_CTS_PZ0 :: nat where "TEGRA_PIN_UART5_CTS_PZ0 = 151"
definition TEGRA_PIN_USB_VBUS_EN0_PZ1 :: nat where "TEGRA_PIN_USB_VBUS_EN0_PZ1 = 152"
definition TEGRA_PIN_USB_VBUS_EN1_PZ2 :: nat where "TEGRA_PIN_USB_VBUS_EN1_PZ2 = 153"
definition TEGRA_PIN_SPI1_SCK_PZ3 :: nat where "TEGRA_PIN_SPI1_SCK_PZ3 = 154"
definition TEGRA_PIN_SPI1_MISO_PZ4 :: nat where "TEGRA_PIN_SPI1_MISO_PZ4 = 155"
definition TEGRA_PIN_SPI1_MOSI_PZ5 :: nat where "TEGRA_PIN_SPI1_MOSI_PZ5 = 156"
definition TEGRA_PIN_SPI1_CS0_PZ6 :: nat where "TEGRA_PIN_SPI1_CS0_PZ6 = 157"
definition TEGRA_PIN_SPI1_CS1_PZ7 :: nat where "TEGRA_PIN_SPI1_CS1_PZ7 = 158"
definition TEGRA_PIN_CAN0_DOUT_PAA0 :: nat where "TEGRA_PIN_CAN0_DOUT_PAA0 = 159"
definition TEGRA_PIN_CAN0_DIN_PAA1 :: nat where "TEGRA_PIN_CAN0_DIN_PAA1 = 160"
definition TEGRA_PIN_CAN1_DOUT_PAA2 :: nat where "TEGRA_PIN_CAN1_DOUT_PAA2 = 161"
definition TEGRA_PIN_CAN1_DIN_PAA3 :: nat where "TEGRA_PIN_CAN1_DIN_PAA3 = 162"
definition TEGRA_PIN_CAN0_STB_PAA4 :: nat where "TEGRA_PIN_CAN0_STB_PAA4 = 163"
definition TEGRA_PIN_CAN0_EN_PAA5 :: nat where "TEGRA_PIN_CAN0_EN_PAA5 = 164"
definition TEGRA_PIN_SOC_GPIO49_PAA6 :: nat where "TEGRA_PIN_SOC_GPIO49_PAA6 = 165"
definition TEGRA_PIN_CAN0_ERR_PAA7 :: nat where "TEGRA_PIN_CAN0_ERR_PAA7 = 166"
definition TEGRA_PIN_SPI5_SCK_PAC0 :: nat where "TEGRA_PIN_SPI5_SCK_PAC0 = 167"
definition TEGRA_PIN_SPI5_MISO_PAC1 :: nat where "TEGRA_PIN_SPI5_MISO_PAC1 = 168"
definition TEGRA_PIN_SPI5_MOSI_PAC2 :: nat where "TEGRA_PIN_SPI5_MOSI_PAC2 = 169"
definition TEGRA_PIN_SPI5_CS0_PAC3 :: nat where "TEGRA_PIN_SPI5_CS0_PAC3 = 170"
definition TEGRA_PIN_SOC_GPIO57_PAC4 :: nat where "TEGRA_PIN_SOC_GPIO57_PAC4 = 171"
definition TEGRA_PIN_SOC_GPIO58_PAC5 :: nat where "TEGRA_PIN_SOC_GPIO58_PAC5 = 172"
definition TEGRA_PIN_SOC_GPIO59_PAC6 :: nat where "TEGRA_PIN_SOC_GPIO59_PAC6 = 173"
definition TEGRA_PIN_SOC_GPIO60_PAC7 :: nat where "TEGRA_PIN_SOC_GPIO60_PAC7 = 174"
definition TEGRA_PIN_SOC_GPIO45_PAD0 :: nat where "TEGRA_PIN_SOC_GPIO45_PAD0 = 175"
definition TEGRA_PIN_SOC_GPIO46_PAD1 :: nat where "TEGRA_PIN_SOC_GPIO46_PAD1 = 176"
definition TEGRA_PIN_SOC_GPIO47_PAD2 :: nat where "TEGRA_PIN_SOC_GPIO47_PAD2 = 177"
definition TEGRA_PIN_SOC_GPIO48_PAD3 :: nat where "TEGRA_PIN_SOC_GPIO48_PAD3 = 178"
definition TEGRA_PIN_UFS0_REF_CLK_PAE0 :: nat where "TEGRA_PIN_UFS0_REF_CLK_PAE0 = 179"
definition TEGRA_PIN_UFS0_RST_N_PAE1 :: nat where "TEGRA_PIN_UFS0_RST_N_PAE1 = 180"
definition TEGRA_PIN_PEX_L5_CLKREQ_N_PAF0 :: nat where "TEGRA_PIN_PEX_L5_CLKREQ_N_PAF0 = 181"
definition TEGRA_PIN_PEX_L5_RST_N_PAF1 :: nat where "TEGRA_PIN_PEX_L5_RST_N_PAF1 = 182"
definition TEGRA_PIN_PEX_L6_CLKREQ_N_PAF2 :: nat where "TEGRA_PIN_PEX_L6_CLKREQ_N_PAF2 = 183"
definition TEGRA_PIN_PEX_L6_RST_N_PAF3 :: nat where "TEGRA_PIN_PEX_L6_RST_N_PAF3 = 184"
definition TEGRA_PIN_PEX_L7_CLKREQ_N_PAG0 :: nat where "TEGRA_PIN_PEX_L7_CLKREQ_N_PAG0 = 185"
definition TEGRA_PIN_PEX_L7_RST_N_PAG1 :: nat where "TEGRA_PIN_PEX_L7_RST_N_PAG1 = 186"
definition TEGRA_PIN_PEX_L8_CLKREQ_N_PAG2 :: nat where "TEGRA_PIN_PEX_L8_CLKREQ_N_PAG2 = 187"
definition TEGRA_PIN_PEX_L8_RST_N_PAG3 :: nat where "TEGRA_PIN_PEX_L8_RST_N_PAG3 = 188"
definition TEGRA_PIN_PEX_L9_CLKREQ_N_PAG4 :: nat where "TEGRA_PIN_PEX_L9_CLKREQ_N_PAG4 = 189"
definition TEGRA_PIN_PEX_L9_RST_N_PAG5 :: nat where "TEGRA_PIN_PEX_L9_RST_N_PAG5 = 190"
definition TEGRA_PIN_PEX_L10_CLKREQ_N_PAG6 :: nat where "TEGRA_PIN_PEX_L10_CLKREQ_N_PAG6 = 191"
definition TEGRA_PIN_PEX_L10_RST_N_PAG7 :: nat where "TEGRA_PIN_PEX_L10_RST_N_PAG7 = 192"
definition TEGRA_PIN_CAN1_STB_PBB0 :: nat where "TEGRA_PIN_CAN1_STB_PBB0 = 193"
definition TEGRA_PIN_CAN1_EN_PBB1 :: nat where "TEGRA_PIN_CAN1_EN_PBB1 = 194"
definition TEGRA_PIN_SOC_GPIO50_PBB2 :: nat where "TEGRA_PIN_SOC_GPIO50_PBB2 = 195"
definition TEGRA_PIN_CAN1_ERR_PBB3 :: nat where "TEGRA_PIN_CAN1_ERR_PBB3 = 196"
definition TEGRA_PIN_SPI2_SCK_PCC0 :: nat where "TEGRA_PIN_SPI2_SCK_PCC0 = 197"
definition TEGRA_PIN_SPI2_MISO_PCC1 :: nat where "TEGRA_PIN_SPI2_MISO_PCC1 = 198"
definition TEGRA_PIN_SPI2_MOSI_PCC2 :: nat where "TEGRA_PIN_SPI2_MOSI_PCC2 = 199"
definition TEGRA_PIN_SPI2_CS0_PCC3 :: nat where "TEGRA_PIN_SPI2_CS0_PCC3 = 200"
definition TEGRA_PIN_TOUCH_CLK_PCC4 :: nat where "TEGRA_PIN_TOUCH_CLK_PCC4 = 201"
definition TEGRA_PIN_UART3_TX_PCC5 :: nat where "TEGRA_PIN_UART3_TX_PCC5 = 202"
definition TEGRA_PIN_UART3_RX_PCC6 :: nat where "TEGRA_PIN_UART3_RX_PCC6 = 203"
definition TEGRA_PIN_GEN2_I2C_SCL_PCC7 :: nat where "TEGRA_PIN_GEN2_I2C_SCL_PCC7 = 204"
definition TEGRA_PIN_GEN2_I2C_SDA_PDD0 :: nat where "TEGRA_PIN_GEN2_I2C_SDA_PDD0 = 205"
definition TEGRA_PIN_GEN8_I2C_SCL_PDD1 :: nat where "TEGRA_PIN_GEN8_I2C_SCL_PDD1 = 206"
definition TEGRA_PIN_GEN8_I2C_SDA_PDD2 :: nat where "TEGRA_PIN_GEN8_I2C_SDA_PDD2 = 207"
definition TEGRA_PIN_SCE_ERROR_PEE0 :: nat where "TEGRA_PIN_SCE_ERROR_PEE0 = 208"
definition TEGRA_PIN_VCOMP_ALERT_PEE1 :: nat where "TEGRA_PIN_VCOMP_ALERT_PEE1 = 209"
definition TEGRA_PIN_AO_RETENTION_N_PEE2 :: nat where "TEGRA_PIN_AO_RETENTION_N_PEE2 = 210"
definition TEGRA_PIN_BATT_OC_PEE3 :: nat where "TEGRA_PIN_BATT_OC_PEE3 = 211"
definition TEGRA_PIN_POWER_ON_PEE4 :: nat where "TEGRA_PIN_POWER_ON_PEE4 = 212"
definition TEGRA_PIN_SOC_GPIO26_PEE5 :: nat where "TEGRA_PIN_SOC_GPIO26_PEE5 = 213"
definition TEGRA_PIN_SOC_GPIO27_PEE6 :: nat where "TEGRA_PIN_SOC_GPIO27_PEE6 = 214"
definition TEGRA_PIN_BOOTV_CTL_N_PEE7 :: nat where "TEGRA_PIN_BOOTV_CTL_N_PEE7 = 215"
definition TEGRA_PIN_HDMI_CEC_PGG0 :: nat where "TEGRA_PIN_HDMI_CEC_PGG0 = 216"

definition NUM_GPIOS :: nat where "NUM_GPIOS = TEGRA_PIN_HDMI_CEC_PGG0 + 1"

definition TEGRA_PIN_EQOS_COMP :: nat where "TEGRA_PIN_EQOS_COMP = NUM_GPIOS + 0"
definition TEGRA_PIN_QSPI_COMP :: nat where "TEGRA_PIN_QSPI_COMP = NUM_GPIOS + 1"
definition TEGRA_PIN_SDMMC1_COMP :: nat where "TEGRA_PIN_SDMMC1_COMP = NUM_GPIOS + 2"

lemmas TEGRA_PIN_defs =
  TEGRA_PIN_DAP6_SCLK_PA0_def TEGRA_PIN_DAP6_DOUT_PA1_def TEGRA_PIN_DAP6_DIN_PA2_def
  TEGRA_PIN_DAP6_FS_PA3_def TEGRA_PIN_DAP4_SCLK_PA4_def TEGRA_PIN_DAP4_DOUT_PA5_def
  TEGRA_PIN_DAP4_DIN_PA6_def TEGRA_PIN_DAP4_FS_PA7_def TEGRA_PIN_SOC_GPIO08_PB0_def
  TEGRA_PIN_QSPI0_SCK_PC0_def TEGRA_PIN_QSPI0_CS_N_PC1_def TEGRA_PIN_QSPI0_IO0_PC2_def
  TEGRA_PIN_QSPI0_IO1_PC3_def TEGRA_PIN_QSPI0_IO2_PC4_def TEGRA_PIN_QSPI0_IO3_PC5_def
  TEGRA_PIN_QSPI1_SCK_PC6_def TEGRA_PIN_QSPI1_CS_N_PC7_def TEGRA_PIN_QSPI1_IO0_PD0_def
  TEGRA_PIN_QSPI1_IO1_PD1_def TEGRA_PIN_QSPI1_IO2_PD2_def TEGRA_PIN_QSPI1_IO3_PD3_def
  TEGRA_PIN_EQOS_TXC_PE0_def TEGRA_PIN_EQOS_TD0_PE1_def TEGRA_PIN_EQOS_TD1_PE2_def
  TEGRA_PIN_EQOS_TD2_PE3_def TEGRA_PIN_EQOS_TD3_PE4_def TEGRA_PIN_EQOS_TX_CTL_PE5_def
  TEGRA_PIN_EQOS_RD0_PE6_def TEGRA_PIN_EQOS_RD1_PE7_def TEGRA_PIN_EQOS_RD2_PF0_def
  TEGRA_PIN_EQOS_RD3_PF1_def TEGRA_PIN_EQOS_RX_CTL_PF2_def TEGRA_PIN_EQOS_RXC_PF3_def
  TEGRA_PIN_EQOS_SMA_MDIO_PF4_def TEGRA_PIN_EQOS_SMA_MDC_PF5_def TEGRA_PIN_SOC_GPIO13_PG0_def
  TEGRA_PIN_SOC_GPIO14_PG1_def TEGRA_PIN_SOC_GPIO15_PG2_def TEGRA_PIN_SOC_GPIO16_PG3_def
  TEGRA_PIN_SOC_GPIO17_PG4_def TEGRA_PIN_SOC_GPIO18_PG5_def TEGRA_PIN_SOC_GPIO19_PG6_def
  TEGRA_PIN_SOC_GPIO20_PG7_def TEGRA_PIN_SOC_GPIO21_PH0_def TEGRA_PIN_SOC_GPIO22_PH1_def
  TEGRA_PIN_SOC_GPIO06_PH2_def TEGRA_PIN_UART4_TX_PH3_def TEGRA_PIN_UART4_RX_PH4_def
  TEGRA_PIN_UART4_RTS_PH5_def TEGRA_PIN_UART4_CTS_PH6_def TEGRA_PIN_SOC_GPIO41_PH7_def
  TEGRA_PIN_SOC_GPIO42_PI0_def TEGRA_PIN_SOC_GPIO43_PI1_def TEGRA_PIN_SOC_GPIO44_PI2_def
  TEGRA_PIN_GEN1_I2C_SCL_PI3_def TEGRA_PIN_GEN1_I2C_SDA_PI4_def TEGRA_PIN_CPU_PWR_REQ_PI5_def
  TEGRA_PIN_SOC_GPIO07_PI6_def TEGRA_PIN_SDMMC1_CLK_PJ0_def TEGRA_PIN_SDMMC1_CMD_PJ1_def
  TEGRA_PIN_SDMMC1_DAT0_PJ2_def TEGRA_PIN_SDMMC1_DAT1_PJ3_def TEGRA_PIN_SDMMC1_DAT2_PJ4_def
  TEGRA_PIN_SDMMC1_DAT3_PJ5_def TEGRA_PIN_PEX_L0_CLKREQ_N_PK0_def TEGRA_PIN_PEX_L0_RST_N_PK1_def
  TEGRA_PIN_PEX_L1_CLKREQ_N_PK2_def TEGRA_PIN_PEX_L1_RST_N_PK3_def TEGRA_PIN_PEX_L2_CLKREQ_N_PK4_def
  TEGRA_PIN_PEX_L2_RST_N_PK5_def TEGRA_PIN_PEX_L3_CLKREQ_N_PK6_def TEGRA_PIN_PEX_L3_RST_N_PK7_def
  TEGRA_PIN_PEX_L4_CLKREQ_N_PL0_def TEGRA_PIN_PEX_L4_RST_N_PL1_def TEGRA_PIN_PEX_WAKE_N_PL2_def
  TEGRA_PIN_SOC_GPIO34_PL3_def TEGRA_PIN_DP_AUX_CH0_HPD_PM0_def TEGRA_PIN_DP_AUX_CH1_HPD_PM1_def
  TEGRA_PIN_DP_AUX_CH2_HPD_PM2_def TEGRA_PIN_DP_AUX_CH3_HPD_PM3_def TEGRA_PIN_SOC_GPIO55_PM4_def
  TEGRA_PIN_SOC_GPIO36_PM5_def TEGRA_PIN_SOC_GPIO53_PM6_def TEGRA_PIN_SOC_GPIO38_PM7_def
  TEGRA_PIN_DP_AUX_CH3_N_PN0_def TEGRA_PIN_SOC_GPIO39_PN1_def TEGRA_PIN_SOC_GPIO40_PN2_def
  TEGRA_PIN_DP_AUX_CH1_P_PN3_def TEGRA_PIN_DP_AUX_CH1_N_PN4_def TEGRA_PIN_DP_AUX_CH2_P_PN5_def
  TEGRA_PIN_DP_AUX_CH2_N_PN6_def TEGRA_PIN_DP_AUX_CH3_P_PN7_def TEGRA_PIN_EXTPERIPH1_CLK_PP0_def
  TEGRA_PIN_EXTPERIPH2_CLK_PP1_def TEGRA_PIN_CAM_I2C_SCL_PP2_def TEGRA_PIN_CAM_I2C_SDA_PP3_def
  TEGRA_PIN_SOC_GPIO23_PP4_def TEGRA_PIN_SOC_GPIO24_PP5_def TEGRA_PIN_SOC_GPIO25_PP6_def
  TEGRA_PIN_PWR_I2C_SCL_PP7_def TEGRA_PIN_PWR_I2C_SDA_PQ0_def TEGRA_PIN_SOC_GPIO28_PQ1_def
  TEGRA_PIN_SOC_GPIO29_PQ2_def TEGRA_PIN_SOC_GPIO30_PQ3_def TEGRA_PIN_SOC_GPIO31_PQ4_def
  TEGRA_PIN_SOC_GPIO32_PQ5_def TEGRA_PIN_SOC_GPIO33_PQ6_def TEGRA_PIN_SOC_GPIO35_PQ7_def
  TEGRA_PIN_SOC_GPIO37_PR0_def TEGRA_PIN_SOC_GPIO56_PR1_def TEGRA_PIN_UART1_TX_PR2_def
  TEGRA_PIN_UART1_RX_PR3_def TEGRA_PIN_UART1_RTS_PR4_def TEGRA_PIN_UART1_CTS_PR5_def
  TEGRA_PIN_CAN2_DOUT_PS0_def TEGRA_PIN_CAN2_DIN_PS1_def TEGRA_PIN_CAN2_STB_PS2_def
  TEGRA_PIN_CAN2_EN_PS3_def TEGRA_PIN_CAN2_ERR_PS4_def TEGRA_PIN_CAN3_DOUT_PS5_def
  TEGRA_PIN_CAN3_DIN_PS6_def TEGRA_PIN_CAN3_STB_PS7_def TEGRA_PIN_CAN3_EN_PT0_def
  TEGRA_PIN_CAN3_ERR_PT1_def TEGRA_PIN_SOC_ERROR_PU0_def TEGRA_PIN_UART7_TX_PU1_def
  TEGRA_PIN_UART7_RX_PU2_def TEGRA_PIN_SPI7_SCK_PU3_def TEGRA_PIN_SPI7_MISO_PU4_def
  TEGRA_PIN_SPI7_MOSI_PU5_def TEGRA_PIN_SPI7_CS0_PU6_def TEGRA_PIN_SOC_GPIO51_PU7_def
  TEGRA_PIN_SOC_GPIO52_PV0_def TEGRA_PIN_SOC_GPIO61_PW0_def TEGRA_PIN_SOC_GPIO62_PW1_def
  TEGRA_PIN_GPU_PWR_REQ_PX0_def TEGRA_PIN_CV_PWR_REQ_PX1_def TEGRA_PIN_GP_PWM2_PX2_def
  TEGRA_PIN_GP_PWM3_PX3_def TEGRA_PIN_UART2_TX_PX4_def TEGRA_PIN_UART2_RX_PX5_def
  TEGRA_PIN_UART2_RTS_PX6_def TEGRA_PIN_UART2_CTS_PX7_def TEGRA_PIN_SPI3_SCK_PY0_def
  TEGRA_PIN_SPI3_MISO_PY1_def TEGRA_PIN_SPI3_MOSI_PY2_def TEGRA_PIN_SPI3_CS0_PY3_def
  TEGRA_PIN_SPI3_CS1_PY4_def TEGRA_PIN_UART5_TX_PY5_def TEGRA_PIN_UART5_RX_PY6_def
  TEGRA_PIN_UART5_RTS_PY7_def TEGRA_PIN_UART5_CTS_PZ0_def TEGRA_PIN_USB_VBUS_EN0_PZ1_def
  TEGRA_PIN_USB_VBUS_EN1_PZ2_def TEGRA_PIN_SPI1_SCK_PZ3_def TEGRA_PIN_SPI1_MISO_PZ4_def
  TEGRA_PIN_SPI1_MOSI_PZ5_def TEGRA_PIN_SPI1_CS0_PZ6_def TEGRA_PIN_SPI1_CS1_PZ7_def
  TEGRA_PIN_CAN0_DOUT_PAA0_def TEGRA_PIN_CAN0_DIN_PAA1_def TEGRA_PIN_CAN1_DOUT_PAA2_def
  TEGRA_PIN_CAN1_DIN_PAA3_def TEGRA_PIN_CAN0_STB_PAA4_def TEGRA_PIN_CAN0_EN_PAA5_def
  TEGRA_PIN_SOC_GPIO49_PAA6_def TEGRA_PIN_CAN0_ERR_PAA7_def TEGRA_PIN_SPI5_SCK_PAC0_def
  TEGRA_PIN_SPI5_MISO_PAC1_def TEGRA_PIN_SPI5_MOSI_PAC2_def TEGRA_PIN_SPI5_CS0_PAC3_def
  TEGRA_PIN_SOC_GPIO57_PAC4_def TEGRA_PIN_SOC_GPIO58_PAC5_def TEGRA_PIN_SOC_GPIO59_PAC6_def
  TEGRA_PIN_SOC_GPIO60_PAC7_def TEGRA_PIN_SOC_GPIO45_PAD0_def TEGRA_PIN_SOC_GPIO46_PAD1_def
  TEGRA_PIN_SOC_GPIO47_PAD2_def TEGRA_PIN_SOC_GPIO48_PAD3_def TEGRA_PIN_UFS0_REF_CLK_PAE0_def
  TEGRA_PIN_UFS0_RST_N_PAE1_def TEGRA_PIN_PEX_L5_CLKREQ_N_PAF0_def TEGRA_PIN_PEX_L5_RST_N_PAF1_def
  TEGRA_PIN_PEX_L6_CLKREQ_N_PAF2_def TEGRA_PIN_PEX_L6_RST_N_PAF3_def TEGRA_PIN_PEX_L7_CLKREQ_N_PAG0_def
  TEGRA_PIN_PEX_L7_RST_N_PAG1_def TEGRA_PIN_PEX_L8_CLKREQ_N_PAG2_def TEGRA_PIN_PEX_L8_RST_N_PAG3_def
  TEGRA_PIN_PEX_L9_CLKREQ_N_PAG4_def TEGRA_PIN_PEX_L9_RST_N_PAG5_def TEGRA_PIN_PEX_L10_CLKREQ_N_PAG6_def
  TEGRA_PIN_PEX_L10_RST_N_PAG7_def TEGRA_PIN_CAN1_STB_PBB0_def TEGRA_PIN_CAN1_EN_PBB1_def
  TEGRA_PIN_SOC_GPIO50_PBB2_def TEGRA_PIN_CAN1_ERR_PBB3_def TEGRA_PIN_SPI2_SCK_PCC0_def
  TEGRA_PIN_SPI2_MISO_PCC1_def TEGRA_PIN_SPI2_MOSI_PCC2_def TEGRA_PIN_SPI2_CS0_PCC3_def
  TEGRA_PIN_TOUCH_CLK_PCC4_def TEGRA_PIN_UART3_TX_PCC5_def TEGRA_PIN_UART3_RX_PCC6_def
  TEGRA_PIN_GEN2_I2C_SCL_PCC7_def TEGRA_PIN_GEN2_I2C_SDA_PDD0_def TEGRA_PIN_GEN8_I2C_SCL_PDD1_def
  TEGRA_PIN_GEN8_I2C_SDA_PDD2_def TEGRA_PIN_SCE_ERROR_PEE0_def TEGRA_PIN_VCOMP_ALERT_PEE1_def
  TEGRA_PIN_AO_RETENTION_N_PEE2_def TEGRA_PIN_BATT_OC_PEE3_def TEGRA_PIN_POWER_ON_PEE4_def
  TEGRA_PIN_SOC_GPIO26_PEE5_def TEGRA_PIN_SOC_GPIO27_PEE6_def TEGRA_PIN_BOOTV_CTL_N_PEE7_def
  TEGRA_PIN_HDMI_CEC_PGG0_def TEGRA_PIN_EQOS_COMP_def TEGRA_PIN_QSPI_COMP_def
  TEGRA_PIN_SDMMC1_COMP_def NUM_GPIOS_def

text \<open>\<^verbatim>\<open>enum tegra_mux_dt\<close>, from \<^verbatim>\<open>T234_FUNCTION_TABLE\<close>, numbered in the order of the table.\<close>

definition TEGRA_MUX_GP :: nat where "TEGRA_MUX_GP = 0"
definition TEGRA_MUX_UARTC :: nat where "TEGRA_MUX_UARTC = 1"
definition TEGRA_MUX_I2C8 :: nat where "TEGRA_MUX_I2C8 = 2"
definition TEGRA_MUX_SPI2 :: nat where "TEGRA_MUX_SPI2 = 3"
definition TEGRA_MUX_I2C2 :: nat where "TEGRA_MUX_I2C2 = 4"
definition TEGRA_MUX_CAN1 :: nat where "TEGRA_MUX_CAN1 = 5"
definition TEGRA_MUX_CAN0 :: nat where "TEGRA_MUX_CAN0 = 6"
definition TEGRA_MUX_RSVD0 :: nat where "TEGRA_MUX_RSVD0 = 7"
definition TEGRA_MUX_ETH0 :: nat where "TEGRA_MUX_ETH0 = 8"
definition TEGRA_MUX_ETH2 :: nat where "TEGRA_MUX_ETH2 = 9"
definition TEGRA_MUX_ETH1 :: nat where "TEGRA_MUX_ETH1 = 10"
definition TEGRA_MUX_DP :: nat where "TEGRA_MUX_DP = 11"
definition TEGRA_MUX_ETH3 :: nat where "TEGRA_MUX_ETH3 = 12"
definition TEGRA_MUX_I2C4 :: nat where "TEGRA_MUX_I2C4 = 13"
definition TEGRA_MUX_I2C7 :: nat where "TEGRA_MUX_I2C7 = 14"
definition TEGRA_MUX_I2C9 :: nat where "TEGRA_MUX_I2C9 = 15"
definition TEGRA_MUX_EQOS :: nat where "TEGRA_MUX_EQOS = 16"
definition TEGRA_MUX_PE2 :: nat where "TEGRA_MUX_PE2 = 17"
definition TEGRA_MUX_PE1 :: nat where "TEGRA_MUX_PE1 = 18"
definition TEGRA_MUX_PE0 :: nat where "TEGRA_MUX_PE0 = 19"
definition TEGRA_MUX_PE3 :: nat where "TEGRA_MUX_PE3 = 20"
definition TEGRA_MUX_PE4 :: nat where "TEGRA_MUX_PE4 = 21"
definition TEGRA_MUX_PE5 :: nat where "TEGRA_MUX_PE5 = 22"
definition TEGRA_MUX_PE6 :: nat where "TEGRA_MUX_PE6 = 23"
definition TEGRA_MUX_PE10 :: nat where "TEGRA_MUX_PE10 = 24"
definition TEGRA_MUX_PE7 :: nat where "TEGRA_MUX_PE7 = 25"
definition TEGRA_MUX_PE8 :: nat where "TEGRA_MUX_PE8 = 26"
definition TEGRA_MUX_PE9 :: nat where "TEGRA_MUX_PE9 = 27"
definition TEGRA_MUX_QSPI0 :: nat where "TEGRA_MUX_QSPI0 = 28"
definition TEGRA_MUX_QSPI1 :: nat where "TEGRA_MUX_QSPI1 = 29"
definition TEGRA_MUX_QSPI :: nat where "TEGRA_MUX_QSPI = 30"
definition TEGRA_MUX_SDMMC1 :: nat where "TEGRA_MUX_SDMMC1 = 31"
definition TEGRA_MUX_SCE :: nat where "TEGRA_MUX_SCE = 32"
definition TEGRA_MUX_SOC :: nat where "TEGRA_MUX_SOC = 33"
definition TEGRA_MUX_GPIO :: nat where "TEGRA_MUX_GPIO = 34"
definition TEGRA_MUX_HDMI :: nat where "TEGRA_MUX_HDMI = 35"
definition TEGRA_MUX_UFS0 :: nat where "TEGRA_MUX_UFS0 = 36"
definition TEGRA_MUX_SPI3 :: nat where "TEGRA_MUX_SPI3 = 37"
definition TEGRA_MUX_SPI1 :: nat where "TEGRA_MUX_SPI1 = 38"
definition TEGRA_MUX_UARTB :: nat where "TEGRA_MUX_UARTB = 39"
definition TEGRA_MUX_UARTE :: nat where "TEGRA_MUX_UARTE = 40"
definition TEGRA_MUX_USB :: nat where "TEGRA_MUX_USB = 41"
definition TEGRA_MUX_EXTPERIPH2 :: nat where "TEGRA_MUX_EXTPERIPH2 = 42"
definition TEGRA_MUX_EXTPERIPH1 :: nat where "TEGRA_MUX_EXTPERIPH1 = 43"
definition TEGRA_MUX_I2C3 :: nat where "TEGRA_MUX_I2C3 = 44"
definition TEGRA_MUX_VI0 :: nat where "TEGRA_MUX_VI0 = 45"
definition TEGRA_MUX_I2C5 :: nat where "TEGRA_MUX_I2C5 = 46"
definition TEGRA_MUX_UARTA :: nat where "TEGRA_MUX_UARTA = 47"
definition TEGRA_MUX_UARTD :: nat where "TEGRA_MUX_UARTD = 48"
definition TEGRA_MUX_I2C1 :: nat where "TEGRA_MUX_I2C1 = 49"
definition TEGRA_MUX_I2S4 :: nat where "TEGRA_MUX_I2S4 = 50"
definition TEGRA_MUX_I2S6 :: nat where "TEGRA_MUX_I2S6 = 51"
definition TEGRA_MUX_AUD :: nat where "TEGRA_MUX_AUD = 52"
definition TEGRA_MUX_SPI5 :: nat where "TEGRA_MUX_SPI5 = 53"
definition TEGRA_MUX_TOUCH :: nat where "TEGRA_MUX_TOUCH = 54"
definition TEGRA_MUX_UARTJ :: nat where "TEGRA_MUX_UARTJ = 55"
definition TEGRA_MUX_RSVD1 :: nat where "TEGRA_MUX_RSVD1 = 56"
definition TEGRA_MUX_WDT :: nat where "TEGRA_MUX_WDT = 57"
definition TEGRA_MUX_TSC :: nat where "TEGRA_MUX_TSC = 58"
definition TEGRA_MUX_DMIC3 :: nat where "TEGRA_MUX_DMIC3 = 59"
definition TEGRA_MUX_LED :: nat where "TEGRA_MUX_LED = 60"
definition TEGRA_MUX_VI0_ALT :: nat where "TEGRA_MUX_VI0_ALT = 61"
definition TEGRA_MUX_I2S5 :: nat where "TEGRA_MUX_I2S5 = 62"
definition TEGRA_MUX_NV :: nat where "TEGRA_MUX_NV = 63"
definition TEGRA_MUX_EXTPERIPH3 :: nat where "TEGRA_MUX_EXTPERIPH3 = 64"
definition TEGRA_MUX_EXTPERIPH4 :: nat where "TEGRA_MUX_EXTPERIPH4 = 65"
definition TEGRA_MUX_SPI4 :: nat where "TEGRA_MUX_SPI4 = 66"
definition TEGRA_MUX_CCLA :: nat where "TEGRA_MUX_CCLA = 67"
definition TEGRA_MUX_I2S2 :: nat where "TEGRA_MUX_I2S2 = 68"
definition TEGRA_MUX_I2S1 :: nat where "TEGRA_MUX_I2S1 = 69"
definition TEGRA_MUX_I2S8 :: nat where "TEGRA_MUX_I2S8 = 70"
definition TEGRA_MUX_I2S3 :: nat where "TEGRA_MUX_I2S3 = 71"
definition TEGRA_MUX_RSVD2 :: nat where "TEGRA_MUX_RSVD2 = 72"
definition TEGRA_MUX_DMIC5 :: nat where "TEGRA_MUX_DMIC5 = 73"
definition TEGRA_MUX_DCA :: nat where "TEGRA_MUX_DCA = 74"
definition TEGRA_MUX_DISPLAYB :: nat where "TEGRA_MUX_DISPLAYB = 75"
definition TEGRA_MUX_DISPLAYA :: nat where "TEGRA_MUX_DISPLAYA = 76"
definition TEGRA_MUX_VI1 :: nat where "TEGRA_MUX_VI1 = 77"
definition TEGRA_MUX_DCB :: nat where "TEGRA_MUX_DCB = 78"
definition TEGRA_MUX_DMIC1 :: nat where "TEGRA_MUX_DMIC1 = 79"
definition TEGRA_MUX_DMIC4 :: nat where "TEGRA_MUX_DMIC4 = 80"
definition TEGRA_MUX_I2S7 :: nat where "TEGRA_MUX_I2S7 = 81"
definition TEGRA_MUX_DMIC2 :: nat where "TEGRA_MUX_DMIC2 = 82"
definition TEGRA_MUX_DSPK0 :: nat where "TEGRA_MUX_DSPK0 = 83"
definition TEGRA_MUX_RSVD3 :: nat where "TEGRA_MUX_RSVD3 = 84"
definition TEGRA_MUX_TSC_ALT :: nat where "TEGRA_MUX_TSC_ALT = 85"
definition TEGRA_MUX_ISTCTRL :: nat where "TEGRA_MUX_ISTCTRL = 86"
definition TEGRA_MUX_VI1_ALT :: nat where "TEGRA_MUX_VI1_ALT = 87"
definition TEGRA_MUX_DSPK1 :: nat where "TEGRA_MUX_DSPK1 = 88"
definition TEGRA_MUX_IGPU :: nat where "TEGRA_MUX_IGPU = 89"

lemmas TEGRA_MUX_defs =
  TEGRA_MUX_GP_def TEGRA_MUX_UARTC_def TEGRA_MUX_I2C8_def TEGRA_MUX_SPI2_def
  TEGRA_MUX_I2C2_def TEGRA_MUX_CAN1_def TEGRA_MUX_CAN0_def TEGRA_MUX_RSVD0_def
  TEGRA_MUX_ETH0_def TEGRA_MUX_ETH2_def TEGRA_MUX_ETH1_def TEGRA_MUX_DP_def
  TEGRA_MUX_ETH3_def TEGRA_MUX_I2C4_def TEGRA_MUX_I2C7_def TEGRA_MUX_I2C9_def
  TEGRA_MUX_EQOS_def TEGRA_MUX_PE2_def TEGRA_MUX_PE1_def TEGRA_MUX_PE0_def
  TEGRA_MUX_PE3_def TEGRA_MUX_PE4_def TEGRA_MUX_PE5_def TEGRA_MUX_PE6_def
  TEGRA_MUX_PE10_def TEGRA_MUX_PE7_def TEGRA_MUX_PE8_def TEGRA_MUX_PE9_def
  TEGRA_MUX_QSPI0_def TEGRA_MUX_QSPI1_def TEGRA_MUX_QSPI_def TEGRA_MUX_SDMMC1_def
  TEGRA_MUX_SCE_def TEGRA_MUX_SOC_def TEGRA_MUX_GPIO_def TEGRA_MUX_HDMI_def
  TEGRA_MUX_UFS0_def TEGRA_MUX_SPI3_def TEGRA_MUX_SPI1_def TEGRA_MUX_UARTB_def
  TEGRA_MUX_UARTE_def TEGRA_MUX_USB_def TEGRA_MUX_EXTPERIPH2_def TEGRA_MUX_EXTPERIPH1_def
  TEGRA_MUX_I2C3_def TEGRA_MUX_VI0_def TEGRA_MUX_I2C5_def TEGRA_MUX_UARTA_def
  TEGRA_MUX_UARTD_def TEGRA_MUX_I2C1_def TEGRA_MUX_I2S4_def TEGRA_MUX_I2S6_def
  TEGRA_MUX_AUD_def TEGRA_MUX_SPI5_def TEGRA_MUX_TOUCH_def TEGRA_MUX_UARTJ_def
  TEGRA_MUX_RSVD1_def TEGRA_MUX_WDT_def TEGRA_MUX_TSC_def TEGRA_MUX_DMIC3_def
  TEGRA_MUX_LED_def TEGRA_MUX_VI0_ALT_def TEGRA_MUX_I2S5_def TEGRA_MUX_NV_def
  TEGRA_MUX_EXTPERIPH3_def TEGRA_MUX_EXTPERIPH4_def TEGRA_MUX_SPI4_def TEGRA_MUX_CCLA_def
  TEGRA_MUX_I2S2_def TEGRA_MUX_I2S1_def TEGRA_MUX_I2S8_def TEGRA_MUX_I2S3_def
  TEGRA_MUX_RSVD2_def TEGRA_MUX_DMIC5_def TEGRA_MUX_DCA_def TEGRA_MUX_DISPLAYB_def
  TEGRA_MUX_DISPLAYA_def TEGRA_MUX_VI1_def TEGRA_MUX_DCB_def TEGRA_MUX_DMIC1_def
  TEGRA_MUX_DMIC4_def TEGRA_MUX_I2S7_def TEGRA_MUX_DMIC2_def TEGRA_MUX_DSPK0_def
  TEGRA_MUX_RSVD3_def TEGRA_MUX_TSC_ALT_def TEGRA_MUX_ISTCTRL_def TEGRA_MUX_VI1_ALT_def
  TEGRA_MUX_DSPK1_def TEGRA_MUX_IGPU_def

text \<open>
  The macros that build one entry of the group table. A field that the macros
  do not name is zero, as in a C initialiser. The drive entry comes last in
  \<^verbatim>\<open>PINGROUP\<close> and so overrides the \<^verbatim>\<open>drv_reg\<close> of \<^verbatim>\<open>PIN_PINGROUP_ENTRY_Y\<close>.
\<close>

definition PINGROUP_REG_Y :: "int \<Rightarrow> int" where "PINGROUP_REG_Y r = r"
definition PINGROUP_REG_N :: "int \<Rightarrow> int" where "PINGROUP_REG_N r = - 1"

definition DRV_PINGROUP_Y :: "int \<Rightarrow> int" where "DRV_PINGROUP_Y r = r"

record drv_pingroup_entry =
  entry_drv_reg :: int
  entry_drv_bank :: int
  entry_drvdn_bit :: int
  entry_drvdn_width :: int
  entry_drvup_bit :: int
  entry_drvup_width :: int
  entry_slwr_bit :: int
  entry_slwr_width :: int
  entry_slwf_bit :: int
  entry_slwf_width :: int

definition DRV_PINGROUP_ENTRY_N :: drv_pingroup_entry where
  "DRV_PINGROUP_ENTRY_N =
     \<lparr>entry_drv_reg = - 1, entry_drv_bank = - 1,
      entry_drvdn_bit = - 1, entry_drvdn_width = 0,
      entry_drvup_bit = - 1, entry_drvup_width = 0,
      entry_slwr_bit = - 1, entry_slwr_width = 0,
      entry_slwf_bit = - 1, entry_slwf_width = 0\<rparr>"

definition DRV_PINGROUP_ENTRY_Y ::
  "int \<Rightarrow> int \<Rightarrow> int \<Rightarrow> int \<Rightarrow> int \<Rightarrow> int \<Rightarrow> int \<Rightarrow> int \<Rightarrow> int \<Rightarrow> int \<Rightarrow> drv_pingroup_entry" where
  "DRV_PINGROUP_ENTRY_Y r drvdn_b drvdn_w drvup_b drvup_w slwr_b slwr_w slwf_b slwf_w bank =
     \<lparr>entry_drv_reg = DRV_PINGROUP_Y r, entry_drv_bank = bank,
      entry_drvdn_bit = drvdn_b, entry_drvdn_width = drvdn_w,
      entry_drvup_bit = drvup_b, entry_drvup_width = drvup_w,
      entry_slwr_bit = slwr_b, entry_slwr_width = slwr_w,
      entry_slwf_bit = slwf_b, entry_slwf_width = slwf_w\<rparr>"

definition PINGROUP ::
  "string \<Rightarrow> nat list \<Rightarrow> nat \<Rightarrow> nat \<Rightarrow> nat \<Rightarrow> nat \<Rightarrow> int \<Rightarrow> int \<Rightarrow> (int \<Rightarrow> int) \<Rightarrow>
     int \<Rightarrow> int \<Rightarrow> int \<Rightarrow> int \<Rightarrow> int \<Rightarrow> int \<Rightarrow> int \<Rightarrow> drv_pingroup_entry \<Rightarrow> tegra_pingroup" where
  "PINGROUP pg_name pg_name_pins f0 f1 f2 f3 r bank pupd e_io_hv e_lpbk e_input e_lpdr
       e_pbias_buf gpio_sfio_sel schmitt_b drive_pg_name =
     \<lparr>name = pg_name,
      pins = pg_name_pins,
      funcs = [f0, f1, f2, f3],
      mux_reg = PINGROUP_REG_Y r,
      mux_bank = bank,
      mux_bit = 0,
      pupd_reg = pupd r,
      pupd_bank = bank,
      pupd_bit = 2,
      tri_reg = PINGROUP_REG_Y r,
      tri_bank = bank,
      tri_bit = 4,
      drv_reg = entry_drv_reg drive_pg_name,
      drv_bank = entry_drv_bank drive_pg_name,
      lpbk_reg = PINGROUP_REG_Y r,
      lpbk_bank = bank,
      lpbk_bit = e_lpbk,
      pad_reg = 0,
      pad_bank = 0,
      pad_bit = 0,
      einput_bit = e_input,
      odrain_bit = 0,
      lock_bit = - 1,
      ioreset_bit = 0,
      rcv_sel_bit = 0,
      hsm_bit = - 1,
      sfsel_bit = gpio_sfio_sel,
      schmitt_bit = schmitt_b,
      lpmd_bit = - 1,
      drvdn_bit = entry_drvdn_bit drive_pg_name,
      drvdn_width = entry_drvdn_width drive_pg_name,
      drvup_bit = entry_drvup_bit drive_pg_name,
      drvup_width = entry_drvup_width drive_pg_name,
      slwr_bit = entry_slwr_bit drive_pg_name,
      slwr_width = entry_slwr_width drive_pg_name,
      slwf_bit = entry_slwf_bit drive_pg_name,
      slwf_width = entry_slwf_width drive_pg_name,
      drvtype_bit = 13,
      parked_bitmask = 0\<rparr>"

text \<open>\<^verbatim>\<open>tegra234_groups\<close>, one line for each line of the source, with the drive entry of the group written in place.\<close>

definition tegra234_groups :: "tegra_pingroup list" where
  "tegra234_groups = [
    PINGROUP ''touch_clk_pcc4'' [TEGRA_PIN_TOUCH_CLK_PCC4] TEGRA_MUX_GP TEGRA_MUX_TOUCH TEGRA_MUX_RSVD2 TEGRA_MUX_RSVD3 0x2000 1 PINGROUP_REG_Y 5 7 6 8 (- 1) 10 12
      (DRV_PINGROUP_ENTRY_Y 0x2004 12 5 20 5 (- 1) (- 1) (- 1) (- 1) 1),
    PINGROUP ''uart3_rx_pcc6'' [TEGRA_PIN_UART3_RX_PCC6] TEGRA_MUX_UARTC TEGRA_MUX_UARTJ TEGRA_MUX_RSVD2 TEGRA_MUX_RSVD3 0x2008 1 PINGROUP_REG_Y 5 7 6 8 (- 1) 10 12
      (DRV_PINGROUP_ENTRY_Y 0x200C 12 5 20 5 (- 1) (- 1) (- 1) (- 1) 1),
    PINGROUP ''uart3_tx_pcc5'' [TEGRA_PIN_UART3_TX_PCC5] TEGRA_MUX_UARTC TEGRA_MUX_UARTJ TEGRA_MUX_RSVD2 TEGRA_MUX_RSVD3 0x2010 1 PINGROUP_REG_Y 5 7 6 8 (- 1) 10 12
      (DRV_PINGROUP_ENTRY_Y 0x2014 12 5 20 5 (- 1) (- 1) (- 1) (- 1) 1),
    PINGROUP ''gen8_i2c_sda_pdd2'' [TEGRA_PIN_GEN8_I2C_SDA_PDD2] TEGRA_MUX_I2C8 TEGRA_MUX_RSVD1 TEGRA_MUX_RSVD2 TEGRA_MUX_RSVD3 0x2018 1 PINGROUP_REG_Y 5 7 6 8 (- 1) 10 12
      (DRV_PINGROUP_ENTRY_Y 0x201C 12 5 20 5 (- 1) (- 1) (- 1) (- 1) 1),
    PINGROUP ''gen8_i2c_scl_pdd1'' [TEGRA_PIN_GEN8_I2C_SCL_PDD1] TEGRA_MUX_I2C8 TEGRA_MUX_RSVD1 TEGRA_MUX_RSVD2 TEGRA_MUX_RSVD3 0x2020 1 PINGROUP_REG_Y 5 7 6 8 (- 1) 10 12
      (DRV_PINGROUP_ENTRY_Y 0x2024 12 5 20 5 (- 1) (- 1) (- 1) (- 1) 1),
    PINGROUP ''spi2_mosi_pcc2'' [TEGRA_PIN_SPI2_MOSI_PCC2] TEGRA_MUX_SPI2 TEGRA_MUX_RSVD1 TEGRA_MUX_RSVD2 TEGRA_MUX_RSVD3 0x2028 1 PINGROUP_REG_Y 5 7 6 8 (- 1) 10 12
      (DRV_PINGROUP_ENTRY_Y 0x202C 12 5 20 5 (- 1) (- 1) (- 1) (- 1) 1),
    PINGROUP ''gen2_i2c_scl_pcc7'' [TEGRA_PIN_GEN2_I2C_SCL_PCC7] TEGRA_MUX_I2C2 TEGRA_MUX_RSVD1 TEGRA_MUX_RSVD2 TEGRA_MUX_RSVD3 0x2030 1 PINGROUP_REG_Y 5 7 6 8 (- 1) 10 12
      (DRV_PINGROUP_ENTRY_Y 0x2034 12 5 20 5 (- 1) (- 1) (- 1) (- 1) 1),
    PINGROUP ''spi2_cs0_pcc3'' [TEGRA_PIN_SPI2_CS0_PCC3] TEGRA_MUX_SPI2 TEGRA_MUX_RSVD1 TEGRA_MUX_RSVD2 TEGRA_MUX_RSVD3 0x2038 1 PINGROUP_REG_Y 5 7 6 8 (- 1) 10 12
      (DRV_PINGROUP_ENTRY_Y 0x203C 12 5 20 5 (- 1) (- 1) (- 1) (- 1) 1),
    PINGROUP ''gen2_i2c_sda_pdd0'' [TEGRA_PIN_GEN2_I2C_SDA_PDD0] TEGRA_MUX_I2C2 TEGRA_MUX_RSVD1 TEGRA_MUX_RSVD2 TEGRA_MUX_RSVD3 0x2040 1 PINGROUP_REG_Y 5 7 6 8 (- 1) 10 12
      (DRV_PINGROUP_ENTRY_Y 0x2044 12 5 20 5 (- 1) (- 1) (- 1) (- 1) 1),
    PINGROUP ''spi2_sck_pcc0'' [TEGRA_PIN_SPI2_SCK_PCC0] TEGRA_MUX_SPI2 TEGRA_MUX_RSVD1 TEGRA_MUX_RSVD2 TEGRA_MUX_RSVD3 0x2048 1 PINGROUP_REG_Y 5 7 6 8 (- 1) 10 12
      (DRV_PINGROUP_ENTRY_Y 0x204C 12 5 20 5 (- 1) (- 1) (- 1) (- 1) 1),
    PINGROUP ''spi2_miso_pcc1'' [TEGRA_PIN_SPI2_MISO_PCC1] TEGRA_MUX_SPI2 TEGRA_MUX_RSVD1 TEGRA_MUX_RSVD2 TEGRA_MUX_RSVD3 0x2050 1 PINGROUP_REG_Y 5 7 6 8 (- 1) 10 12
      (DRV_PINGROUP_ENTRY_Y 0x2054 12 5 20 5 (- 1) (- 1) (- 1) (- 1) 1),
    PINGROUP ''can1_dout_paa2'' [TEGRA_PIN_CAN1_DOUT_PAA2] TEGRA_MUX_CAN1 TEGRA_MUX_RSVD1 TEGRA_MUX_RSVD2 TEGRA_MUX_RSVD3 0x3000 1 PINGROUP_REG_Y (- 1) 5 6 (- 1) 9 10 12
      (DRV_PINGROUP_ENTRY_Y 0x3004 28 2 30 2 (- 1) (- 1) (- 1) (- 1) 1),
    PINGROUP ''can1_din_paa3'' [TEGRA_PIN_CAN1_DIN_PAA3] TEGRA_MUX_CAN1 TEGRA_MUX_RSVD1 TEGRA_MUX_RSVD2 TEGRA_MUX_RSVD3 0x3008 1 PINGROUP_REG_Y (- 1) 5 6 (- 1) 9 10 12
      (DRV_PINGROUP_ENTRY_Y 0x300C 28 2 30 2 (- 1) (- 1) (- 1) (- 1) 1),
    PINGROUP ''can0_dout_paa0'' [TEGRA_PIN_CAN0_DOUT_PAA0] TEGRA_MUX_CAN0 TEGRA_MUX_RSVD1 TEGRA_MUX_RSVD2 TEGRA_MUX_RSVD3 0x3010 1 PINGROUP_REG_Y (- 1) 5 6 (- 1) 9 10 12
      (DRV_PINGROUP_ENTRY_Y 0x3014 28 2 30 2 (- 1) (- 1) (- 1) (- 1) 1),
    PINGROUP ''can0_din_paa1'' [TEGRA_PIN_CAN0_DIN_PAA1] TEGRA_MUX_CAN0 TEGRA_MUX_RSVD1 TEGRA_MUX_RSVD2 TEGRA_MUX_RSVD3 0x3018 1 PINGROUP_REG_Y (- 1) 5 6 (- 1) 9 10 12
      (DRV_PINGROUP_ENTRY_Y 0x301C 28 2 30 2 (- 1) (- 1) (- 1) (- 1) 1),
    PINGROUP ''can0_stb_paa4'' [TEGRA_PIN_CAN0_STB_PAA4] TEGRA_MUX_RSVD0 TEGRA_MUX_WDT TEGRA_MUX_TSC TEGRA_MUX_TSC_ALT 0x3020 1 PINGROUP_REG_Y (- 1) 5 6 (- 1) 9 10 12
      (DRV_PINGROUP_ENTRY_Y 0x3024 28 2 30 2 (- 1) (- 1) (- 1) (- 1) 1),
    PINGROUP ''can0_en_paa5'' [TEGRA_PIN_CAN0_EN_PAA5] TEGRA_MUX_RSVD0 TEGRA_MUX_RSVD1 TEGRA_MUX_RSVD2 TEGRA_MUX_RSVD3 0x3028 1 PINGROUP_REG_Y (- 1) 5 6 (- 1) 9 10 12
      (DRV_PINGROUP_ENTRY_Y 0x302C 28 2 30 2 (- 1) (- 1) (- 1) (- 1) 1),
    PINGROUP ''soc_gpio49_paa6'' [TEGRA_PIN_SOC_GPIO49_PAA6] TEGRA_MUX_RSVD0 TEGRA_MUX_RSVD1 TEGRA_MUX_RSVD2 TEGRA_MUX_RSVD3 0x3030 1 PINGROUP_REG_Y (- 1) 5 6 (- 1) 9 10 12
      (DRV_PINGROUP_ENTRY_Y 0x3034 28 2 30 2 (- 1) (- 1) (- 1) (- 1) 1),
    PINGROUP ''can0_err_paa7'' [TEGRA_PIN_CAN0_ERR_PAA7] TEGRA_MUX_RSVD0 TEGRA_MUX_TSC TEGRA_MUX_RSVD2 TEGRA_MUX_TSC_ALT 0x3038 1 PINGROUP_REG_Y (- 1) 5 6 (- 1) 9 10 12
      (DRV_PINGROUP_ENTRY_Y 0x303C 28 2 30 2 (- 1) (- 1) (- 1) (- 1) 1),
    PINGROUP ''can1_stb_pbb0'' [TEGRA_PIN_CAN1_STB_PBB0] TEGRA_MUX_RSVD0 TEGRA_MUX_DMIC3 TEGRA_MUX_DMIC5 TEGRA_MUX_RSVD3 0x3040 1 PINGROUP_REG_Y (- 1) 5 6 (- 1) 9 10 12
      (DRV_PINGROUP_ENTRY_Y 0x3044 28 2 30 2 (- 1) (- 1) (- 1) (- 1) 1),
    PINGROUP ''can1_en_pbb1'' [TEGRA_PIN_CAN1_EN_PBB1] TEGRA_MUX_RSVD0 TEGRA_MUX_DMIC3 TEGRA_MUX_DMIC5 TEGRA_MUX_RSVD3 0x3048 1 PINGROUP_REG_Y (- 1) 5 6 (- 1) 9 10 12
      (DRV_PINGROUP_ENTRY_Y 0x304C 28 2 30 2 (- 1) (- 1) (- 1) (- 1) 1),
    PINGROUP ''soc_gpio50_pbb2'' [TEGRA_PIN_SOC_GPIO50_PBB2] TEGRA_MUX_RSVD0 TEGRA_MUX_TSC TEGRA_MUX_RSVD2 TEGRA_MUX_TSC_ALT 0x3050 1 PINGROUP_REG_Y (- 1) 5 6 (- 1) 9 10 12
      (DRV_PINGROUP_ENTRY_Y 0x3054 28 2 30 2 (- 1) (- 1) (- 1) (- 1) 1),
    PINGROUP ''can1_err_pbb3'' [TEGRA_PIN_CAN1_ERR_PBB3] TEGRA_MUX_RSVD0 TEGRA_MUX_TSC TEGRA_MUX_RSVD2 TEGRA_MUX_TSC_ALT 0x3058 1 PINGROUP_REG_Y (- 1) 5 6 (- 1) 9 10 12
      (DRV_PINGROUP_ENTRY_Y 0x305C 28 2 30 2 (- 1) (- 1) (- 1) (- 1) 1),
    PINGROUP ''soc_gpio08_pb0'' [TEGRA_PIN_SOC_GPIO08_PB0] TEGRA_MUX_RSVD0 TEGRA_MUX_RSVD1 TEGRA_MUX_RSVD2 TEGRA_MUX_RSVD3 0x5008 0 PINGROUP_REG_Y (- 1) 7 6 8 (- 1) 10 12
      (DRV_PINGROUP_ENTRY_Y 0x500C 12 5 20 5 (- 1) (- 1) (- 1) (- 1) 0),
    PINGROUP ''soc_gpio36_pm5'' [TEGRA_PIN_SOC_GPIO36_PM5] TEGRA_MUX_ETH0 TEGRA_MUX_RSVD1 TEGRA_MUX_DCA TEGRA_MUX_RSVD3 0x10000 0 PINGROUP_REG_Y (- 1) 7 6 8 (- 1) 10 12
      (DRV_PINGROUP_ENTRY_Y 0x10004 12 5 20 5 (- 1) (- 1) (- 1) (- 1) 0),
    PINGROUP ''soc_gpio53_pm6'' [TEGRA_PIN_SOC_GPIO53_PM6] TEGRA_MUX_ETH0 TEGRA_MUX_RSVD1 TEGRA_MUX_DCA TEGRA_MUX_RSVD3 0x10008 0 PINGROUP_REG_Y (- 1) 7 6 8 (- 1) 10 12
      (DRV_PINGROUP_ENTRY_Y 0x1000C 12 5 20 5 (- 1) (- 1) (- 1) (- 1) 0),
    PINGROUP ''soc_gpio55_pm4'' [TEGRA_PIN_SOC_GPIO55_PM4] TEGRA_MUX_ETH2 TEGRA_MUX_RSVD1 TEGRA_MUX_RSVD2 TEGRA_MUX_RSVD3 0x10010 0 PINGROUP_REG_Y (- 1) 7 6 8 (- 1) 10 12
      (DRV_PINGROUP_ENTRY_Y 0x10014 12 5 20 5 (- 1) (- 1) (- 1) (- 1) 0),
    PINGROUP ''soc_gpio38_pm7'' [TEGRA_PIN_SOC_GPIO38_PM7] TEGRA_MUX_ETH1 TEGRA_MUX_RSVD1 TEGRA_MUX_RSVD2 TEGRA_MUX_RSVD3 0x10018 0 PINGROUP_REG_Y (- 1) 7 6 8 (- 1) 10 12
      (DRV_PINGROUP_ENTRY_Y 0x1001C 12 5 20 5 (- 1) (- 1) (- 1) (- 1) 0),
    PINGROUP ''soc_gpio39_pn1'' [TEGRA_PIN_SOC_GPIO39_PN1] TEGRA_MUX_GP TEGRA_MUX_RSVD1 TEGRA_MUX_RSVD2 TEGRA_MUX_RSVD3 0x10020 0 PINGROUP_REG_Y (- 1) 7 6 8 (- 1) 10 12
      (DRV_PINGROUP_ENTRY_Y 0x10024 12 5 20 5 (- 1) (- 1) (- 1) (- 1) 0),
    PINGROUP ''soc_gpio40_pn2'' [TEGRA_PIN_SOC_GPIO40_PN2] TEGRA_MUX_ETH1 TEGRA_MUX_RSVD1 TEGRA_MUX_RSVD2 TEGRA_MUX_RSVD3 0x10028 0 PINGROUP_REG_Y (- 1) 7 6 8 (- 1) 10 12
      (DRV_PINGROUP_ENTRY_Y 0x1002C 12 5 20 5 (- 1) (- 1) (- 1) (- 1) 0),
    PINGROUP ''dp_aux_ch0_hpd_pm0'' [TEGRA_PIN_DP_AUX_CH0_HPD_PM0] TEGRA_MUX_DP TEGRA_MUX_RSVD1 TEGRA_MUX_RSVD2 TEGRA_MUX_RSVD3 0x10030 0 PINGROUP_REG_Y 5 7 6 8 (- 1) 10 12
      (DRV_PINGROUP_ENTRY_Y 0x10034 12 5 20 5 (- 1) (- 1) (- 1) (- 1) 0),
    PINGROUP ''dp_aux_ch1_hpd_pm1'' [TEGRA_PIN_DP_AUX_CH1_HPD_PM1] TEGRA_MUX_ETH3 TEGRA_MUX_RSVD1 TEGRA_MUX_RSVD2 TEGRA_MUX_RSVD3 0x10038 0 PINGROUP_REG_Y 5 7 6 8 (- 1) 10 12
      (DRV_PINGROUP_ENTRY_Y 0x1003C 12 5 20 5 (- 1) (- 1) (- 1) (- 1) 0),
    PINGROUP ''dp_aux_ch2_hpd_pm2'' [TEGRA_PIN_DP_AUX_CH2_HPD_PM2] TEGRA_MUX_ETH3 TEGRA_MUX_RSVD1 TEGRA_MUX_DISPLAYB TEGRA_MUX_RSVD3 0x10040 0 PINGROUP_REG_Y 5 7 6 8 (- 1) 10 12
      (DRV_PINGROUP_ENTRY_Y 0x10044 12 5 20 5 (- 1) (- 1) (- 1) (- 1) 0),
    PINGROUP ''dp_aux_ch3_hpd_pm3'' [TEGRA_PIN_DP_AUX_CH3_HPD_PM3] TEGRA_MUX_ETH2 TEGRA_MUX_RSVD1 TEGRA_MUX_DISPLAYA TEGRA_MUX_RSVD3 0x10048 0 PINGROUP_REG_Y 5 7 6 8 (- 1) 10 12
      (DRV_PINGROUP_ENTRY_Y 0x1004C 12 5 20 5 (- 1) (- 1) (- 1) (- 1) 0),
    PINGROUP ''dp_aux_ch1_p_pn3'' [TEGRA_PIN_DP_AUX_CH1_P_PN3] TEGRA_MUX_I2C4 TEGRA_MUX_RSVD1 TEGRA_MUX_RSVD2 TEGRA_MUX_RSVD3 0x10050 0 PINGROUP_REG_Y 5 7 6 8 (- 1) 10 12
      (DRV_PINGROUP_ENTRY_Y 0x10054 12 5 20 5 (- 1) (- 1) (- 1) (- 1) 0),
    PINGROUP ''dp_aux_ch1_n_pn4'' [TEGRA_PIN_DP_AUX_CH1_N_PN4] TEGRA_MUX_I2C4 TEGRA_MUX_RSVD1 TEGRA_MUX_RSVD2 TEGRA_MUX_RSVD3 0x10058 0 PINGROUP_REG_Y 5 7 6 8 (- 1) 10 12
      (DRV_PINGROUP_ENTRY_Y 0x1005C 12 5 20 5 (- 1) (- 1) (- 1) (- 1) 0),
    PINGROUP ''dp_aux_ch2_p_pn5'' [TEGRA_PIN_DP_AUX_CH2_P_PN5] TEGRA_MUX_I2C7 TEGRA_MUX_RSVD1 TEGRA_MUX_RSVD2 TEGRA_MUX_RSVD3 0x10060 0 PINGROUP_REG_Y 5 7 6 8 (- 1) 10 12
      (DRV_PINGROUP_ENTRY_Y 0x10064 12 5 20 5 (- 1) (- 1) (- 1) (- 1) 0),
    PINGROUP ''dp_aux_ch2_n_pn6'' [TEGRA_PIN_DP_AUX_CH2_N_PN6] TEGRA_MUX_I2C7 TEGRA_MUX_RSVD1 TEGRA_MUX_RSVD2 TEGRA_MUX_RSVD3 0x10068 0 PINGROUP_REG_Y 5 7 6 8 (- 1) 10 12
      (DRV_PINGROUP_ENTRY_Y 0x1006C 12 5 20 5 (- 1) (- 1) (- 1) (- 1) 0),
    PINGROUP ''dp_aux_ch3_p_pn7'' [TEGRA_PIN_DP_AUX_CH3_P_PN7] TEGRA_MUX_I2C9 TEGRA_MUX_RSVD1 TEGRA_MUX_RSVD2 TEGRA_MUX_RSVD3 0x10070 0 PINGROUP_REG_Y 5 7 6 8 (- 1) 10 12
      (DRV_PINGROUP_ENTRY_Y 0x10074 12 5 20 5 (- 1) (- 1) (- 1) (- 1) 0),
    PINGROUP ''dp_aux_ch3_n_pn0'' [TEGRA_PIN_DP_AUX_CH3_N_PN0] TEGRA_MUX_I2C9 TEGRA_MUX_RSVD1 TEGRA_MUX_RSVD2 TEGRA_MUX_RSVD3 0x10078 0 PINGROUP_REG_Y 5 7 6 8 (- 1) 10 12
      (DRV_PINGROUP_ENTRY_Y 0x1007C 12 5 20 5 (- 1) (- 1) (- 1) (- 1) 0),
    PINGROUP ''eqos_td3_pe4'' [TEGRA_PIN_EQOS_TD3_PE4] TEGRA_MUX_EQOS TEGRA_MUX_RSVD1 TEGRA_MUX_RSVD2 TEGRA_MUX_RSVD3 0x15000 0 PINGROUP_REG_Y (- 1) 5 6 (- 1) (- 1) 10 12
      DRV_PINGROUP_ENTRY_N,
    PINGROUP ''eqos_td2_pe3'' [TEGRA_PIN_EQOS_TD2_PE3] TEGRA_MUX_EQOS TEGRA_MUX_RSVD1 TEGRA_MUX_RSVD2 TEGRA_MUX_RSVD3 0x15008 0 PINGROUP_REG_Y (- 1) 5 6 (- 1) (- 1) 10 12
      DRV_PINGROUP_ENTRY_N,
    PINGROUP ''eqos_td1_pe2'' [TEGRA_PIN_EQOS_TD1_PE2] TEGRA_MUX_EQOS TEGRA_MUX_RSVD1 TEGRA_MUX_RSVD2 TEGRA_MUX_RSVD3 0x15010 0 PINGROUP_REG_Y (- 1) 5 6 (- 1) (- 1) 10 12
      DRV_PINGROUP_ENTRY_N,
    PINGROUP ''eqos_td0_pe1'' [TEGRA_PIN_EQOS_TD0_PE1] TEGRA_MUX_EQOS TEGRA_MUX_RSVD1 TEGRA_MUX_RSVD2 TEGRA_MUX_RSVD3 0x15018 0 PINGROUP_REG_Y (- 1) 5 6 (- 1) (- 1) 10 12
      DRV_PINGROUP_ENTRY_N,
    PINGROUP ''eqos_rd3_pf1'' [TEGRA_PIN_EQOS_RD3_PF1] TEGRA_MUX_EQOS TEGRA_MUX_RSVD1 TEGRA_MUX_RSVD2 TEGRA_MUX_RSVD3 0x15020 0 PINGROUP_REG_Y (- 1) 5 6 (- 1) (- 1) 10 12
      DRV_PINGROUP_ENTRY_N,
    PINGROUP ''eqos_rd2_pf0'' [TEGRA_PIN_EQOS_RD2_PF0] TEGRA_MUX_EQOS TEGRA_MUX_RSVD1 TEGRA_MUX_RSVD2 TEGRA_MUX_RSVD3 0x15028 0 PINGROUP_REG_Y (- 1) 5 6 (- 1) (- 1) 10 12
      DRV_PINGROUP_ENTRY_N,
    PINGROUP ''eqos_rd1_pe7'' [TEGRA_PIN_EQOS_RD1_PE7] TEGRA_MUX_EQOS TEGRA_MUX_RSVD1 TEGRA_MUX_RSVD2 TEGRA_MUX_RSVD3 0x15030 0 PINGROUP_REG_Y (- 1) 5 6 (- 1) (- 1) 10 12
      DRV_PINGROUP_ENTRY_N,
    PINGROUP ''eqos_sma_mdio_pf4'' [TEGRA_PIN_EQOS_SMA_MDIO_PF4] TEGRA_MUX_EQOS TEGRA_MUX_RSVD1 TEGRA_MUX_RSVD2 TEGRA_MUX_RSVD3 0x15038 0 PINGROUP_REG_Y (- 1) 5 6 (- 1) (- 1) 10 12
      DRV_PINGROUP_ENTRY_N,
    PINGROUP ''eqos_rd0_pe6'' [TEGRA_PIN_EQOS_RD0_PE6] TEGRA_MUX_EQOS TEGRA_MUX_RSVD1 TEGRA_MUX_RSVD2 TEGRA_MUX_RSVD3 0x15040 0 PINGROUP_REG_Y (- 1) 5 6 (- 1) (- 1) 10 12
      DRV_PINGROUP_ENTRY_N,
    PINGROUP ''eqos_sma_mdc_pf5'' [TEGRA_PIN_EQOS_SMA_MDC_PF5] TEGRA_MUX_EQOS TEGRA_MUX_RSVD1 TEGRA_MUX_RSVD2 TEGRA_MUX_RSVD3 0x15048 0 PINGROUP_REG_Y (- 1) 5 6 (- 1) (- 1) 10 12
      DRV_PINGROUP_ENTRY_N,
    PINGROUP ''eqos_comp'' [TEGRA_PIN_EQOS_COMP] TEGRA_MUX_EQOS TEGRA_MUX_RSVD1 TEGRA_MUX_RSVD2 TEGRA_MUX_RSVD3 0x15050 0 PINGROUP_REG_N (- 1) (- 1) (- 1) (- 1) (- 1) (- 1) (- 1)
      DRV_PINGROUP_ENTRY_N,
    PINGROUP ''eqos_txc_pe0'' [TEGRA_PIN_EQOS_TXC_PE0] TEGRA_MUX_EQOS TEGRA_MUX_RSVD1 TEGRA_MUX_RSVD2 TEGRA_MUX_RSVD3 0x15058 0 PINGROUP_REG_Y (- 1) 5 6 (- 1) (- 1) 10 12
      DRV_PINGROUP_ENTRY_N,
    PINGROUP ''eqos_rxc_pf3'' [TEGRA_PIN_EQOS_RXC_PF3] TEGRA_MUX_EQOS TEGRA_MUX_RSVD1 TEGRA_MUX_RSVD2 TEGRA_MUX_RSVD3 0x15060 0 PINGROUP_REG_Y (- 1) 5 6 (- 1) (- 1) 10 12
      DRV_PINGROUP_ENTRY_N,
    PINGROUP ''eqos_tx_ctl_pe5'' [TEGRA_PIN_EQOS_TX_CTL_PE5] TEGRA_MUX_EQOS TEGRA_MUX_RSVD1 TEGRA_MUX_RSVD2 TEGRA_MUX_RSVD3 0x15068 0 PINGROUP_REG_Y (- 1) 5 6 (- 1) (- 1) 10 12
      DRV_PINGROUP_ENTRY_N,
    PINGROUP ''eqos_rx_ctl_pf2'' [TEGRA_PIN_EQOS_RX_CTL_PF2] TEGRA_MUX_EQOS TEGRA_MUX_RSVD1 TEGRA_MUX_RSVD2 TEGRA_MUX_RSVD3 0x15070 0 PINGROUP_REG_Y (- 1) 5 6 (- 1) (- 1) 10 12
      DRV_PINGROUP_ENTRY_N,
    PINGROUP ''pex_l2_clkreq_n_pk4'' [TEGRA_PIN_PEX_L2_CLKREQ_N_PK4] TEGRA_MUX_PE2 TEGRA_MUX_RSVD1 TEGRA_MUX_RSVD2 TEGRA_MUX_RSVD3 0x7000 0 PINGROUP_REG_Y 5 7 6 8 (- 1) 10 12
      (DRV_PINGROUP_ENTRY_Y 0x7004 12 5 20 5 (- 1) (- 1) (- 1) (- 1) 0),
    PINGROUP ''pex_wake_n_pl2'' [TEGRA_PIN_PEX_WAKE_N_PL2] TEGRA_MUX_RSVD0 TEGRA_MUX_RSVD1 TEGRA_MUX_RSVD2 TEGRA_MUX_RSVD3 0x7008 0 PINGROUP_REG_Y 5 7 6 8 (- 1) 10 12
      (DRV_PINGROUP_ENTRY_Y 0x700C 12 5 20 5 (- 1) (- 1) (- 1) (- 1) 0),
    PINGROUP ''pex_l1_clkreq_n_pk2'' [TEGRA_PIN_PEX_L1_CLKREQ_N_PK2] TEGRA_MUX_PE1 TEGRA_MUX_RSVD1 TEGRA_MUX_RSVD2 TEGRA_MUX_RSVD3 0x7010 0 PINGROUP_REG_Y 5 7 6 8 (- 1) 10 12
      (DRV_PINGROUP_ENTRY_Y 0x7014 12 5 20 5 (- 1) (- 1) (- 1) (- 1) 0),
    PINGROUP ''pex_l1_rst_n_pk3'' [TEGRA_PIN_PEX_L1_RST_N_PK3] TEGRA_MUX_PE1 TEGRA_MUX_RSVD1 TEGRA_MUX_RSVD2 TEGRA_MUX_RSVD3 0x7018 0 PINGROUP_REG_Y 5 7 6 8 (- 1) 10 12
      (DRV_PINGROUP_ENTRY_Y 0x701C 12 5 20 5 (- 1) (- 1) (- 1) (- 1) 0),
    PINGROUP ''pex_l0_clkreq_n_pk0'' [TEGRA_PIN_PEX_L0_CLKREQ_N_PK0] TEGRA_MUX_PE0 TEGRA_MUX_RSVD1 TEGRA_MUX_RSVD2 TEGRA_MUX_RSVD3 0x7020 0 PINGROUP_REG_Y 5 7 6 8 (- 1) 10 12
      (DRV_PINGROUP_ENTRY_Y 0x7024 12 5 20 5 (- 1) (- 1) (- 1) (- 1) 0),
    PINGROUP ''pex_l0_rst_n_pk1'' [TEGRA_PIN_PEX_L0_RST_N_PK1] TEGRA_MUX_PE0 TEGRA_MUX_RSVD1 TEGRA_MUX_RSVD2 TEGRA_MUX_RSVD3 0x7028 0 PINGROUP_REG_Y 5 7 6 8 (- 1) 10 12
      (DRV_PINGROUP_ENTRY_Y 0x702C 12 5 20 5 (- 1) (- 1) (- 1) (- 1) 0),
    PINGROUP ''pex_l2_rst_n_pk5'' [TEGRA_PIN_PEX_L2_RST_N_PK5] TEGRA_MUX_PE2 TEGRA_MUX_RSVD1 TEGRA_MUX_RSVD2 TEGRA_MUX_RSVD3 0x7030 0 PINGROUP_REG_Y 5 7 6 8 (- 1) 10 12
      (DRV_PINGROUP_ENTRY_Y 0x7034 12 5 20 5 (- 1) (- 1) (- 1) (- 1) 0),
    PINGROUP ''pex_l3_clkreq_n_pk6'' [TEGRA_PIN_PEX_L3_CLKREQ_N_PK6] TEGRA_MUX_PE3 TEGRA_MUX_RSVD1 TEGRA_MUX_RSVD2 TEGRA_MUX_RSVD3 0x7038 0 PINGROUP_REG_Y 5 7 6 8 (- 1) 10 12
      (DRV_PINGROUP_ENTRY_Y 0x703C 12 5 20 5 (- 1) (- 1) (- 1) (- 1) 0),
    PINGROUP ''pex_l3_rst_n_pk7'' [TEGRA_PIN_PEX_L3_RST_N_PK7] TEGRA_MUX_PE3 TEGRA_MUX_RSVD1 TEGRA_MUX_RSVD2 TEGRA_MUX_RSVD3 0x7040 0 PINGROUP_REG_Y 5 7 6 8 (- 1) 10 12
      (DRV_PINGROUP_ENTRY_Y 0x7044 12 5 20 5 (- 1) (- 1) (- 1) (- 1) 0),
    PINGROUP ''pex_l4_clkreq_n_pl0'' [TEGRA_PIN_PEX_L4_CLKREQ_N_PL0] TEGRA_MUX_PE4 TEGRA_MUX_RSVD1 TEGRA_MUX_RSVD2 TEGRA_MUX_RSVD3 0x7048 0 PINGROUP_REG_Y 5 7 6 8 (- 1) 10 12
      (DRV_PINGROUP_ENTRY_Y 0x704C 12 5 20 5 (- 1) (- 1) (- 1) (- 1) 0),
    PINGROUP ''pex_l4_rst_n_pl1'' [TEGRA_PIN_PEX_L4_RST_N_PL1] TEGRA_MUX_PE4 TEGRA_MUX_RSVD1 TEGRA_MUX_RSVD2 TEGRA_MUX_RSVD3 0x7050 0 PINGROUP_REG_Y 5 7 6 8 (- 1) 10 12
      (DRV_PINGROUP_ENTRY_Y 0x7054 12 5 20 5 (- 1) (- 1) (- 1) (- 1) 0),
    PINGROUP ''soc_gpio34_pl3'' [TEGRA_PIN_SOC_GPIO34_PL3] TEGRA_MUX_RSVD0 TEGRA_MUX_RSVD1 TEGRA_MUX_RSVD2 TEGRA_MUX_RSVD3 0x7058 0 PINGROUP_REG_Y 5 7 6 8 (- 1) 10 12
      (DRV_PINGROUP_ENTRY_Y 0x705C 12 5 20 5 (- 1) (- 1) (- 1) (- 1) 0),
    PINGROUP ''pex_l5_clkreq_n_paf0'' [TEGRA_PIN_PEX_L5_CLKREQ_N_PAF0] TEGRA_MUX_PE5 TEGRA_MUX_RSVD1 TEGRA_MUX_RSVD2 TEGRA_MUX_RSVD3 0x14000 0 PINGROUP_REG_Y 5 7 6 8 (- 1) 10 12
      (DRV_PINGROUP_ENTRY_Y 0x14004 12 5 20 5 (- 1) (- 1) (- 1) (- 1) 0),
    PINGROUP ''pex_l5_rst_n_paf1'' [TEGRA_PIN_PEX_L5_RST_N_PAF1] TEGRA_MUX_PE5 TEGRA_MUX_RSVD1 TEGRA_MUX_RSVD2 TEGRA_MUX_RSVD3 0x14008 0 PINGROUP_REG_Y 5 7 6 8 (- 1) 10 12
      (DRV_PINGROUP_ENTRY_Y 0x1400C 12 5 20 5 (- 1) (- 1) (- 1) (- 1) 0),
    PINGROUP ''pex_l6_clkreq_n_paf2'' [TEGRA_PIN_PEX_L6_CLKREQ_N_PAF2] TEGRA_MUX_PE6 TEGRA_MUX_RSVD1 TEGRA_MUX_RSVD2 TEGRA_MUX_RSVD3 0x14010 0 PINGROUP_REG_Y 5 7 6 8 (- 1) 10 12
      (DRV_PINGROUP_ENTRY_Y 0x14014 12 5 20 5 (- 1) (- 1) (- 1) (- 1) 0),
    PINGROUP ''pex_l6_rst_n_paf3'' [TEGRA_PIN_PEX_L6_RST_N_PAF3] TEGRA_MUX_PE6 TEGRA_MUX_RSVD1 TEGRA_MUX_RSVD2 TEGRA_MUX_RSVD3 0x14018 0 PINGROUP_REG_Y 5 7 6 8 (- 1) 10 12
      (DRV_PINGROUP_ENTRY_Y 0x1401C 12 5 20 5 (- 1) (- 1) (- 1) (- 1) 0),
    PINGROUP ''pex_l10_clkreq_n_pag6'' [TEGRA_PIN_PEX_L10_CLKREQ_N_PAG6] TEGRA_MUX_PE10 TEGRA_MUX_RSVD1 TEGRA_MUX_RSVD2 TEGRA_MUX_RSVD3 0x19000 0 PINGROUP_REG_Y 5 7 6 8 (- 1) 10 12
      (DRV_PINGROUP_ENTRY_Y 0x19004 12 5 20 5 (- 1) (- 1) (- 1) (- 1) 0),
    PINGROUP ''pex_l10_rst_n_pag7'' [TEGRA_PIN_PEX_L10_RST_N_PAG7] TEGRA_MUX_PE10 TEGRA_MUX_RSVD1 TEGRA_MUX_RSVD2 TEGRA_MUX_RSVD3 0x19008 0 PINGROUP_REG_Y 5 7 6 8 (- 1) 10 12
      (DRV_PINGROUP_ENTRY_Y 0x1900C 12 5 20 5 (- 1) (- 1) (- 1) (- 1) 0),
    PINGROUP ''pex_l7_clkreq_n_pag0'' [TEGRA_PIN_PEX_L7_CLKREQ_N_PAG0] TEGRA_MUX_PE7 TEGRA_MUX_RSVD1 TEGRA_MUX_RSVD2 TEGRA_MUX_RSVD3 0x19010 0 PINGROUP_REG_Y 5 7 6 8 (- 1) 10 12
      (DRV_PINGROUP_ENTRY_Y 0x19014 12 5 20 5 (- 1) (- 1) (- 1) (- 1) 0),
    PINGROUP ''pex_l7_rst_n_pag1'' [TEGRA_PIN_PEX_L7_RST_N_PAG1] TEGRA_MUX_PE7 TEGRA_MUX_RSVD1 TEGRA_MUX_RSVD2 TEGRA_MUX_RSVD3 0x19018 0 PINGROUP_REG_Y 5 7 6 8 (- 1) 10 12
      (DRV_PINGROUP_ENTRY_Y 0x1901C 12 5 20 5 (- 1) (- 1) (- 1) (- 1) 0),
    PINGROUP ''pex_l8_clkreq_n_pag2'' [TEGRA_PIN_PEX_L8_CLKREQ_N_PAG2] TEGRA_MUX_PE8 TEGRA_MUX_RSVD1 TEGRA_MUX_RSVD2 TEGRA_MUX_RSVD3 0x19020 0 PINGROUP_REG_Y 5 7 6 8 (- 1) 10 12
      (DRV_PINGROUP_ENTRY_Y 0x19024 12 5 20 5 (- 1) (- 1) (- 1) (- 1) 0),
    PINGROUP ''pex_l8_rst_n_pag3'' [TEGRA_PIN_PEX_L8_RST_N_PAG3] TEGRA_MUX_PE8 TEGRA_MUX_RSVD1 TEGRA_MUX_RSVD2 TEGRA_MUX_RSVD3 0x19028 0 PINGROUP_REG_Y 5 7 6 8 (- 1) 10 12
      (DRV_PINGROUP_ENTRY_Y 0x1902C 12 5 20 5 (- 1) (- 1) (- 1) (- 1) 0),
    PINGROUP ''pex_l9_clkreq_n_pag4'' [TEGRA_PIN_PEX_L9_CLKREQ_N_PAG4] TEGRA_MUX_PE9 TEGRA_MUX_RSVD1 TEGRA_MUX_RSVD2 TEGRA_MUX_RSVD3 0x19030 0 PINGROUP_REG_Y 5 7 6 8 (- 1) 10 12
      (DRV_PINGROUP_ENTRY_Y 0x19034 12 5 20 5 (- 1) (- 1) (- 1) (- 1) 0),
    PINGROUP ''pex_l9_rst_n_pag5'' [TEGRA_PIN_PEX_L9_RST_N_PAG5] TEGRA_MUX_PE9 TEGRA_MUX_RSVD1 TEGRA_MUX_RSVD2 TEGRA_MUX_RSVD3 0x19038 0 PINGROUP_REG_Y 5 7 6 8 (- 1) 10 12
      (DRV_PINGROUP_ENTRY_Y 0x1903C 12 5 20 5 (- 1) (- 1) (- 1) (- 1) 0),
    PINGROUP ''qspi0_io3_pc5'' [TEGRA_PIN_QSPI0_IO3_PC5] TEGRA_MUX_QSPI0 TEGRA_MUX_RSVD1 TEGRA_MUX_RSVD2 TEGRA_MUX_RSVD3 0xB000 0 PINGROUP_REG_Y (- 1) 5 6 (- 1) (- 1) 10 12
      DRV_PINGROUP_ENTRY_N,
    PINGROUP ''qspi0_io2_pc4'' [TEGRA_PIN_QSPI0_IO2_PC4] TEGRA_MUX_QSPI0 TEGRA_MUX_RSVD1 TEGRA_MUX_RSVD2 TEGRA_MUX_RSVD3 0xB008 0 PINGROUP_REG_Y (- 1) 5 6 (- 1) (- 1) 10 12
      DRV_PINGROUP_ENTRY_N,
    PINGROUP ''qspi0_io1_pc3'' [TEGRA_PIN_QSPI0_IO1_PC3] TEGRA_MUX_QSPI0 TEGRA_MUX_RSVD1 TEGRA_MUX_RSVD2 TEGRA_MUX_RSVD3 0xB010 0 PINGROUP_REG_Y (- 1) 5 6 (- 1) (- 1) 10 12
      DRV_PINGROUP_ENTRY_N,
    PINGROUP ''qspi0_io0_pc2'' [TEGRA_PIN_QSPI0_IO0_PC2] TEGRA_MUX_QSPI0 TEGRA_MUX_RSVD1 TEGRA_MUX_RSVD2 TEGRA_MUX_RSVD3 0xB018 0 PINGROUP_REG_Y (- 1) 5 6 (- 1) (- 1) 10 12
      DRV_PINGROUP_ENTRY_N,
    PINGROUP ''qspi0_sck_pc0'' [TEGRA_PIN_QSPI0_SCK_PC0] TEGRA_MUX_QSPI0 TEGRA_MUX_RSVD1 TEGRA_MUX_RSVD2 TEGRA_MUX_RSVD3 0xB020 0 PINGROUP_REG_Y (- 1) 5 6 (- 1) (- 1) 10 12
      DRV_PINGROUP_ENTRY_N,
    PINGROUP ''qspi0_cs_n_pc1'' [TEGRA_PIN_QSPI0_CS_N_PC1] TEGRA_MUX_QSPI0 TEGRA_MUX_RSVD1 TEGRA_MUX_RSVD2 TEGRA_MUX_RSVD3 0xB028 0 PINGROUP_REG_Y (- 1) 5 6 (- 1) (- 1) 10 12
      DRV_PINGROUP_ENTRY_N,
    PINGROUP ''qspi1_io3_pd3'' [TEGRA_PIN_QSPI1_IO3_PD3] TEGRA_MUX_QSPI1 TEGRA_MUX_RSVD1 TEGRA_MUX_RSVD2 TEGRA_MUX_RSVD3 0xB030 0 PINGROUP_REG_Y (- 1) 5 6 (- 1) (- 1) 10 12
      DRV_PINGROUP_ENTRY_N,
    PINGROUP ''qspi1_io2_pd2'' [TEGRA_PIN_QSPI1_IO2_PD2] TEGRA_MUX_QSPI1 TEGRA_MUX_RSVD1 TEGRA_MUX_RSVD2 TEGRA_MUX_RSVD3 0xB038 0 PINGROUP_REG_Y (- 1) 5 6 (- 1) (- 1) 10 12
      DRV_PINGROUP_ENTRY_N,
    PINGROUP ''qspi1_io1_pd1'' [TEGRA_PIN_QSPI1_IO1_PD1] TEGRA_MUX_QSPI1 TEGRA_MUX_RSVD1 TEGRA_MUX_RSVD2 TEGRA_MUX_RSVD3 0xB040 0 PINGROUP_REG_Y (- 1) 5 6 (- 1) (- 1) 10 12
      DRV_PINGROUP_ENTRY_N,
    PINGROUP ''qspi1_io0_pd0'' [TEGRA_PIN_QSPI1_IO0_PD0] TEGRA_MUX_QSPI1 TEGRA_MUX_RSVD1 TEGRA_MUX_RSVD2 TEGRA_MUX_RSVD3 0xB048 0 PINGROUP_REG_Y (- 1) 5 6 (- 1) (- 1) 10 12
      DRV_PINGROUP_ENTRY_N,
    PINGROUP ''qspi1_sck_pc6'' [TEGRA_PIN_QSPI1_SCK_PC6] TEGRA_MUX_QSPI1 TEGRA_MUX_RSVD1 TEGRA_MUX_RSVD2 TEGRA_MUX_RSVD3 0xB050 0 PINGROUP_REG_Y (- 1) 5 6 (- 1) (- 1) 10 12
      DRV_PINGROUP_ENTRY_N,
    PINGROUP ''qspi1_cs_n_pc7'' [TEGRA_PIN_QSPI1_CS_N_PC7] TEGRA_MUX_QSPI1 TEGRA_MUX_RSVD1 TEGRA_MUX_RSVD2 TEGRA_MUX_RSVD3 0xB058 0 PINGROUP_REG_Y (- 1) 5 6 (- 1) (- 1) 10 12
      DRV_PINGROUP_ENTRY_N,
    PINGROUP ''qspi_comp'' [TEGRA_PIN_QSPI_COMP] TEGRA_MUX_QSPI TEGRA_MUX_RSVD1 TEGRA_MUX_RSVD2 TEGRA_MUX_RSVD3 0xB060 0 PINGROUP_REG_N (- 1) (- 1) (- 1) (- 1) (- 1) (- 1) (- 1)
      DRV_PINGROUP_ENTRY_N,
    PINGROUP ''sdmmc1_clk_pj0'' [TEGRA_PIN_SDMMC1_CLK_PJ0] TEGRA_MUX_SDMMC1 TEGRA_MUX_RSVD1 TEGRA_MUX_RSVD2 TEGRA_MUX_RSVD3 0x8000 0 PINGROUP_REG_Y (- 1) 5 6 (- 1) 9 10 12
      (DRV_PINGROUP_ENTRY_Y 0x8004 28 2 30 2 (- 1) (- 1) (- 1) (- 1) 0),
    PINGROUP ''sdmmc1_cmd_pj1'' [TEGRA_PIN_SDMMC1_CMD_PJ1] TEGRA_MUX_SDMMC1 TEGRA_MUX_RSVD1 TEGRA_MUX_RSVD2 TEGRA_MUX_RSVD3 0x8008 0 PINGROUP_REG_Y (- 1) 5 6 (- 1) 9 10 12
      (DRV_PINGROUP_ENTRY_Y 0x800C 28 2 30 2 (- 1) (- 1) (- 1) (- 1) 0),
    PINGROUP ''sdmmc1_comp'' [TEGRA_PIN_SDMMC1_COMP] TEGRA_MUX_SDMMC1 TEGRA_MUX_RSVD1 TEGRA_MUX_RSVD2 TEGRA_MUX_RSVD3 0x8010 0 PINGROUP_REG_N (- 1) (- 1) (- 1) (- 1) (- 1) (- 1) (- 1)
      DRV_PINGROUP_ENTRY_N,
    PINGROUP ''sdmmc1_dat3_pj5'' [TEGRA_PIN_SDMMC1_DAT3_PJ5] TEGRA_MUX_SDMMC1 TEGRA_MUX_RSVD1 TEGRA_MUX_RSVD2 TEGRA_MUX_RSVD3 0x8018 0 PINGROUP_REG_Y (- 1) 5 6 (- 1) 9 10 12
      (DRV_PINGROUP_ENTRY_Y 0x801C 28 2 30 2 (- 1) (- 1) (- 1) (- 1) 0),
    PINGROUP ''sdmmc1_dat2_pj4'' [TEGRA_PIN_SDMMC1_DAT2_PJ4] TEGRA_MUX_SDMMC1 TEGRA_MUX_RSVD1 TEGRA_MUX_RSVD2 TEGRA_MUX_RSVD3 0x8020 0 PINGROUP_REG_Y (- 1) 5 6 (- 1) 9 10 12
      (DRV_PINGROUP_ENTRY_Y 0x8024 28 2 30 2 (- 1) (- 1) (- 1) (- 1) 0),
    PINGROUP ''sdmmc1_dat1_pj3'' [TEGRA_PIN_SDMMC1_DAT1_PJ3] TEGRA_MUX_SDMMC1 TEGRA_MUX_RSVD1 TEGRA_MUX_RSVD2 TEGRA_MUX_RSVD3 0x8028 0 PINGROUP_REG_Y (- 1) 5 6 (- 1) 9 10 12
      (DRV_PINGROUP_ENTRY_Y 0x802C 28 2 30 2 (- 1) (- 1) (- 1) (- 1) 0),
    PINGROUP ''sdmmc1_dat0_pj2'' [TEGRA_PIN_SDMMC1_DAT0_PJ2] TEGRA_MUX_SDMMC1 TEGRA_MUX_RSVD1 TEGRA_MUX_RSVD2 TEGRA_MUX_RSVD3 0x8030 0 PINGROUP_REG_Y (- 1) 5 6 (- 1) 9 10 12
      (DRV_PINGROUP_ENTRY_Y 0x8034 28 2 30 2 (- 1) (- 1) (- 1) (- 1) 0),
    PINGROUP ''sce_error_pee0'' [TEGRA_PIN_SCE_ERROR_PEE0] TEGRA_MUX_SCE TEGRA_MUX_RSVD1 TEGRA_MUX_RSVD2 TEGRA_MUX_RSVD3 0x1010 1 PINGROUP_REG_Y 5 7 6 8 (- 1) 10 12
      (DRV_PINGROUP_ENTRY_Y 0x1014 12 5 20 5 (- 1) (- 1) (- 1) (- 1) 1),
    PINGROUP ''batt_oc_pee3'' [TEGRA_PIN_BATT_OC_PEE3] TEGRA_MUX_SOC TEGRA_MUX_RSVD1 TEGRA_MUX_RSVD2 TEGRA_MUX_RSVD3 0x1020 1 PINGROUP_REG_Y 5 7 6 8 (- 1) 10 12
      (DRV_PINGROUP_ENTRY_Y 0x1024 12 5 20 5 (- 1) (- 1) (- 1) (- 1) 1),
    PINGROUP ''bootv_ctl_n_pee7'' [TEGRA_PIN_BOOTV_CTL_N_PEE7] TEGRA_MUX_RSVD0 TEGRA_MUX_RSVD1 TEGRA_MUX_RSVD2 TEGRA_MUX_RSVD3 0x1028 1 PINGROUP_REG_Y (- 1) 7 6 8 (- 1) 10 12
      (DRV_PINGROUP_ENTRY_Y 0x102C 12 5 20 5 (- 1) (- 1) (- 1) (- 1) 1),
    PINGROUP ''power_on_pee4'' [TEGRA_PIN_POWER_ON_PEE4] TEGRA_MUX_RSVD0 TEGRA_MUX_RSVD1 TEGRA_MUX_RSVD2 TEGRA_MUX_RSVD3 0x1038 1 PINGROUP_REG_Y 5 7 6 8 (- 1) 10 12
      (DRV_PINGROUP_ENTRY_Y 0x103C 12 5 20 5 (- 1) (- 1) (- 1) (- 1) 1),
    PINGROUP ''soc_gpio26_pee5'' [TEGRA_PIN_SOC_GPIO26_PEE5] TEGRA_MUX_RSVD0 TEGRA_MUX_RSVD1 TEGRA_MUX_RSVD2 TEGRA_MUX_RSVD3 0x1040 1 PINGROUP_REG_Y 5 7 6 8 (- 1) 10 12
      (DRV_PINGROUP_ENTRY_Y 0x1044 12 5 20 5 (- 1) (- 1) (- 1) (- 1) 1),
    PINGROUP ''soc_gpio27_pee6'' [TEGRA_PIN_SOC_GPIO27_PEE6] TEGRA_MUX_RSVD0 TEGRA_MUX_RSVD1 TEGRA_MUX_RSVD2 TEGRA_MUX_RSVD3 0x1048 1 PINGROUP_REG_Y 5 7 6 8 (- 1) 10 12
      (DRV_PINGROUP_ENTRY_Y 0x104C 12 5 20 5 (- 1) (- 1) (- 1) (- 1) 1),
    PINGROUP ''ao_retention_n_pee2'' [TEGRA_PIN_AO_RETENTION_N_PEE2] TEGRA_MUX_GPIO TEGRA_MUX_LED TEGRA_MUX_RSVD2 TEGRA_MUX_ISTCTRL 0x1050 1 PINGROUP_REG_Y 5 7 6 8 (- 1) 10 12
      (DRV_PINGROUP_ENTRY_Y 0x1054 12 5 20 5 (- 1) (- 1) (- 1) (- 1) 1),
    PINGROUP ''vcomp_alert_pee1'' [TEGRA_PIN_VCOMP_ALERT_PEE1] TEGRA_MUX_SOC TEGRA_MUX_RSVD1 TEGRA_MUX_RSVD2 TEGRA_MUX_RSVD3 0x1058 1 PINGROUP_REG_Y 5 7 6 8 (- 1) 10 12
      (DRV_PINGROUP_ENTRY_Y 0x105C 12 5 20 5 (- 1) (- 1) (- 1) (- 1) 1),
    PINGROUP ''hdmi_cec_pgg0'' [TEGRA_PIN_HDMI_CEC_PGG0] TEGRA_MUX_HDMI TEGRA_MUX_RSVD1 TEGRA_MUX_RSVD2 TEGRA_MUX_RSVD3 0x1060 1 PINGROUP_REG_Y 5 7 6 8 (- 1) 10 12
      (DRV_PINGROUP_ENTRY_Y 0x1064 12 5 20 5 (- 1) (- 1) (- 1) (- 1) 1),
    PINGROUP ''ufs0_rst_n_pae1'' [TEGRA_PIN_UFS0_RST_N_PAE1] TEGRA_MUX_UFS0 TEGRA_MUX_RSVD1 TEGRA_MUX_RSVD2 TEGRA_MUX_RSVD3 0x11000 0 PINGROUP_REG_Y (- 1) 5 6 (- 1) (- 1) 10 12
      (DRV_PINGROUP_ENTRY_Y 0x11004 12 5 24 5 (- 1) (- 1) (- 1) (- 1) 0),
    PINGROUP ''ufs0_ref_clk_pae0'' [TEGRA_PIN_UFS0_REF_CLK_PAE0] TEGRA_MUX_UFS0 TEGRA_MUX_RSVD1 TEGRA_MUX_RSVD2 TEGRA_MUX_RSVD3 0x11008 0 PINGROUP_REG_Y (- 1) 5 6 (- 1) (- 1) 10 12
      (DRV_PINGROUP_ENTRY_Y 0x1100C 12 5 24 5 (- 1) (- 1) (- 1) (- 1) 0),
    PINGROUP ''spi3_miso_py1'' [TEGRA_PIN_SPI3_MISO_PY1] TEGRA_MUX_SPI3 TEGRA_MUX_RSVD1 TEGRA_MUX_RSVD2 TEGRA_MUX_RSVD3 0xD000 0 PINGROUP_REG_Y 5 7 6 8 (- 1) 10 12
      (DRV_PINGROUP_ENTRY_Y 0xD004 12 5 20 5 (- 1) (- 1) (- 1) (- 1) 0),
    PINGROUP ''spi1_cs0_pz6'' [TEGRA_PIN_SPI1_CS0_PZ6] TEGRA_MUX_SPI1 TEGRA_MUX_RSVD1 TEGRA_MUX_RSVD2 TEGRA_MUX_RSVD3 0xD008 0 PINGROUP_REG_Y 5 7 6 8 (- 1) 10 12
      (DRV_PINGROUP_ENTRY_Y 0xD00C 12 5 20 5 (- 1) (- 1) (- 1) (- 1) 0),
    PINGROUP ''spi3_cs0_py3'' [TEGRA_PIN_SPI3_CS0_PY3] TEGRA_MUX_SPI3 TEGRA_MUX_RSVD1 TEGRA_MUX_RSVD2 TEGRA_MUX_RSVD3 0xD010 0 PINGROUP_REG_Y 5 7 6 8 (- 1) 10 12
      (DRV_PINGROUP_ENTRY_Y 0xD014 12 5 20 5 (- 1) (- 1) (- 1) (- 1) 0),
    PINGROUP ''spi1_miso_pz4'' [TEGRA_PIN_SPI1_MISO_PZ4] TEGRA_MUX_SPI1 TEGRA_MUX_RSVD1 TEGRA_MUX_RSVD2 TEGRA_MUX_RSVD3 0xD018 0 PINGROUP_REG_Y 5 7 6 8 (- 1) 10 12
      (DRV_PINGROUP_ENTRY_Y 0xD01C 12 5 20 5 (- 1) (- 1) (- 1) (- 1) 0),
    PINGROUP ''spi3_cs1_py4'' [TEGRA_PIN_SPI3_CS1_PY4] TEGRA_MUX_SPI3 TEGRA_MUX_RSVD1 TEGRA_MUX_RSVD2 TEGRA_MUX_RSVD3 0xD020 0 PINGROUP_REG_Y 5 7 6 8 (- 1) 10 12
      (DRV_PINGROUP_ENTRY_Y 0xD024 12 5 20 5 (- 1) (- 1) (- 1) (- 1) 0),
    PINGROUP ''spi1_sck_pz3'' [TEGRA_PIN_SPI1_SCK_PZ3] TEGRA_MUX_SPI1 TEGRA_MUX_RSVD1 TEGRA_MUX_RSVD2 TEGRA_MUX_RSVD3 0xD028 0 PINGROUP_REG_Y 5 7 6 8 (- 1) 10 12
      (DRV_PINGROUP_ENTRY_Y 0xD02C 12 5 20 5 (- 1) (- 1) (- 1) (- 1) 0),
    PINGROUP ''spi3_sck_py0'' [TEGRA_PIN_SPI3_SCK_PY0] TEGRA_MUX_SPI3 TEGRA_MUX_RSVD1 TEGRA_MUX_RSVD2 TEGRA_MUX_RSVD3 0xD030 0 PINGROUP_REG_Y 5 7 6 8 (- 1) 10 12
      (DRV_PINGROUP_ENTRY_Y 0xD034 12 5 20 5 (- 1) (- 1) (- 1) (- 1) 0),
    PINGROUP ''spi1_cs1_pz7'' [TEGRA_PIN_SPI1_CS1_PZ7] TEGRA_MUX_SPI1 TEGRA_MUX_RSVD1 TEGRA_MUX_RSVD2 TEGRA_MUX_RSVD3 0xD038 0 PINGROUP_REG_Y 5 7 6 8 (- 1) 10 12
      (DRV_PINGROUP_ENTRY_Y 0xD03C 12 5 20 5 (- 1) (- 1) (- 1) (- 1) 0),
    PINGROUP ''spi1_mosi_pz5'' [TEGRA_PIN_SPI1_MOSI_PZ5] TEGRA_MUX_SPI1 TEGRA_MUX_RSVD1 TEGRA_MUX_RSVD2 TEGRA_MUX_RSVD3 0xD040 0 PINGROUP_REG_Y 5 7 6 8 (- 1) 10 12
      (DRV_PINGROUP_ENTRY_Y 0xD044 12 5 20 5 (- 1) (- 1) (- 1) (- 1) 0),
    PINGROUP ''spi3_mosi_py2'' [TEGRA_PIN_SPI3_MOSI_PY2] TEGRA_MUX_SPI3 TEGRA_MUX_RSVD1 TEGRA_MUX_RSVD2 TEGRA_MUX_RSVD3 0xD048 0 PINGROUP_REG_Y 5 7 6 8 (- 1) 10 12
      (DRV_PINGROUP_ENTRY_Y 0xD04C 12 5 20 5 (- 1) (- 1) (- 1) (- 1) 0),
    PINGROUP ''uart2_tx_px4'' [TEGRA_PIN_UART2_TX_PX4] TEGRA_MUX_UARTB TEGRA_MUX_RSVD1 TEGRA_MUX_RSVD2 TEGRA_MUX_RSVD3 0xD050 0 PINGROUP_REG_Y 5 7 6 8 (- 1) 10 12
      (DRV_PINGROUP_ENTRY_Y 0xD054 12 5 20 5 (- 1) (- 1) (- 1) (- 1) 0),
    PINGROUP ''uart2_rx_px5'' [TEGRA_PIN_UART2_RX_PX5] TEGRA_MUX_UARTB TEGRA_MUX_RSVD1 TEGRA_MUX_RSVD2 TEGRA_MUX_RSVD3 0xD058 0 PINGROUP_REG_Y 5 7 6 8 (- 1) 10 12
      (DRV_PINGROUP_ENTRY_Y 0xD05C 12 5 20 5 (- 1) (- 1) (- 1) (- 1) 0),
    PINGROUP ''uart2_rts_px6'' [TEGRA_PIN_UART2_RTS_PX6] TEGRA_MUX_UARTB TEGRA_MUX_RSVD1 TEGRA_MUX_RSVD2 TEGRA_MUX_RSVD3 0xD060 0 PINGROUP_REG_Y (- 1) 7 6 8 (- 1) 10 12
      (DRV_PINGROUP_ENTRY_Y 0xD064 12 5 20 5 (- 1) (- 1) (- 1) (- 1) 0),
    PINGROUP ''uart2_cts_px7'' [TEGRA_PIN_UART2_CTS_PX7] TEGRA_MUX_UARTB TEGRA_MUX_RSVD1 TEGRA_MUX_RSVD2 TEGRA_MUX_RSVD3 0xD068 0 PINGROUP_REG_Y (- 1) 7 6 8 (- 1) 10 12
      (DRV_PINGROUP_ENTRY_Y 0xD06C 12 5 20 5 (- 1) (- 1) (- 1) (- 1) 0),
    PINGROUP ''uart5_tx_py5'' [TEGRA_PIN_UART5_TX_PY5] TEGRA_MUX_UARTE TEGRA_MUX_RSVD1 TEGRA_MUX_RSVD2 TEGRA_MUX_RSVD3 0xD070 0 PINGROUP_REG_Y (- 1) 7 6 8 (- 1) 10 12
      (DRV_PINGROUP_ENTRY_Y 0xD074 12 5 20 5 (- 1) (- 1) (- 1) (- 1) 0),
    PINGROUP ''uart5_rx_py6'' [TEGRA_PIN_UART5_RX_PY6] TEGRA_MUX_UARTE TEGRA_MUX_RSVD1 TEGRA_MUX_RSVD2 TEGRA_MUX_RSVD3 0xD078 0 PINGROUP_REG_Y (- 1) 7 6 8 (- 1) 10 12
      (DRV_PINGROUP_ENTRY_Y 0xD07C 12 5 20 5 (- 1) (- 1) (- 1) (- 1) 0),
    PINGROUP ''uart5_rts_py7'' [TEGRA_PIN_UART5_RTS_PY7] TEGRA_MUX_UARTE TEGRA_MUX_RSVD1 TEGRA_MUX_RSVD2 TEGRA_MUX_RSVD3 0xD080 0 PINGROUP_REG_Y (- 1) 7 6 8 (- 1) 10 12
      (DRV_PINGROUP_ENTRY_Y 0xD084 12 5 20 5 (- 1) (- 1) (- 1) (- 1) 0),
    PINGROUP ''uart5_cts_pz0'' [TEGRA_PIN_UART5_CTS_PZ0] TEGRA_MUX_UARTE TEGRA_MUX_RSVD1 TEGRA_MUX_RSVD2 TEGRA_MUX_RSVD3 0xD088 0 PINGROUP_REG_Y (- 1) 7 6 8 (- 1) 10 12
      (DRV_PINGROUP_ENTRY_Y 0xD08C 12 5 20 5 (- 1) (- 1) (- 1) (- 1) 0),
    PINGROUP ''gpu_pwr_req_px0'' [TEGRA_PIN_GPU_PWR_REQ_PX0] TEGRA_MUX_RSVD0 TEGRA_MUX_RSVD1 TEGRA_MUX_RSVD2 TEGRA_MUX_RSVD3 0xD090 0 PINGROUP_REG_Y (- 1) 7 6 8 (- 1) 10 12
      (DRV_PINGROUP_ENTRY_Y 0xD094 12 5 20 5 (- 1) (- 1) (- 1) (- 1) 0),
    PINGROUP ''gp_pwm3_px3'' [TEGRA_PIN_GP_PWM3_PX3] TEGRA_MUX_GP TEGRA_MUX_RSVD1 TEGRA_MUX_RSVD2 TEGRA_MUX_RSVD3 0xD098 0 PINGROUP_REG_Y 5 7 6 8 (- 1) 10 12
      (DRV_PINGROUP_ENTRY_Y 0xD09C 12 5 20 5 (- 1) (- 1) (- 1) (- 1) 0),
    PINGROUP ''gp_pwm2_px2'' [TEGRA_PIN_GP_PWM2_PX2] TEGRA_MUX_GP TEGRA_MUX_RSVD1 TEGRA_MUX_RSVD2 TEGRA_MUX_RSVD3 0xD0A0 0 PINGROUP_REG_Y 5 7 6 8 (- 1) 10 12
      (DRV_PINGROUP_ENTRY_Y 0xD0A4 12 5 20 5 (- 1) (- 1) (- 1) (- 1) 0),
    PINGROUP ''cv_pwr_req_px1'' [TEGRA_PIN_CV_PWR_REQ_PX1] TEGRA_MUX_RSVD0 TEGRA_MUX_RSVD1 TEGRA_MUX_RSVD2 TEGRA_MUX_RSVD3 0xD0A8 0 PINGROUP_REG_Y (- 1) 7 6 8 (- 1) 10 12
      (DRV_PINGROUP_ENTRY_Y 0xD0AC 12 5 20 5 (- 1) (- 1) (- 1) (- 1) 0),
    PINGROUP ''usb_vbus_en0_pz1'' [TEGRA_PIN_USB_VBUS_EN0_PZ1] TEGRA_MUX_USB TEGRA_MUX_RSVD1 TEGRA_MUX_RSVD2 TEGRA_MUX_RSVD3 0xD0B0 0 PINGROUP_REG_Y 5 7 6 8 (- 1) 10 12
      (DRV_PINGROUP_ENTRY_Y 0xD0B4 12 5 20 5 (- 1) (- 1) (- 1) (- 1) 0),
    PINGROUP ''usb_vbus_en1_pz2'' [TEGRA_PIN_USB_VBUS_EN1_PZ2] TEGRA_MUX_USB TEGRA_MUX_RSVD1 TEGRA_MUX_RSVD2 TEGRA_MUX_RSVD3 0xD0B8 0 PINGROUP_REG_Y 5 7 6 8 (- 1) 10 12
      (DRV_PINGROUP_ENTRY_Y 0xD0BC 12 5 20 5 (- 1) (- 1) (- 1) (- 1) 0),
    PINGROUP ''extperiph2_clk_pp1'' [TEGRA_PIN_EXTPERIPH2_CLK_PP1] TEGRA_MUX_EXTPERIPH2 TEGRA_MUX_RSVD1 TEGRA_MUX_RSVD2 TEGRA_MUX_RSVD3 0x0000 0 PINGROUP_REG_Y (- 1) 7 6 8 (- 1) 10 12
      (DRV_PINGROUP_ENTRY_Y 0x0004 12 5 20 5 (- 1) (- 1) (- 1) (- 1) 0),
    PINGROUP ''extperiph1_clk_pp0'' [TEGRA_PIN_EXTPERIPH1_CLK_PP0] TEGRA_MUX_EXTPERIPH1 TEGRA_MUX_RSVD1 TEGRA_MUX_RSVD2 TEGRA_MUX_RSVD3 0x0008 0 PINGROUP_REG_Y (- 1) 7 6 8 (- 1) 10 12
      (DRV_PINGROUP_ENTRY_Y 0x000C 12 5 20 5 (- 1) (- 1) (- 1) (- 1) 0),
    PINGROUP ''cam_i2c_sda_pp3'' [TEGRA_PIN_CAM_I2C_SDA_PP3] TEGRA_MUX_I2C3 TEGRA_MUX_VI0 TEGRA_MUX_RSVD2 TEGRA_MUX_VI1 0x0010 0 PINGROUP_REG_Y 5 7 6 8 (- 1) 10 12
      (DRV_PINGROUP_ENTRY_Y 0x0014 12 5 20 5 (- 1) (- 1) (- 1) (- 1) 0),
    PINGROUP ''cam_i2c_scl_pp2'' [TEGRA_PIN_CAM_I2C_SCL_PP2] TEGRA_MUX_I2C3 TEGRA_MUX_VI0 TEGRA_MUX_VI0_ALT TEGRA_MUX_VI1 0x0018 0 PINGROUP_REG_Y 5 7 6 8 (- 1) 10 12
      (DRV_PINGROUP_ENTRY_Y 0x001C 12 5 20 5 (- 1) (- 1) (- 1) (- 1) 0),
    PINGROUP ''soc_gpio23_pp4'' [TEGRA_PIN_SOC_GPIO23_PP4] TEGRA_MUX_VI0 TEGRA_MUX_VI0_ALT TEGRA_MUX_VI1 TEGRA_MUX_VI1_ALT 0x0020 0 PINGROUP_REG_Y 5 7 6 8 (- 1) 10 12
      (DRV_PINGROUP_ENTRY_Y 0x0024 12 5 20 5 (- 1) (- 1) (- 1) (- 1) 0),
    PINGROUP ''soc_gpio24_pp5'' [TEGRA_PIN_SOC_GPIO24_PP5] TEGRA_MUX_VI0 TEGRA_MUX_SOC TEGRA_MUX_VI1 TEGRA_MUX_VI1_ALT 0x0028 0 PINGROUP_REG_Y 5 7 6 8 (- 1) 10 12
      (DRV_PINGROUP_ENTRY_Y 0x002C 12 5 20 5 (- 1) (- 1) (- 1) (- 1) 0),
    PINGROUP ''soc_gpio25_pp6'' [TEGRA_PIN_SOC_GPIO25_PP6] TEGRA_MUX_VI0 TEGRA_MUX_I2S5 TEGRA_MUX_VI1 TEGRA_MUX_DMIC1 0x0030 0 PINGROUP_REG_Y 5 7 6 8 (- 1) 10 12
      (DRV_PINGROUP_ENTRY_Y 0x0034 12 5 20 5 (- 1) (- 1) (- 1) (- 1) 0),
    PINGROUP ''pwr_i2c_scl_pp7'' [TEGRA_PIN_PWR_I2C_SCL_PP7] TEGRA_MUX_I2C5 TEGRA_MUX_RSVD1 TEGRA_MUX_RSVD2 TEGRA_MUX_RSVD3 0x0038 0 PINGROUP_REG_Y 5 7 6 8 (- 1) 10 12
      (DRV_PINGROUP_ENTRY_Y 0x003C 12 5 20 5 (- 1) (- 1) (- 1) (- 1) 0),
    PINGROUP ''pwr_i2c_sda_pq0'' [TEGRA_PIN_PWR_I2C_SDA_PQ0] TEGRA_MUX_I2C5 TEGRA_MUX_RSVD1 TEGRA_MUX_RSVD2 TEGRA_MUX_RSVD3 0x0040 0 PINGROUP_REG_Y 5 7 6 8 (- 1) 10 12
      (DRV_PINGROUP_ENTRY_Y 0x0044 12 5 20 5 (- 1) (- 1) (- 1) (- 1) 0),
    PINGROUP ''soc_gpio28_pq1'' [TEGRA_PIN_SOC_GPIO28_PQ1] TEGRA_MUX_VI0 TEGRA_MUX_RSVD1 TEGRA_MUX_VI1 TEGRA_MUX_RSVD3 0x0048 0 PINGROUP_REG_Y 5 7 6 8 (- 1) 10 12
      (DRV_PINGROUP_ENTRY_Y 0x004C 12 5 20 5 (- 1) (- 1) (- 1) (- 1) 0),
    PINGROUP ''soc_gpio29_pq2'' [TEGRA_PIN_SOC_GPIO29_PQ2] TEGRA_MUX_RSVD0 TEGRA_MUX_NV TEGRA_MUX_RSVD2 TEGRA_MUX_RSVD3 0x0050 0 PINGROUP_REG_Y 5 7 6 8 (- 1) 10 12
      (DRV_PINGROUP_ENTRY_Y 0x0054 12 5 20 5 (- 1) (- 1) (- 1) (- 1) 0),
    PINGROUP ''soc_gpio30_pq3'' [TEGRA_PIN_SOC_GPIO30_PQ3] TEGRA_MUX_RSVD0 TEGRA_MUX_WDT TEGRA_MUX_RSVD2 TEGRA_MUX_RSVD3 0x0058 0 PINGROUP_REG_Y 5 7 6 8 (- 1) 10 12
      (DRV_PINGROUP_ENTRY_Y 0x005C 12 5 20 5 (- 1) (- 1) (- 1) (- 1) 0),
    PINGROUP ''soc_gpio31_pq4'' [TEGRA_PIN_SOC_GPIO31_PQ4] TEGRA_MUX_RSVD0 TEGRA_MUX_RSVD1 TEGRA_MUX_RSVD2 TEGRA_MUX_RSVD3 0x0060 0 PINGROUP_REG_Y 5 7 6 8 (- 1) 10 12
      (DRV_PINGROUP_ENTRY_Y 0x0064 12 5 20 5 (- 1) (- 1) (- 1) (- 1) 0),
    PINGROUP ''soc_gpio32_pq5'' [TEGRA_PIN_SOC_GPIO32_PQ5] TEGRA_MUX_RSVD0 TEGRA_MUX_EXTPERIPH3 TEGRA_MUX_DCB TEGRA_MUX_RSVD3 0x0068 0 PINGROUP_REG_Y 5 7 6 8 (- 1) 10 12
      (DRV_PINGROUP_ENTRY_Y 0x006C 12 5 20 5 (- 1) (- 1) (- 1) (- 1) 0),
    PINGROUP ''soc_gpio33_pq6'' [TEGRA_PIN_SOC_GPIO33_PQ6] TEGRA_MUX_RSVD0 TEGRA_MUX_EXTPERIPH4 TEGRA_MUX_DCB TEGRA_MUX_RSVD3 0x0070 0 PINGROUP_REG_Y 5 7 6 8 (- 1) 10 12
      (DRV_PINGROUP_ENTRY_Y 0x0074 12 5 20 5 (- 1) (- 1) (- 1) (- 1) 0),
    PINGROUP ''soc_gpio35_pq7'' [TEGRA_PIN_SOC_GPIO35_PQ7] TEGRA_MUX_RSVD0 TEGRA_MUX_I2S5 TEGRA_MUX_DMIC1 TEGRA_MUX_RSVD3 0x0078 0 PINGROUP_REG_Y 5 7 6 8 (- 1) 10 12
      (DRV_PINGROUP_ENTRY_Y 0x007C 12 5 20 5 (- 1) (- 1) (- 1) (- 1) 0),
    PINGROUP ''soc_gpio37_pr0'' [TEGRA_PIN_SOC_GPIO37_PR0] TEGRA_MUX_GP TEGRA_MUX_I2S5 TEGRA_MUX_DMIC4 TEGRA_MUX_DSPK1 0x0080 0 PINGROUP_REG_Y 5 7 6 8 (- 1) 10 12
      (DRV_PINGROUP_ENTRY_Y 0x0084 12 5 20 5 (- 1) (- 1) (- 1) (- 1) 0),
    PINGROUP ''soc_gpio56_pr1'' [TEGRA_PIN_SOC_GPIO56_PR1] TEGRA_MUX_RSVD0 TEGRA_MUX_I2S5 TEGRA_MUX_DMIC4 TEGRA_MUX_DSPK1 0x0088 0 PINGROUP_REG_Y 5 7 6 8 (- 1) 10 12
      (DRV_PINGROUP_ENTRY_Y 0x008C 12 5 20 5 (- 1) (- 1) (- 1) (- 1) 0),
    PINGROUP ''uart1_cts_pr5'' [TEGRA_PIN_UART1_CTS_PR5] TEGRA_MUX_UARTA TEGRA_MUX_RSVD1 TEGRA_MUX_RSVD2 TEGRA_MUX_RSVD3 0x0090 0 PINGROUP_REG_Y (- 1) 7 6 8 (- 1) 10 12
      (DRV_PINGROUP_ENTRY_Y 0x0094 12 5 20 5 (- 1) (- 1) (- 1) (- 1) 0),
    PINGROUP ''uart1_rts_pr4'' [TEGRA_PIN_UART1_RTS_PR4] TEGRA_MUX_UARTA TEGRA_MUX_RSVD1 TEGRA_MUX_RSVD2 TEGRA_MUX_RSVD3 0x0098 0 PINGROUP_REG_Y (- 1) 7 6 8 (- 1) 10 12
      (DRV_PINGROUP_ENTRY_Y 0x009C 12 5 20 5 (- 1) (- 1) (- 1) (- 1) 0),
    PINGROUP ''uart1_rx_pr3'' [TEGRA_PIN_UART1_RX_PR3] TEGRA_MUX_UARTA TEGRA_MUX_RSVD1 TEGRA_MUX_RSVD2 TEGRA_MUX_RSVD3 0x00A0 0 PINGROUP_REG_Y (- 1) 7 6 8 (- 1) 10 12
      (DRV_PINGROUP_ENTRY_Y 0x00A4 12 5 20 5 (- 1) (- 1) (- 1) (- 1) 0),
    PINGROUP ''uart1_tx_pr2'' [TEGRA_PIN_UART1_TX_PR2] TEGRA_MUX_UARTA TEGRA_MUX_RSVD1 TEGRA_MUX_RSVD2 TEGRA_MUX_RSVD3 0x00A8 0 PINGROUP_REG_Y (- 1) 7 6 8 (- 1) 10 12
      (DRV_PINGROUP_ENTRY_Y 0x00AC 12 5 20 5 (- 1) (- 1) (- 1) (- 1) 0),
    PINGROUP ''cpu_pwr_req_pi5'' [TEGRA_PIN_CPU_PWR_REQ_PI5] TEGRA_MUX_RSVD0 TEGRA_MUX_RSVD1 TEGRA_MUX_RSVD2 TEGRA_MUX_RSVD3 0x4000 0 PINGROUP_REG_Y (- 1) 7 6 8 (- 1) 10 12
      (DRV_PINGROUP_ENTRY_Y 0x4004 12 5 20 5 (- 1) (- 1) (- 1) (- 1) 0),
    PINGROUP ''uart4_cts_ph6'' [TEGRA_PIN_UART4_CTS_PH6] TEGRA_MUX_UARTD TEGRA_MUX_RSVD1 TEGRA_MUX_I2S7 TEGRA_MUX_RSVD3 0x4008 0 PINGROUP_REG_Y (- 1) 7 6 8 (- 1) 10 12
      (DRV_PINGROUP_ENTRY_Y 0x400C 12 5 20 5 (- 1) (- 1) (- 1) (- 1) 0),
    PINGROUP ''uart4_rts_ph5'' [TEGRA_PIN_UART4_RTS_PH5] TEGRA_MUX_UARTD TEGRA_MUX_SPI4 TEGRA_MUX_RSVD2 TEGRA_MUX_RSVD3 0x4010 0 PINGROUP_REG_Y (- 1) 7 6 8 (- 1) 10 12
      (DRV_PINGROUP_ENTRY_Y 0x4014 12 5 20 5 (- 1) (- 1) (- 1) (- 1) 0),
    PINGROUP ''uart4_rx_ph4'' [TEGRA_PIN_UART4_RX_PH4] TEGRA_MUX_UARTD TEGRA_MUX_RSVD1 TEGRA_MUX_I2S7 TEGRA_MUX_RSVD3 0x4018 0 PINGROUP_REG_Y (- 1) 7 6 8 (- 1) 10 12
      (DRV_PINGROUP_ENTRY_Y 0x401C 12 5 20 5 (- 1) (- 1) (- 1) (- 1) 0),
    PINGROUP ''uart4_tx_ph3'' [TEGRA_PIN_UART4_TX_PH3] TEGRA_MUX_UARTD TEGRA_MUX_SPI4 TEGRA_MUX_RSVD2 TEGRA_MUX_RSVD3 0x4020 0 PINGROUP_REG_Y (- 1) 7 6 8 (- 1) 10 12
      (DRV_PINGROUP_ENTRY_Y 0x4024 12 5 20 5 (- 1) (- 1) (- 1) (- 1) 0),
    PINGROUP ''gen1_i2c_scl_pi3'' [TEGRA_PIN_GEN1_I2C_SCL_PI3] TEGRA_MUX_I2C1 TEGRA_MUX_RSVD1 TEGRA_MUX_RSVD2 TEGRA_MUX_RSVD3 0x4028 0 PINGROUP_REG_Y 5 7 6 8 (- 1) 10 12
      (DRV_PINGROUP_ENTRY_Y 0x402C 12 5 20 5 (- 1) (- 1) (- 1) (- 1) 0),
    PINGROUP ''gen1_i2c_sda_pi4'' [TEGRA_PIN_GEN1_I2C_SDA_PI4] TEGRA_MUX_I2C1 TEGRA_MUX_RSVD1 TEGRA_MUX_RSVD2 TEGRA_MUX_RSVD3 0x4030 0 PINGROUP_REG_Y 5 7 6 8 (- 1) 10 12
      (DRV_PINGROUP_ENTRY_Y 0x4034 12 5 20 5 (- 1) (- 1) (- 1) (- 1) 0),
    PINGROUP ''soc_gpio20_pg7'' [TEGRA_PIN_SOC_GPIO20_PG7] TEGRA_MUX_RSVD0 TEGRA_MUX_SDMMC1 TEGRA_MUX_RSVD2 TEGRA_MUX_RSVD3 0x4038 0 PINGROUP_REG_Y (- 1) 7 6 8 (- 1) 10 12
      (DRV_PINGROUP_ENTRY_Y 0x403C 12 5 20 5 (- 1) (- 1) (- 1) (- 1) 0),
    PINGROUP ''soc_gpio21_ph0'' [TEGRA_PIN_SOC_GPIO21_PH0] TEGRA_MUX_RSVD0 TEGRA_MUX_GP TEGRA_MUX_I2S7 TEGRA_MUX_RSVD3 0x4040 0 PINGROUP_REG_Y (- 1) 7 6 8 (- 1) 10 12
      (DRV_PINGROUP_ENTRY_Y 0x4044 12 5 20 5 (- 1) (- 1) (- 1) (- 1) 0),
    PINGROUP ''soc_gpio22_ph1'' [TEGRA_PIN_SOC_GPIO22_PH1] TEGRA_MUX_RSVD0 TEGRA_MUX_RSVD1 TEGRA_MUX_I2S7 TEGRA_MUX_RSVD3 0x4048 0 PINGROUP_REG_Y (- 1) 7 6 8 (- 1) 10 12
      (DRV_PINGROUP_ENTRY_Y 0x404C 12 5 20 5 (- 1) (- 1) (- 1) (- 1) 0),
    PINGROUP ''soc_gpio13_pg0'' [TEGRA_PIN_SOC_GPIO13_PG0] TEGRA_MUX_RSVD0 TEGRA_MUX_RSVD1 TEGRA_MUX_RSVD2 TEGRA_MUX_RSVD3 0x4050 0 PINGROUP_REG_Y (- 1) 7 6 8 (- 1) 10 12
      (DRV_PINGROUP_ENTRY_Y 0x4054 12 5 20 5 (- 1) (- 1) (- 1) (- 1) 0),
    PINGROUP ''soc_gpio14_pg1'' [TEGRA_PIN_SOC_GPIO14_PG1] TEGRA_MUX_RSVD0 TEGRA_MUX_SPI4 TEGRA_MUX_RSVD2 TEGRA_MUX_RSVD3 0x4058 0 PINGROUP_REG_Y (- 1) 7 6 8 (- 1) 10 12
      (DRV_PINGROUP_ENTRY_Y 0x405C 12 5 20 5 (- 1) (- 1) (- 1) (- 1) 0),
    PINGROUP ''soc_gpio15_pg2'' [TEGRA_PIN_SOC_GPIO15_PG2] TEGRA_MUX_RSVD0 TEGRA_MUX_SPI4 TEGRA_MUX_RSVD2 TEGRA_MUX_RSVD3 0x4060 0 PINGROUP_REG_Y (- 1) 7 6 8 (- 1) 10 12
      (DRV_PINGROUP_ENTRY_Y 0x4064 12 5 20 5 (- 1) (- 1) (- 1) (- 1) 0),
    PINGROUP ''soc_gpio16_pg3'' [TEGRA_PIN_SOC_GPIO16_PG3] TEGRA_MUX_RSVD0 TEGRA_MUX_SPI4 TEGRA_MUX_RSVD2 TEGRA_MUX_RSVD3 0x4068 0 PINGROUP_REG_Y (- 1) 7 6 8 (- 1) 10 12
      (DRV_PINGROUP_ENTRY_Y 0x406C 12 5 20 5 (- 1) (- 1) (- 1) (- 1) 0),
    PINGROUP ''soc_gpio17_pg4'' [TEGRA_PIN_SOC_GPIO17_PG4] TEGRA_MUX_RSVD0 TEGRA_MUX_CCLA TEGRA_MUX_RSVD2 TEGRA_MUX_RSVD3 0x4070 0 PINGROUP_REG_Y (- 1) 7 6 8 (- 1) 10 12
      (DRV_PINGROUP_ENTRY_Y 0x4074 12 5 20 5 (- 1) (- 1) (- 1) (- 1) 0),
    PINGROUP ''soc_gpio18_pg5'' [TEGRA_PIN_SOC_GPIO18_PG5] TEGRA_MUX_RSVD0 TEGRA_MUX_RSVD1 TEGRA_MUX_RSVD2 TEGRA_MUX_RSVD3 0x4078 0 PINGROUP_REG_Y (- 1) 7 6 8 (- 1) 10 12
      (DRV_PINGROUP_ENTRY_Y 0x407C 12 5 20 5 (- 1) (- 1) (- 1) (- 1) 0),
    PINGROUP ''soc_gpio19_pg6'' [TEGRA_PIN_SOC_GPIO19_PG6] TEGRA_MUX_GP TEGRA_MUX_RSVD1 TEGRA_MUX_RSVD2 TEGRA_MUX_RSVD3 0x4080 0 PINGROUP_REG_Y (- 1) 7 6 8 (- 1) 10 12
      (DRV_PINGROUP_ENTRY_Y 0x4084 12 5 20 5 (- 1) (- 1) (- 1) (- 1) 0),
    PINGROUP ''soc_gpio41_ph7'' [TEGRA_PIN_SOC_GPIO41_PH7] TEGRA_MUX_RSVD0 TEGRA_MUX_I2S2 TEGRA_MUX_RSVD2 TEGRA_MUX_RSVD3 0x4088 0 PINGROUP_REG_Y (- 1) 7 6 8 (- 1) 10 12
      (DRV_PINGROUP_ENTRY_Y 0x408C 12 5 20 5 (- 1) (- 1) (- 1) (- 1) 0),
    PINGROUP ''soc_gpio42_pi0'' [TEGRA_PIN_SOC_GPIO42_PI0] TEGRA_MUX_RSVD0 TEGRA_MUX_I2S2 TEGRA_MUX_RSVD2 TEGRA_MUX_RSVD3 0x4090 0 PINGROUP_REG_Y (- 1) 7 6 8 (- 1) 10 12
      (DRV_PINGROUP_ENTRY_Y 0x4094 12 5 20 5 (- 1) (- 1) (- 1) (- 1) 0),
    PINGROUP ''soc_gpio43_pi1'' [TEGRA_PIN_SOC_GPIO43_PI1] TEGRA_MUX_RSVD0 TEGRA_MUX_I2S2 TEGRA_MUX_RSVD2 TEGRA_MUX_RSVD3 0x4098 0 PINGROUP_REG_Y (- 1) 7 6 8 (- 1) 10 12
      (DRV_PINGROUP_ENTRY_Y 0x409C 12 5 20 5 (- 1) (- 1) (- 1) (- 1) 0),
    PINGROUP ''soc_gpio44_pi2'' [TEGRA_PIN_SOC_GPIO44_PI2] TEGRA_MUX_RSVD0 TEGRA_MUX_I2S2 TEGRA_MUX_RSVD2 TEGRA_MUX_RSVD3 0x40A0 0 PINGROUP_REG_Y (- 1) 7 6 8 (- 1) 10 12
      (DRV_PINGROUP_ENTRY_Y 0x40A4 12 5 20 5 (- 1) (- 1) (- 1) (- 1) 0),
    PINGROUP ''soc_gpio06_ph2'' [TEGRA_PIN_SOC_GPIO06_PH2] TEGRA_MUX_RSVD0 TEGRA_MUX_RSVD1 TEGRA_MUX_RSVD2 TEGRA_MUX_RSVD3 0x40A8 0 PINGROUP_REG_Y (- 1) 7 6 8 (- 1) 10 12
      (DRV_PINGROUP_ENTRY_Y 0x40AC 12 5 20 5 (- 1) (- 1) (- 1) (- 1) 0),
    PINGROUP ''soc_gpio07_pi6'' [TEGRA_PIN_SOC_GPIO07_PI6] TEGRA_MUX_GP TEGRA_MUX_RSVD1 TEGRA_MUX_RSVD2 TEGRA_MUX_RSVD3 0x40B0 0 PINGROUP_REG_Y (- 1) 7 6 8 (- 1) 10 12
      (DRV_PINGROUP_ENTRY_Y 0x40B4 12 5 20 5 (- 1) (- 1) (- 1) (- 1) 0),
    PINGROUP ''dap4_sclk_pa4'' [TEGRA_PIN_DAP4_SCLK_PA4] TEGRA_MUX_I2S4 TEGRA_MUX_RSVD1 TEGRA_MUX_RSVD2 TEGRA_MUX_RSVD3 0x2000 0 PINGROUP_REG_Y (- 1) 7 6 8 (- 1) 10 12
      (DRV_PINGROUP_ENTRY_Y 0x2004 12 5 20 5 (- 1) (- 1) (- 1) (- 1) 0),
    PINGROUP ''dap4_dout_pa5'' [TEGRA_PIN_DAP4_DOUT_PA5] TEGRA_MUX_I2S4 TEGRA_MUX_RSVD1 TEGRA_MUX_RSVD2 TEGRA_MUX_RSVD3 0x2008 0 PINGROUP_REG_Y (- 1) 7 6 8 (- 1) 10 12
      (DRV_PINGROUP_ENTRY_Y 0x200C 12 5 20 5 (- 1) (- 1) (- 1) (- 1) 0),
    PINGROUP ''dap4_din_pa6'' [TEGRA_PIN_DAP4_DIN_PA6] TEGRA_MUX_I2S4 TEGRA_MUX_RSVD1 TEGRA_MUX_RSVD2 TEGRA_MUX_RSVD3 0x2010 0 PINGROUP_REG_Y (- 1) 7 6 8 (- 1) 10 12
      (DRV_PINGROUP_ENTRY_Y 0x2014 12 5 20 5 (- 1) (- 1) (- 1) (- 1) 0),
    PINGROUP ''dap4_fs_pa7'' [TEGRA_PIN_DAP4_FS_PA7] TEGRA_MUX_I2S4 TEGRA_MUX_RSVD1 TEGRA_MUX_RSVD2 TEGRA_MUX_RSVD3 0x2018 0 PINGROUP_REG_Y (- 1) 7 6 8 (- 1) 10 12
      (DRV_PINGROUP_ENTRY_Y 0x201C 12 5 20 5 (- 1) (- 1) (- 1) (- 1) 0),
    PINGROUP ''dap6_sclk_pa0'' [TEGRA_PIN_DAP6_SCLK_PA0] TEGRA_MUX_I2S6 TEGRA_MUX_RSVD1 TEGRA_MUX_RSVD2 TEGRA_MUX_RSVD3 0x2020 0 PINGROUP_REG_Y (- 1) 7 6 8 (- 1) 10 12
      (DRV_PINGROUP_ENTRY_Y 0x2024 12 5 20 5 (- 1) (- 1) (- 1) (- 1) 0),
    PINGROUP ''dap6_dout_pa1'' [TEGRA_PIN_DAP6_DOUT_PA1] TEGRA_MUX_I2S6 TEGRA_MUX_RSVD1 TEGRA_MUX_RSVD2 TEGRA_MUX_RSVD3 0x2028 0 PINGROUP_REG_Y (- 1) 7 6 8 (- 1) 10 12
      (DRV_PINGROUP_ENTRY_Y 0x202C 12 5 20 5 (- 1) (- 1) (- 1) (- 1) 0),
    PINGROUP ''dap6_din_pa2'' [TEGRA_PIN_DAP6_DIN_PA2] TEGRA_MUX_I2S6 TEGRA_MUX_RSVD1 TEGRA_MUX_RSVD2 TEGRA_MUX_RSVD3 0x2030 0 PINGROUP_REG_Y (- 1) 7 6 8 (- 1) 10 12
      (DRV_PINGROUP_ENTRY_Y 0x2034 12 5 20 5 (- 1) (- 1) (- 1) (- 1) 0),
    PINGROUP ''dap6_fs_pa3'' [TEGRA_PIN_DAP6_FS_PA3] TEGRA_MUX_I2S6 TEGRA_MUX_RSVD1 TEGRA_MUX_RSVD2 TEGRA_MUX_RSVD3 0x2038 0 PINGROUP_REG_Y (- 1) 7 6 8 (- 1) 10 12
      (DRV_PINGROUP_ENTRY_Y 0x203C 12 5 20 5 (- 1) (- 1) (- 1) (- 1) 0),
    PINGROUP ''soc_gpio45_pad0'' [TEGRA_PIN_SOC_GPIO45_PAD0] TEGRA_MUX_RSVD0 TEGRA_MUX_I2S1 TEGRA_MUX_RSVD2 TEGRA_MUX_RSVD3 0x18000 0 PINGROUP_REG_Y (- 1) 7 6 8 (- 1) 10 12
      (DRV_PINGROUP_ENTRY_Y 0x18004 12 5 20 5 (- 1) (- 1) (- 1) (- 1) 0),
    PINGROUP ''soc_gpio46_pad1'' [TEGRA_PIN_SOC_GPIO46_PAD1] TEGRA_MUX_RSVD0 TEGRA_MUX_I2S1 TEGRA_MUX_RSVD2 TEGRA_MUX_RSVD3 0x18008 0 PINGROUP_REG_Y (- 1) 7 6 8 (- 1) 10 12
      (DRV_PINGROUP_ENTRY_Y 0x1800C 12 5 20 5 (- 1) (- 1) (- 1) (- 1) 0),
    PINGROUP ''soc_gpio47_pad2'' [TEGRA_PIN_SOC_GPIO47_PAD2] TEGRA_MUX_RSVD0 TEGRA_MUX_I2S1 TEGRA_MUX_RSVD2 TEGRA_MUX_RSVD3 0x18010 0 PINGROUP_REG_Y (- 1) 7 6 8 (- 1) 10 12
      (DRV_PINGROUP_ENTRY_Y 0x18014 12 5 20 5 (- 1) (- 1) (- 1) (- 1) 0),
    PINGROUP ''soc_gpio48_pad3'' [TEGRA_PIN_SOC_GPIO48_PAD3] TEGRA_MUX_RSVD0 TEGRA_MUX_I2S1 TEGRA_MUX_RSVD2 TEGRA_MUX_RSVD3 0x18018 0 PINGROUP_REG_Y (- 1) 7 6 8 (- 1) 10 12
      (DRV_PINGROUP_ENTRY_Y 0x1801C 12 5 20 5 (- 1) (- 1) (- 1) (- 1) 0),
    PINGROUP ''soc_gpio57_pac4'' [TEGRA_PIN_SOC_GPIO57_PAC4] TEGRA_MUX_RSVD0 TEGRA_MUX_I2S8 TEGRA_MUX_RSVD2 TEGRA_MUX_SDMMC1 0x18020 0 PINGROUP_REG_Y (- 1) 7 6 8 (- 1) 10 12
      (DRV_PINGROUP_ENTRY_Y 0x18024 12 5 20 5 (- 1) (- 1) (- 1) (- 1) 0),
    PINGROUP ''soc_gpio58_pac5'' [TEGRA_PIN_SOC_GPIO58_PAC5] TEGRA_MUX_RSVD0 TEGRA_MUX_I2S8 TEGRA_MUX_RSVD2 TEGRA_MUX_SDMMC1 0x18028 0 PINGROUP_REG_Y (- 1) 7 6 8 (- 1) 10 12
      (DRV_PINGROUP_ENTRY_Y 0x1802C 12 5 20 5 (- 1) (- 1) (- 1) (- 1) 0),
    PINGROUP ''soc_gpio59_pac6'' [TEGRA_PIN_SOC_GPIO59_PAC6] TEGRA_MUX_AUD TEGRA_MUX_I2S8 TEGRA_MUX_RSVD2 TEGRA_MUX_RSVD3 0x18030 0 PINGROUP_REG_Y (- 1) 7 6 8 (- 1) 10 12
      (DRV_PINGROUP_ENTRY_Y 0x18034 12 5 20 5 (- 1) (- 1) (- 1) (- 1) 0),
    PINGROUP ''soc_gpio60_pac7'' [TEGRA_PIN_SOC_GPIO60_PAC7] TEGRA_MUX_RSVD0 TEGRA_MUX_I2S8 TEGRA_MUX_NV TEGRA_MUX_IGPU 0x18038 0 PINGROUP_REG_Y (- 1) 7 6 8 (- 1) 10 12
      (DRV_PINGROUP_ENTRY_Y 0x1803C 12 5 20 5 (- 1) (- 1) (- 1) (- 1) 0),
    PINGROUP ''spi5_cs0_pac3'' [TEGRA_PIN_SPI5_CS0_PAC3] TEGRA_MUX_SPI5 TEGRA_MUX_I2S3 TEGRA_MUX_DMIC2 TEGRA_MUX_RSVD3 0x18040 0 PINGROUP_REG_Y (- 1) 7 6 8 (- 1) 10 12
      (DRV_PINGROUP_ENTRY_Y 0x18044 12 5 20 5 (- 1) (- 1) (- 1) (- 1) 0),
    PINGROUP ''spi5_miso_pac1'' [TEGRA_PIN_SPI5_MISO_PAC1] TEGRA_MUX_SPI5 TEGRA_MUX_I2S3 TEGRA_MUX_DSPK0 TEGRA_MUX_RSVD3 0x18048 0 PINGROUP_REG_Y (- 1) 7 6 8 (- 1) 10 12
      (DRV_PINGROUP_ENTRY_Y 0x1804C 12 5 20 5 (- 1) (- 1) (- 1) (- 1) 0),
    PINGROUP ''spi5_mosi_pac2'' [TEGRA_PIN_SPI5_MOSI_PAC2] TEGRA_MUX_SPI5 TEGRA_MUX_I2S3 TEGRA_MUX_DMIC2 TEGRA_MUX_RSVD3 0x18050 0 PINGROUP_REG_Y (- 1) 7 6 8 (- 1) 10 12
      (DRV_PINGROUP_ENTRY_Y 0x18054 12 5 20 5 (- 1) (- 1) (- 1) (- 1) 0),
    PINGROUP ''spi5_sck_pac0'' [TEGRA_PIN_SPI5_SCK_PAC0] TEGRA_MUX_SPI5 TEGRA_MUX_I2S3 TEGRA_MUX_DSPK0 TEGRA_MUX_RSVD3 0x18058 0 PINGROUP_REG_Y (- 1) 7 6 8 (- 1) 10 12
      (DRV_PINGROUP_ENTRY_Y 0x1805C 12 5 20 5 (- 1) (- 1) (- 1) (- 1) 0)]"

definition tegra234_pinctrl :: tegra_pinctrl_soc_data where
  "tegra234_pinctrl =
     \<lparr>ngpios = NUM_GPIOS,
      groups = tegra234_groups,
      hsm_in_mux = False,
      schmitt_in_mux = True,
      drvtype_in_mux = True,
      sfsel_in_mux = True\<rparr>"


subsection \<open>Sequences of requests, and the states and tables used in the examples\<close>

text \<open>
  A request of the pin control core to the driver between a GPIO request and
  its release: the selection of a function for a group, or a list of
  configurations for a group. The results are those of the single calls; the
  state is threaded through.
\<close>

datatype pin_request = Select_function nat nat | Configure_group nat "config list"

fun run_request :: "tegra_pinctrl_soc_data \<Rightarrow> pin_request \<Rightarrow> tegra_pmx \<Rightarrow> tegra_pmx" where
  "run_request soc (Select_function function grp) pmx =
     snd (tegra_pinctrl_set_mux soc pmx function grp)"
| "run_request soc (Configure_group grp configs) pmx =
     snd (tegra_pinconf_group_set soc pmx grp configs)"

fun run_requests :: "tegra_pinctrl_soc_data \<Rightarrow> pin_request list \<Rightarrow> tegra_pmx \<Rightarrow> tegra_pmx" where
  "run_requests soc [] pmx = pmx"
| "run_requests soc (r # rs) pmx = run_requests soc rs (run_request soc r pmx)"

text \<open>The value of the field of \<open>width\<close> bits at position \<open>n\<close> of a register.\<close>

definition reg_field :: "u32 \<Rightarrow> nat \<Rightarrow> nat \<Rightarrow> u32" where
  "reg_field val n width = drop_bit n val AND mask width"

text \<open>All registers zero and all registers ones, with nothing accessed yet.\<close>

definition pmx_zero :: tegra_pmx where
  "pmx_zero = \<lparr>regs = (\<lambda>a. 0), gpio_conf = (\<lambda>p. 0), mmio = []\<rparr>"

definition pmx_ones :: tegra_pmx where
  "pmx_ones = \<lparr>regs = (\<lambda>a. - 1), gpio_conf = (\<lambda>p. 0), mmio = []\<rparr>"

text \<open>
  Two tables that the Tegra234 does not have, built from its first group
  \<^verbatim>\<open>touch_clk_pcc4\<close>, for the parameters that no group of the Tegra234 has: a
  group with a lock bit; and three groups with parked bits, two of them in one
  mux register and the third in its drive register.
\<close>

definition touch_clk_pcc4 :: tegra_pingroup where
  "touch_clk_pcc4 =
     PINGROUP ''touch_clk_pcc4'' [TEGRA_PIN_TOUCH_CLK_PCC4] TEGRA_MUX_GP TEGRA_MUX_TOUCH
       TEGRA_MUX_RSVD2 TEGRA_MUX_RSVD3 0x2000 1 PINGROUP_REG_Y 5 7 6 8 (- 1) 10 12
       (DRV_PINGROUP_ENTRY_Y 0x2004 12 5 20 5 (- 1) (- 1) (- 1) (- 1) 1)"

definition soc_lock :: tegra_pinctrl_soc_data where
  "soc_lock = tegra234_pinctrl\<lparr>groups := [touch_clk_pcc4\<lparr>lock_bit := 7\<rparr>]\<rparr>"


section \<open>Properties of the driver\<close>

subsection \<open>Register accesses\<close>

lemma pmx_readl_simps [simp]:
  "fst (pmx_readl pmx b r) = regs pmx (b, r)"
  "regs (snd (pmx_readl pmx b r)) = regs pmx"
  "gpio_conf (snd (pmx_readl pmx b r)) = gpio_conf pmx"
  "mmio (snd (pmx_readl pmx b r)) = mmio pmx @ [Readl b r]"
  by (simp_all add: pmx_readl_def)

lemma pmx_writel_simps [simp]:
  "regs (pmx_writel pmx v b r) = (regs pmx)((b, r) := v)"
  "gpio_conf (pmx_writel pmx v b r) = gpio_conf pmx"
  "mmio (pmx_writel pmx v b r) = mmio pmx @ [Writel b r v, Readl b r]"
  by (simp_all add: pmx_writel_def pmx_readl_def)

subsection \<open>Fields of a register\<close>

text \<open>
  Writing a value into a field and reading the field back gives the value, when
  the field lies inside the register and the value fits the field; one more bit
  set outside the field does not change that.
\<close>

lemma and_not_mask_zero_bit:
  fixes a :: "'a::len word"
  assumes "a AND NOT (mask w) = 0"
  shows "bit a k \<Longrightarrow> k < w"
proof (rule ccontr)
  assume b: "bit a k" and n: "\<not> k < w"
  from b have "possible_bit TYPE('a word) k" by (rule bit_imp_possible_bit)
  with b n have "bit (a AND NOT (mask w)) k" by (simp add: bit_simps)
  with assms show False by simp
qed

lemma reg_field_insert:
  fixes v a :: u32
  assumes "n + w \<le> 32" "a AND NOT (mask w) = 0"
  shows "reg_field ((v AND NOT (push_bit n (mask w))) OR push_bit n a) n w = a"
proof (rule bit_eqI)
  fix k
  assume "possible_bit TYPE(u32) k"
  have a: "bit a k \<Longrightarrow> k < w"
    using assms(2) by (metis bit_and_iff bit_mask_iff bit_not_iff bit_0_eq impossible_bit bot_apply bot_bool_def)
  show "bit (reg_field ((v AND NOT (push_bit n (mask w))) OR push_bit n a) n w) k = bit a k"
    using assms(1) a
    by (auto simp add: reg_field_def bit_simps)
qed

lemma reg_field_insert_or:
  fixes v a :: u32
  assumes "n + w \<le> 32" "a AND NOT (mask w) = 0" "s < n \<or> n + w \<le> s"
  shows "reg_field (((v AND NOT (push_bit n (mask w))) OR push_bit n a) OR push_bit s 1) n w = a"
proof (rule bit_eqI)
  fix k
  assume "possible_bit TYPE(u32) k"
  have a: "bit a k \<Longrightarrow> k < w"
    using assms(2) by (rule and_not_mask_zero_bit)
  show "bit (reg_field (((v AND NOT (push_bit n (mask w))) OR push_bit n a) OR push_bit s 1) n w) k = bit a k"
    using assms(1,3) a
    by (auto simp add: reg_field_def bit_simps)
qed

lemma reg_field_one_bit:
  fixes v :: u32
  assumes "n < 32" "a = 0 \<or> a = 1"
  shows "reg_field ((v AND NOT (push_bit n (mask 1))) OR push_bit n a) n 1 = a"
proof -
  from assms(1) have n: "n + 1 \<le> 32" by simp
  from assms(2) have a: "a AND NOT (mask 1) = 0" by auto
  from n a show ?thesis by (rule reg_field_insert)
qed

lemma three_mask: "(3 :: u32) = mask 2"
  by (simp add: mask_eq_exp_minus_1)

lemma of_nat_and_not_mask_2:
  assumes "i < 4"
  shows "(of_nat i :: u32) AND NOT (mask 2) = 0"
proof -
  from assms have "i = 0 \<or> i = 1 \<or> i = 2 \<or> i = 3" by auto
  then show ?thesis by (auto simp add: mask_eq_exp_minus_1)
qed

lemma ucast_of_nat_u16: "i < 4 \<Longrightarrow> (ucast (of_nat i :: u32) :: u16) = of_nat i"
proof -
  assume "i < 4"
  then have "i = 0 \<or> i = 1 \<or> i = 2 \<or> i = 3" by auto
  then show ?thesis by auto
qed

lemma bit_ucast_and_BIT:
  fixes val :: u32
  assumes "bit val (nat n)"
  shows "(ucast val :: 64 word) AND BIT n \<noteq> 0"
proof
  assume z: "(ucast val :: 64 word) AND BIT n = 0"
  from assms have "nat n < 32" by (auto dest: bit_imp_le_length)
  with assms have "bit ((ucast val :: 64 word) AND BIT n) (nat n)"
    by (simp add: BIT_def bit_simps)
  with z show False by simp
qed

subsection \<open>Entries of the tables\<close>

lemma tegra234_groups_0: "tegra234_groups ! 0 = touch_clk_pcc4"
  by (simp add: tegra234_groups_def touch_clk_pcc4_def)

lemma tegra234_groups_50:
  "tegra234_groups ! 50 =
     PINGROUP ''eqos_comp'' [TEGRA_PIN_EQOS_COMP] TEGRA_MUX_EQOS TEGRA_MUX_RSVD1 TEGRA_MUX_RSVD2
       TEGRA_MUX_RSVD3 0x15050 0 PINGROUP_REG_N (- 1) (- 1) (- 1) (- 1) (- 1) (- 1) (- 1)
       DRV_PINGROUP_ENTRY_N"
  by (simp add: tegra234_groups_def)

lemma ngroups_tegra234: "ngroups tegra234_pinctrl = 199"
  by (simp add: ngroups_def tegra234_pinctrl_def tegra234_groups_def)

lemma tegra234_flags:
  "groups tegra234_pinctrl = tegra234_groups"
  "sfsel_in_mux tegra234_pinctrl" "schmitt_in_mux tegra234_pinctrl"
  "drvtype_in_mux tegra234_pinctrl" "\<not> hsm_in_mux tegra234_pinctrl"
  by (simp_all add: tegra234_pinctrl_def)

lemma touch_clk_pcc4_fields:
  "name touch_clk_pcc4 = ''touch_clk_pcc4''"
  "funcs touch_clk_pcc4 = [TEGRA_MUX_GP, TEGRA_MUX_TOUCH, TEGRA_MUX_RSVD2, TEGRA_MUX_RSVD3]"
  "pins touch_clk_pcc4 = [TEGRA_PIN_TOUCH_CLK_PCC4]"
  "mux_reg touch_clk_pcc4 = 0x2000" "mux_bank touch_clk_pcc4 = 1" "mux_bit touch_clk_pcc4 = 0"
  "sfsel_bit touch_clk_pcc4 = 10"
  "tri_reg touch_clk_pcc4 = 0x2000" "tri_bank touch_clk_pcc4 = 1" "tri_bit touch_clk_pcc4 = 4"
  "pupd_reg touch_clk_pcc4 = 0x2000" "pupd_bank touch_clk_pcc4 = 1" "pupd_bit touch_clk_pcc4 = 2"
  "lock_bit touch_clk_pcc4 = - 1"
  "pad_reg touch_clk_pcc4 = 0" "pad_bank touch_clk_pcc4 = 0" "pad_bit touch_clk_pcc4 = 0"
  "parked_bitmask touch_clk_pcc4 = 0"
  by (simp_all add: touch_clk_pcc4_def PINGROUP_def PINGROUP_REG_Y_def)

lemma eqos_comp_fields:
  "name (tegra234_groups ! 50) = ''eqos_comp''"
  "funcs (tegra234_groups ! 50) = [TEGRA_MUX_EQOS, TEGRA_MUX_RSVD1, TEGRA_MUX_RSVD2, TEGRA_MUX_RSVD3]"
  "mux_reg (tegra234_groups ! 50) = 0x15050" "mux_bank (tegra234_groups ! 50) = 0"
  "mux_bit (tegra234_groups ! 50) = 0" "sfsel_bit (tegra234_groups ! 50) = - 1"
  "lpbk_reg (tegra234_groups ! 50) = 0x15050" "lpbk_bank (tegra234_groups ! 50) = 0"
  "lpbk_bit (tegra234_groups ! 50) = - 1"
  by (simp_all add: tegra234_groups_50 PINGROUP_def PINGROUP_REG_Y_def)

lemma comp_groups:
  "map name (filter (\<lambda>g. 0 \<le> mux_reg g \<and> sfsel_bit g < 0) tegra234_groups) =
     [''eqos_comp'', ''qspi_comp'', ''sdmmc1_comp'']"
  by code_simp

lemma u32_of_simps: "u32_of 0x2000 = 0x2000" "u32_of 1 = 1" "u32_of 0 = 0"
  by (simp_all add: u32_of_def)

lemma touch_clk_pcc4_function_reg:
  "tegra_pinconf_reg tegra234_pinctrl touch_clk_pcc4 TEGRA_PINCONF_PARAM_FUNCTION = Inr (1, 0x2000, 0, 2)"
  by (simp add: tegra_pinconf_reg_def touch_clk_pcc4_fields s8_def s32_def)

lemma touch_clk_pcc4_tristate_reg:
  "tegra_pinconf_reg tegra234_pinctrl touch_clk_pcc4 TEGRA_PINCONF_PARAM_TRISTATE = Inr (1, 0x2000, 4, 1)"
  by (simp add: tegra_pinconf_reg_def touch_clk_pcc4_fields s8_def s32_def)

lemma touch_clk_pcc4_pad_power_reg:
  "tegra_pinconf_reg tegra234_pinctrl touch_clk_pcc4 TEGRA_PINCONF_PARAM_PAD_POWER = Inr (0, 0, 0, 1)"
  by (simp add: tegra_pinconf_reg_def touch_clk_pcc4_fields s8_def s32_def)

lemma touch_clk_pcc4_lock_reg:
  "tegra_pinconf_reg tegra234_pinctrl touch_clk_pcc4 TEGRA_PINCONF_PARAM_LOCK = Inl Not_supported_on_group"
  by (simp add: tegra_pinconf_reg_def touch_clk_pcc4_fields s8_def s32_def)

lemma lock_group:
  "ngroups soc_lock = 1" "groups soc_lock ! 0 = touch_clk_pcc4\<lparr>lock_bit := 7\<rparr>"
  by (simp_all add: soc_lock_def ngroups_def tegra234_pinctrl_def)




lemma s32_id: "0 \<le> x \<Longrightarrow> x < 2147483648 \<Longrightarrow> s32 x = x"
  by (simp add: s32_def)

lemma s8_small: "s8 0 = 0" "s8 1 = 1" "s8 2 = 2"
  by (simp_all add: s8_def)

text \<open>
  The shape of the whole table of the Tegra234: every group has one pin, four
  different functions, a mux register in bank 0 or 1 with the mux field at bit
  0, the SFIO bit at position 10 or none, no lock bit and no parked bits.
\<close>

lemma tegra234_groups_shape:
  "list_all (\<lambda>g. length (funcs g) = 4 \<and> distinct (funcs g) \<and> 0 \<le> mux_reg g \<and>
      mux_reg g < 2147483648 \<and> (mux_bank g = 0 \<or> mux_bank g = 1) \<and> mux_bit g = 0 \<and>
      (sfsel_bit g = 10 \<or> sfsel_bit g = - 1) \<and> lock_bit g = - 1 \<and> parked_bitmask g = 0 \<and>
      npins g = 1) tegra234_groups"
  by code_simp

subsection \<open>Selecting a function and reading it back\<close>

text \<open>
  The loop over the slots stops at the first slot that holds the function.
\<close>

lemma funcs_scan_first:
  "i < length fs \<Longrightarrow> \<forall>j<i. fs ! j \<noteq> fs ! i \<Longrightarrow> funcs_scan fs (fs ! i) k = k + i"
proof (induction fs arbitrary: i k)
  case Nil
  then show ?case by simp
next
  case (Cons f fs)
  show ?case
  proof (cases i)
    case 0
    then show ?thesis by simp
  next
    case (Suc i')
    from Cons.prems(2) Suc have ne: "f \<noteq> fs ! i'" by (metis nth_Cons_0 nth_Cons_Suc zero_less_Suc)
    from Cons.prems Suc have "\<forall>j<i'. fs ! j \<noteq> fs ! i'"
      by (metis Suc_less_eq nth_Cons_Suc)
    with Cons.IH [of i' "k + 1"] Cons.prems(1) Suc ne show ?thesis by simp
  qed
qed

text \<open>
  The result of \<^verbatim>\<open>tegra_pinctrl_set_mux\<close> where every shift has a meaning and the
  function is in the group, and the result of the getter where the parameter has
  a place.
\<close>

lemma set_mux_ok:
  assumes grp: "grp < ngroups soc"
    and reg: "0 \<le> mux_reg (groups soc ! grp)"
    and bit: "0 \<le> mux_bit (groups soc ! grp)" "mux_bit (groups soc ! grp) < 32"
    and sf: "sfsel_in_mux soc \<Longrightarrow> 0 \<le> sfsel_bit (groups soc ! grp) \<and> sfsel_bit (groups soc ! grp) < 32"
    and scan: "funcs_scan (funcs (groups soc ! grp)) function 0 < length (funcs (groups soc ! grp))"
  shows "tegra_pinctrl_set_mux soc pmx function grp =
     (Inr (),
      pmx_writel (snd (pmx_readl pmx (u32_of (mux_bank (groups soc ! grp))) (u32_of (mux_reg (groups soc ! grp)))))
        (((regs pmx (u32_of (mux_bank (groups soc ! grp)), u32_of (mux_reg (groups soc ! grp)))
            AND NOT (push_bit (nat (mux_bit (groups soc ! grp))) 3))
          OR push_bit (nat (mux_bit (groups soc ! grp)))
               (of_nat (funcs_scan (funcs (groups soc ! grp)) function 0)))
          OR (if sfsel_in_mux soc then push_bit (nat (sfsel_bit (groups soc ! grp))) 1 else 0))
        (u32_of (mux_bank (groups soc ! grp))) (u32_of (mux_reg (groups soc ! grp))))"
  using assms
  by (simp add: tegra_pinctrl_set_mux_def Let_def pmx_readl_def)

lemma group_get_ok:
  assumes "grp < ngroups soc"
    and "tegra_pinconf_reg soc (groups soc ! grp) param = Inr (bank, reg, bit', width)"
    and "0 \<le> width" "width < 32" "bit' < 32"
  shows "tegra_pinconf_group_get soc pmx grp param =
     (Inr (param,
        if param = TEGRA_PINCONF_PARAM_PAD_POWER
        then lnot (ucast (reg_field (regs pmx (u32_of bank, u32_of reg)) (nat bit') (nat width)))
        else ucast (reg_field (regs pmx (u32_of bank, u32_of reg)) (nat bit') (nat width))),
      snd (pmx_readl pmx (u32_of bank) (u32_of reg)))"
  using assms
  by (simp add: tegra_pinconf_group_get_def Let_def pmx_readl_def mask_eq_exp_minus_1 reg_field_def)

lemma set_mux_field:
  assumes grp: "grp < ngroups soc"
    and reg: "0 \<le> mux_reg (groups soc ! grp)"
    and bit: "0 \<le> mux_bit (groups soc ! grp)" "mux_bit (groups soc ! grp) \<le> 30"
    and sf: "sfsel_in_mux soc \<longrightarrow>
          0 \<le> sfsel_bit (groups soc ! grp) \<and> sfsel_bit (groups soc ! grp) < 32 \<and>
          sfsel_bit (groups soc ! grp) \<noteq> mux_bit (groups soc ! grp) \<and>
          sfsel_bit (groups soc ! grp) \<noteq> mux_bit (groups soc ! grp) + 1"
    and scan: "funcs_scan (funcs (groups soc ! grp)) function 0 = i"
    and i: "i < length (funcs (groups soc ! grp))" "i < 4"
  shows "fst (tegra_pinctrl_set_mux soc pmx function grp) = Inr () \<and>
     reg_field (regs (snd (tegra_pinctrl_set_mux soc pmx function grp))
         (u32_of (mux_bank (groups soc ! grp)), u32_of (mux_reg (groups soc ! grp))))
       (nat (mux_bit (groups soc ! grp))) 2 = of_nat i"
proof -
  let ?g = "groups soc ! grp"
  let ?n = "nat (mux_bit ?g)"
  have ok: "tegra_pinctrl_set_mux soc pmx function grp =
     (Inr (),
      pmx_writel (snd (pmx_readl pmx (u32_of (mux_bank ?g)) (u32_of (mux_reg ?g))))
        (((regs pmx (u32_of (mux_bank ?g), u32_of (mux_reg ?g)) AND NOT (push_bit ?n 3))
          OR push_bit ?n (of_nat (funcs_scan (funcs ?g) function 0)))
          OR (if sfsel_in_mux soc then push_bit (nat (sfsel_bit ?g)) 1 else 0))
        (u32_of (mux_bank ?g)) (u32_of (mux_reg ?g)))"
    using grp reg bit sf scan i by (intro set_mux_ok) auto
  have n: "?n + 2 \<le> 32" using bit by simp
  have a: "(of_nat i :: u32) AND NOT (mask 2) = 0" using i(2) by (rule of_nat_and_not_mask_2)
  show ?thesis
  proof (cases "sfsel_in_mux soc")
    case True
    with sf bit have "nat (sfsel_bit ?g) < ?n \<or> ?n + 2 \<le> nat (sfsel_bit ?g)" by auto
    from reg_field_insert_or [OF n a this] True show ?thesis
      unfolding ok by (simp add: scan three_mask)
  next
    case False
    from reg_field_insert [OF n a] False show ?thesis
      unfolding ok by (simp add: scan three_mask)
  qed
qed

text \<open>
  Selecting a function and reading it back, for any table: for a group whose
  function-select parameter resolves to the mux field as the table gives it,
  whose mux field lies inside the register and whose SFIO bit, on a chip that
  has it in the mux register, is a bit of the register outside the mux field,
  selecting the function of a slot \<open>i\<close> that no earlier slot holds succeeds,
  leaves \<open>i\<close> in the mux field, and the getter then returns \<open>i\<close>.
\<close>

lemma set_mux_then_get_function:
  assumes "grp < ngroups soc"
    and "tegra_pinconf_reg soc (groups soc ! grp) TEGRA_PINCONF_PARAM_FUNCTION =
           Inr (mux_bank (groups soc ! grp), mux_reg (groups soc ! grp), mux_bit (groups soc ! grp), 2)"
    and "mux_bit (groups soc ! grp) \<le> 30"
    and "sfsel_in_mux soc \<longrightarrow>
          0 \<le> sfsel_bit (groups soc ! grp) \<and> sfsel_bit (groups soc ! grp) < 32 \<and>
          sfsel_bit (groups soc ! grp) \<noteq> mux_bit (groups soc ! grp) \<and>
          sfsel_bit (groups soc ! grp) \<noteq> mux_bit (groups soc ! grp) + 1"
    and "length (funcs (groups soc ! grp)) = 4" and "i < 4"
    and "\<forall>j<i. funcs (groups soc ! grp) ! j \<noteq> funcs (groups soc ! grp) ! i"
  shows "fst (tegra_pinctrl_set_mux soc pmx (funcs (groups soc ! grp) ! i) grp) = Inr () \<and>
     reg_field (regs (snd (tegra_pinctrl_set_mux soc pmx (funcs (groups soc ! grp) ! i) grp))
         (u32_of (mux_bank (groups soc ! grp)), u32_of (mux_reg (groups soc ! grp))))
       (nat (mux_bit (groups soc ! grp))) 2 = of_nat i \<and>
     fst (tegra_pinconf_group_get soc
            (snd (tegra_pinctrl_set_mux soc pmx (funcs (groups soc ! grp) ! i) grp)) grp
            TEGRA_PINCONF_PARAM_FUNCTION) =
       Inr (TEGRA_PINCONF_PARAM_FUNCTION, of_nat i)"
proof -
  let ?g = "groups soc ! grp"
  from assms(2) have pos: "0 \<le> mux_reg ?g" "0 \<le> mux_bit ?g"
    by (auto simp add: tegra_pinconf_reg_def s32_def s8_def split: if_splits)
  have scan: "funcs_scan (funcs ?g) (funcs ?g ! i) 0 = i"
    using funcs_scan_first [of i "funcs ?g" 0] assms(5-7) by simp
  have sel: "fst (tegra_pinctrl_set_mux soc pmx (funcs ?g ! i) grp) = Inr () \<and>
     reg_field (regs (snd (tegra_pinctrl_set_mux soc pmx (funcs ?g ! i) grp))
         (u32_of (mux_bank ?g), u32_of (mux_reg ?g))) (nat (mux_bit ?g)) 2 = of_nat i"
    using assms(1) pos assms(3,4) scan assms(5,6) by (intro set_mux_field) auto
  have get: "tegra_pinconf_group_get soc
            (snd (tegra_pinctrl_set_mux soc pmx (funcs ?g ! i) grp)) grp TEGRA_PINCONF_PARAM_FUNCTION =
      (Inr (TEGRA_PINCONF_PARAM_FUNCTION,
         ucast (reg_field (regs (snd (tegra_pinctrl_set_mux soc pmx (funcs ?g ! i) grp))
           (u32_of (mux_bank ?g), u32_of (mux_reg ?g))) (nat (mux_bit ?g)) (nat 2))),
       snd (pmx_readl (snd (tegra_pinctrl_set_mux soc pmx (funcs ?g ! i) grp))
              (u32_of (mux_bank ?g)) (u32_of (mux_reg ?g))))"
    using group_get_ok [OF assms(1) assms(2), of "snd (tegra_pinctrl_set_mux soc pmx (funcs ?g ! i) grp)"]
      assms(3) by simp
  from sel show ?thesis
    unfolding get by (simp add: ucast_of_nat_u16 [OF assms(6)])
qed

text \<open>
  On the Tegra234 this is what claim C2 says, for every group with an SFIO
  bit, every slot and every state of the registers.
\<close>

lemma tegra234_set_mux_then_get_function:
  assumes "grp < ngroups tegra234_pinctrl"
    and "sfsel_bit (groups tegra234_pinctrl ! grp) \<noteq> - 1"
    and "i < 4"
  shows "fst (tegra_pinctrl_set_mux tegra234_pinctrl pmx (funcs (groups tegra234_pinctrl ! grp) ! i) grp) = Inr () \<and>
     reg_field (regs (snd (tegra_pinctrl_set_mux tegra234_pinctrl pmx (funcs (groups tegra234_pinctrl ! grp) ! i) grp))
         (u32_of (mux_bank (groups tegra234_pinctrl ! grp)), u32_of (mux_reg (groups tegra234_pinctrl ! grp))))
       (nat (mux_bit (groups tegra234_pinctrl ! grp))) 2 = of_nat i \<and>
     fst (tegra_pinconf_group_get tegra234_pinctrl
            (snd (tegra_pinctrl_set_mux tegra234_pinctrl pmx (funcs (groups tegra234_pinctrl ! grp) ! i) grp)) grp
            TEGRA_PINCONF_PARAM_FUNCTION) =
       Inr (TEGRA_PINCONF_PARAM_FUNCTION, of_nat i)"
proof -
  let ?g = "groups tegra234_pinctrl ! grp"
  from assms(1) have l: "grp < length tegra234_groups"
    by (simp add: ngroups_def tegra234_flags)
  have g: "?g = tegra234_groups ! grp" by (simp add: tegra234_flags)
  from tegra234_groups_shape l
  have s: "length (funcs ?g) = 4" "distinct (funcs ?g)" "0 \<le> mux_reg ?g" "mux_reg ?g < 2147483648"
    "mux_bank ?g = 0 \<or> mux_bank ?g = 1" "mux_bit ?g = 0" "sfsel_bit ?g = 10 \<or> sfsel_bit ?g = - 1"
    unfolding g by (simp_all add: list_all_length)
  from s(7) assms(2) have sf: "sfsel_bit ?g = 10" by simp
  have bank: "s8 (mux_bank ?g) = mux_bank ?g"
    using s(5) by (auto simp add: s8_small)
  have r: "tegra_pinconf_reg tegra234_pinctrl ?g TEGRA_PINCONF_PARAM_FUNCTION =
      Inr (mux_bank ?g, mux_reg ?g, mux_bit ?g, 2)"
    using s(3) by (simp add: tegra_pinconf_reg_def s32_id [OF s(3,4)] bank s8_small s(6))
  have d: "\<forall>j<i. funcs ?g ! j \<noteq> funcs ?g ! i"
    using s(1,2) assms(3) by (auto simp add: nth_eq_iff_index_eq)
  show ?thesis
    using assms(1) r _ _ s(1) assms(3) d
    by (rule set_mux_then_get_function) (simp_all add: s(6) sf)
qed



text \<open>
  Claim C3. The first group of the Tegra234 is \<^verbatim>\<open>touch_clk_pcc4\<close> with the slots
  \<^verbatim>\<open>GP, TOUCH, RSVD2, RSVD3\<close>. From any state of the registers, selecting
  \<^verbatim>\<open>TOUCH\<close> succeeds and leaves 1 in the mux field (bits 0 and 1 of register
  \<open>0x2000\<close> of bank 1); selecting \<^verbatim>\<open>CAN0\<close> fails with "function not in group"
  (\<^verbatim>\<open>-EINVAL\<close>) and changes nothing, without any access to a register.
\<close>

theorem touch_clk_pcc4_select_function:
  "name (groups tegra234_pinctrl ! 0) = ''touch_clk_pcc4'' \<and>
   funcs (groups tegra234_pinctrl ! 0) =
     [TEGRA_MUX_GP, TEGRA_MUX_TOUCH, TEGRA_MUX_RSVD2, TEGRA_MUX_RSVD3] \<and>
   fst (tegra_pinctrl_set_mux tegra234_pinctrl pmx TEGRA_MUX_TOUCH 0) = Inr () \<and>
   reg_field (regs (snd (tegra_pinctrl_set_mux tegra234_pinctrl pmx TEGRA_MUX_TOUCH 0)) (1, 0x2000)) 0 2 = 1 \<and>
   tegra_pinctrl_set_mux tegra234_pinctrl pmx TEGRA_MUX_CAN0 0 = (Inl Function_not_in_group, pmx) \<and>
   errno Function_not_in_group = Some (- EINVAL)"
proof -
  let ?g = "groups tegra234_pinctrl ! 0"
  have scan1: "funcs_scan (funcs ?g) TEGRA_MUX_TOUCH 0 = 1"
    by (simp add: tegra234_flags tegra234_groups_0 touch_clk_pcc4_fields TEGRA_MUX_defs)
  have scan2: "funcs_scan (funcs ?g) TEGRA_MUX_CAN0 0 = 4"
    by (simp add: tegra234_flags tegra234_groups_0 touch_clk_pcc4_fields TEGRA_MUX_defs)
  have sel: "fst (tegra_pinctrl_set_mux tegra234_pinctrl pmx TEGRA_MUX_TOUCH 0) = Inr () \<and>
     reg_field (regs (snd (tegra_pinctrl_set_mux tegra234_pinctrl pmx TEGRA_MUX_TOUCH 0))
         (u32_of (mux_bank ?g), u32_of (mux_reg ?g))) (nat (mux_bit ?g)) 2 = of_nat 1"
    using scan1 by (intro set_mux_field) (simp_all add: ngroups_tegra234 tegra234_groups_0 touch_clk_pcc4_fields tegra234_flags)
  have rej: "tegra_pinctrl_set_mux tegra234_pinctrl pmx TEGRA_MUX_CAN0 0 = (Inl Function_not_in_group, pmx)"
    using scan2 by (simp add: tegra_pinctrl_set_mux_def ngroups_tegra234 tegra234_flags tegra234_groups_0 touch_clk_pcc4_fields(2,4) Let_def)
  from sel show ?thesis
    unfolding rej by (simp add: tegra234_flags tegra234_groups_0 touch_clk_pcc4_fields u32_of_simps)
qed

subsection \<open>The SFIO bit of the groups without one\<close>

text \<open>
  Claim C10 says that the shift by \<^verbatim>\<open>sfsel_bit\<close> in \<^verbatim>\<open>tegra_pinctrl_set_mux\<close> is
  never by a negative amount on the Tegra234. The code does not have that
  property: \<^verbatim>\<open>eqos_comp\<close>, entry 50 of the table, has a mux register and
  \<^verbatim>\<open>sfsel_bit = -1\<close>, the chip has \<^verbatim>\<open>sfsel_in_mux\<close>, and selecting \<^verbatim>\<open>EQOS\<close>, the
  function of its slot 0, reaches \<^verbatim>\<open>1 << -1\<close>. The groups of the table with a mux
  register and a negative \<^verbatim>\<open>sfsel_bit\<close> are \<^verbatim>\<open>eqos_comp\<close>, \<^verbatim>\<open>qspi_comp\<close> and
  \<^verbatim>\<open>sdmmc1_comp\<close>.
\<close>

theorem set_mux_eqos_comp_shift_by_minus_one:
  "name (groups tegra234_pinctrl ! 50) = ''eqos_comp'' \<and>
   0 \<le> mux_reg (groups tegra234_pinctrl ! 50) \<and>
   funcs (groups tegra234_pinctrl ! 50) ! 0 = TEGRA_MUX_EQOS \<and>
   sfsel_in_mux tegra234_pinctrl \<and>
   sfsel_bit (groups tegra234_pinctrl ! 50) = - 1 \<and>
   fst (tegra_pinctrl_set_mux tegra234_pinctrl pmx TEGRA_MUX_EQOS 50) = Inl Undefined_behaviour \<and>
   map name (filter (\<lambda>g. 0 \<le> mux_reg g \<and> sfsel_bit g < 0) (groups tegra234_pinctrl)) =
     [''eqos_comp'', ''qspi_comp'', ''sdmmc1_comp'']"
proof -
  have "fst (tegra_pinctrl_set_mux tegra234_pinctrl pmx TEGRA_MUX_EQOS 50) = Inl Undefined_behaviour"
    by (simp add: tegra_pinctrl_set_mux_def ngroups_tegra234 tegra234_flags eqos_comp_fields
        pmx_readl_def Let_def)
  then show ?thesis
    by (simp add: tegra234_flags eqos_comp_fields comp_groups)
qed

subsection \<open>Parameters that a group does not have\<close>

lemma not_supported:
  assumes "pinconf_reg_switch soc g param = Some (bank, reg, bit', width)"
    and "reg = - 1 \<or> bit' = - 1"
  shows "tegra_pinconf_reg soc g param = Inl Not_supported_on_group"
  using assms by (auto simp add: tegra_pinconf_reg_def s32_def s8_def)

text \<open>
  Claim C7. When the register offset or the bit position that the switch of
  \<^verbatim>\<open>tegra_pinconf_reg\<close> selects for a parameter of a group is the sentinel
  \<open>-1\<close>, the getter and the setter both return "not supported" (\<^verbatim>\<open>-ENOTSUPP\<close>)
  and leave the state, with its record of register accesses, as it was: no
  register is read or written.
\<close>

theorem unsupported_parameter_no_access:
  assumes "grp < ngroups soc"
    and "pinconf_reg_switch soc (groups soc ! grp) param = Some (bank, reg, bit', width)"
    and "reg = - 1 \<or> bit' = - 1"
  shows "tegra_pinconf_group_get soc pmx grp param = (Inl Not_supported_on_group, pmx) \<and>
     tegra_pinconf_group_set soc pmx grp ((param, arg) # configs) = (Inl Not_supported_on_group, pmx) \<and>
     errno Not_supported_on_group = Some (- ENOTSUPP)"
  using assms(1) not_supported [OF assms(2,3)]
  by (simp add: tegra_pinconf_group_get_def tegra_pinconf_group_set_def group_set_body_def Let_def)

text \<open>
  Claim C7 on the Tegra234: loopback on \<^verbatim>\<open>eqos_comp\<close>, whose \<^verbatim>\<open>lpbk_bit\<close> is
  \<open>-1\<close>.
\<close>

theorem unsupported_parameter_no_access_witness:
  "lpbk_bit (groups tegra234_pinctrl ! 50) = - 1 \<and>
   tegra_pinconf_group_get tegra234_pinctrl pmx_zero 50 TEGRA_PINCONF_PARAM_LOOPBACK =
     (Inl Not_supported_on_group, pmx_zero) \<and>
   tegra_pinconf_group_set tegra234_pinctrl pmx_zero 50
       [(TEGRA_PINCONF_PARAM_LOOPBACK, 1), (TEGRA_PINCONF_PARAM_TRISTATE, 1)] =
     (Inl Not_supported_on_group, pmx_zero) \<and>
   mmio pmx_zero = []"
  using unsupported_parameter_no_access [of 50 tegra234_pinctrl TEGRA_PINCONF_PARAM_LOOPBACK
      0 "0x15050" "- 1" 1 pmx_zero 1 "[(TEGRA_PINCONF_PARAM_TRISTATE, 1)]"]
  by (simp add: ngroups_tegra234 tegra234_flags eqos_comp_fields pmx_zero_def)

subsection \<open>The lock bit\<close>

text \<open>
  Claim C4. When the lock parameter of a group has a place and the bit there
  reads 1, setting the lock parameter to 0 fails with "LOCK bit cannot be
  cleared" (\<^verbatim>\<open>-EINVAL\<close>). The only access to a register is the read of the
  register that holds the lock bit: nothing is written, and the configurations
  that follow in the list are not looked at.
\<close>

theorem lock_cannot_be_cleared:
  assumes "grp < ngroups soc"
    and "tegra_pinconf_reg soc (groups soc ! grp) TEGRA_PINCONF_PARAM_LOCK = Inr (bank, reg, bit', width)"
    and "bit (regs pmx (u32_of bank, u32_of reg)) (nat bit')"
  shows "tegra_pinconf_group_set soc pmx grp ((TEGRA_PINCONF_PARAM_LOCK, 0) # configs) =
       (Inl LOCK_bit_cannot_be_cleared, pmx\<lparr>mmio := mmio pmx @ [Readl (u32_of bank) (u32_of reg)]\<rparr>) \<and>
     errno LOCK_bit_cannot_be_cleared = Some (- EINVAL)"
proof -
  from assms(3) have n: "nat bit' < 32" by (auto dest: bit_imp_le_length)
  from assms(2) have "0 \<le> bit'"
    by (auto simp add: tegra_pinconf_reg_def split: option.splits if_splits)
  with n have b: "bit' < 64" by simp
  from assms(1,2) b bit_ucast_and_BIT [OF assms(3)] show ?thesis
    by (simp add: tegra_pinconf_group_set_def group_set_body_def Let_def pmx_readl_def)
qed

text \<open>
  Claim C4 on a group with a lock bit at position 7, all registers ones.
\<close>

theorem lock_cannot_be_cleared_witness:
  "bit (regs pmx_ones (1, 0x2000)) 7 \<and>
   tegra_pinconf_group_set soc_lock pmx_ones 0
       [(TEGRA_PINCONF_PARAM_LOCK, 0), (TEGRA_PINCONF_PARAM_TRISTATE, 1)] =
     (Inl LOCK_bit_cannot_be_cleared, pmx_ones\<lparr>mmio := [Readl 1 0x2000]\<rparr>)"
proof -
  have r: "tegra_pinconf_reg soc_lock (groups soc_lock ! 0) TEGRA_PINCONF_PARAM_LOCK = Inr (1, 0x2000, 7, 1)"
    by (simp add: tegra_pinconf_reg_def lock_group touch_clk_pcc4_fields s8_def s32_def)
  have b: "bit (regs pmx_ones (u32_of 1, u32_of 0x2000)) (nat 7)"
    by (simp add: pmx_ones_def u32_of_simps)
  from lock_cannot_be_cleared [of 0 soc_lock 1 "0x2000" 7 1 pmx_ones "[(TEGRA_PINCONF_PARAM_TRISTATE, 1)]", OF _ r b]
  show ?thesis
    by (simp add: lock_group u32_of_simps pmx_ones_def)
qed

subsection \<open>Parameters of one bit\<close>

lemma lnot_lnot_and_not_mask_1: "(ucast (lnot (lnot a)) :: u32) AND NOT (mask 1) = 0"
  by (simp add: lnot_def)

lemma lnot_and_not_mask_1: "(ucast (lnot a) :: u32) AND NOT (mask 1) = 0"
  by (simp add: lnot_def)

lemma lnot_lnot_lnot [simp]: "lnot (lnot (lnot a)) = lnot a"
  by (simp add: lnot_def)

lemma ucast_lnot_cases: "(ucast (lnot a) :: u32) = 0 \<or> (ucast (lnot a) :: u32) = 1"
  by (simp add: lnot_def)

lemma group_set_body_one_bit:
  assumes r: "tegra_pinconf_reg soc g param = Inr (bank, reg, bit', 1)"
    and b: "bit' < 32"
    and l: "param = TEGRA_PINCONF_PARAM_LOCK \<Longrightarrow> arg \<noteq> 0"
  shows "group_set_body soc g (param, arg) pmx =
     (Inr (),
      pmx_writel (snd (pmx_readl pmx (u32_of bank) (u32_of reg)))
        ((regs pmx (u32_of bank, u32_of reg) AND NOT (push_bit (nat bit') (mask 1)))
          OR push_bit (nat bit')
               (ucast (if param = TEGRA_PINCONF_PARAM_PAD_POWER then lnot arg else lnot (lnot arg))))
        (u32_of bank) (u32_of reg))"
  using assms
  by (simp add: group_set_body_def Let_def pmx_readl_def lnot_def)

lemma group_set_one_bit:
  assumes g: "grp < ngroups soc"
    and r: "tegra_pinconf_reg soc (groups soc ! grp) param = Inr (bank, reg, bit', 1)"
    and b: "bit' < 32"
    and l: "param = TEGRA_PINCONF_PARAM_LOCK \<Longrightarrow> arg \<noteq> 0"
  shows "fst (tegra_pinconf_group_set soc pmx grp [(param, arg)]) = Inr () \<and>
     reg_field (regs (snd (tegra_pinconf_group_set soc pmx grp [(param, arg)])) (u32_of bank, u32_of reg))
         (nat bit') 1 =
       ucast (if param = TEGRA_PINCONF_PARAM_PAD_POWER then lnot arg else lnot (lnot arg))"
proof -
  let ?a = "ucast (if param = TEGRA_PINCONF_PARAM_PAD_POWER then lnot arg else lnot (lnot arg)) :: u32"
  from r have "0 \<le> bit'"
    by (auto simp add: tegra_pinconf_reg_def split: option.splits if_splits)
  with b have n: "nat bit' < 32" by simp
  have a: "?a = 0 \<or> ?a = 1" by (simp add: lnot_def)
  have eq: "tegra_pinconf_group_set soc pmx grp [(param, arg)] =
     (Inr (),
      pmx_writel (snd (pmx_readl pmx (u32_of bank) (u32_of reg)))
        ((regs pmx (u32_of bank, u32_of reg) AND NOT (push_bit (nat bit') (mask 1)))
          OR push_bit (nat bit') ?a)
        (u32_of bank) (u32_of reg))"
    using g by (simp add: tegra_pinconf_group_set_def group_set_body_one_bit [OF r b l])
  show ?thesis
    unfolding eq
    by (simp only: fst_conv snd_conv pmx_writel_simps fun_upd_same reg_field_one_bit [OF n a]
        simp_thms)
qed

text \<open>
  Claim C6, as amended. For a parameter that resolves on the group to a field
  of width 1 at a bit position inside the register, the setter with a nonzero
  argument does not fail (so not with "too big for register") and leaves 1 in
  the field, except for pad-power: there the argument is inverted first, and a
  nonzero argument leaves 0 in the field.
\<close>

theorem one_bit_parameter_nonzero_argument:
  assumes "grp < ngroups soc"
    and "tegra_pinconf_reg soc (groups soc ! grp) param = Inr (bank, reg, bit', 1)"
    and "bit' < 32"
    and "arg \<noteq> 0"
  shows "fst (tegra_pinconf_group_set soc pmx grp [(param, arg)]) = Inr () \<and>
     reg_field (regs (snd (tegra_pinconf_group_set soc pmx grp [(param, arg)])) (u32_of bank, u32_of reg))
         (nat bit') 1 =
       (if param = TEGRA_PINCONF_PARAM_PAD_POWER then 0 else 1)"
  using group_set_one_bit [OF assms(1-3), of arg pmx] assms(4)
  by (simp add: lnot_def)

text \<open>
  The amended claim C6 on the Tegra234: tristate of \<^verbatim>\<open>touch_clk_pcc4\<close> with the
  argument 5.
\<close>

theorem one_bit_parameter_nonzero_argument_witness:
  "fst (tegra_pinconf_group_set tegra234_pinctrl pmx_zero 0 [(TEGRA_PINCONF_PARAM_TRISTATE, 5)]) = Inr () \<and>
   reg_field (regs (snd (tegra_pinconf_group_set tegra234_pinctrl pmx_zero 0
       [(TEGRA_PINCONF_PARAM_TRISTATE, 5)])) (1, 0x2000)) 4 1 = 1"
  using one_bit_parameter_nonzero_argument [of 0 tegra234_pinctrl TEGRA_PINCONF_PARAM_TRISTATE
      1 "0x2000" 4 5 pmx_zero]
  by (simp add: ngroups_tegra234 tegra234_flags tegra234_groups_0 touch_clk_pcc4_tristate_reg u32_of_simps)

text \<open>
  Claim C6 as it was stated fails for pad-power, a parameter of width 1: on
  \<^verbatim>\<open>touch_clk_pcc4\<close> with all registers ones, the argument 5 succeeds and leaves 0
  in the field, not 1.
\<close>

theorem pad_power_nonzero_argument_counterexample:
  "tegra_pinconf_reg tegra234_pinctrl (groups tegra234_pinctrl ! 0) TEGRA_PINCONF_PARAM_PAD_POWER =
     Inr (0, 0, 0, 1) \<and>
   reg_field (regs pmx_ones (0, 0)) 0 1 = 1 \<and>
   fst (tegra_pinconf_group_set tegra234_pinctrl pmx_ones 0 [(TEGRA_PINCONF_PARAM_PAD_POWER, 5)]) = Inr () \<and>
   reg_field (regs (snd (tegra_pinconf_group_set tegra234_pinctrl pmx_ones 0
       [(TEGRA_PINCONF_PARAM_PAD_POWER, 5)])) (0, 0)) 0 1 = 0"
proof -
  have g: "(0::nat) < ngroups tegra234_pinctrl" by (simp add: ngroups_tegra234)
  have r: "tegra_pinconf_reg tegra234_pinctrl (groups tegra234_pinctrl ! 0) TEGRA_PINCONF_PARAM_PAD_POWER =
     Inr (0, 0, 0, 1)"
    by (simp add: tegra234_flags tegra234_groups_0 touch_clk_pcc4_pad_power_reg)
  have o: "reg_field (regs pmx_ones (0, 0)) 0 1 = 1"
    by (simp add: reg_field_def pmx_ones_def)
  from group_set_one_bit [OF g r, of 5 pmx_ones] r o show ?thesis
    by (simp add: lnot_def u32_of_simps)
qed

text \<open>
  Claim C5, as amended. Where pad-power resolves on the group to a bit inside
  the register, the setter with argument \<open>arg\<close> succeeds, the getter then returns
  0 for \<open>arg = 0\<close> and 1 for every other \<open>arg\<close> (the argument as a truth value,
  which is the argument itself only for 0 and 1), and the bit in the register
  is the inverse: 1 for \<open>arg = 0\<close> and 0 otherwise.
\<close>

theorem pad_power_set_then_get:
  assumes "grp < ngroups soc"
    and "tegra_pinconf_reg soc (groups soc ! grp) TEGRA_PINCONF_PARAM_PAD_POWER = Inr (bank, reg, bit', width)"
    and "bit' < 32"
  shows "fst (tegra_pinconf_group_set soc pmx grp [(TEGRA_PINCONF_PARAM_PAD_POWER, arg)]) = Inr () \<and>
     fst (tegra_pinconf_group_get soc
            (snd (tegra_pinconf_group_set soc pmx grp [(TEGRA_PINCONF_PARAM_PAD_POWER, arg)])) grp
            TEGRA_PINCONF_PARAM_PAD_POWER) =
       Inr (TEGRA_PINCONF_PARAM_PAD_POWER, if arg = 0 then 0 else 1) \<and>
     reg_field (regs (snd (tegra_pinconf_group_set soc pmx grp [(TEGRA_PINCONF_PARAM_PAD_POWER, arg)]))
         (u32_of bank, u32_of reg)) (nat bit') 1 = (if arg = 0 then 1 else 0)"
proof -
  let ?p = TEGRA_PINCONF_PARAM_PAD_POWER
  let ?pmx1 = "snd (tegra_pinconf_group_set soc pmx grp [(?p, arg)])"
  from assms(2) have w: "width = 1"
    by (auto simp add: tegra_pinconf_reg_def s8_def split: option.splits if_splits)
  from assms(2) w have r: "tegra_pinconf_reg soc (groups soc ! grp) ?p = Inr (bank, reg, bit', 1)"
    by simp
  have set: "fst (tegra_pinconf_group_set soc pmx grp [(?p, arg)]) = Inr () \<and>
     reg_field (regs ?pmx1 (u32_of bank, u32_of reg)) (nat bit') 1 = ucast (lnot arg)"
    using group_set_one_bit [OF assms(1) r assms(3), of arg pmx] by simp
  have get: "fst (tegra_pinconf_group_get soc ?pmx1 grp ?p) =
      Inr (?p, lnot (ucast (reg_field (regs ?pmx1 (u32_of bank, u32_of reg)) (nat bit') (nat 1))))"
    using group_get_ok [OF assms(1) r _ _ assms(3), of ?pmx1] by simp
  from set show ?thesis
    unfolding get by (simp add: lnot_def)
qed

text \<open>
  The amended claim C5 on the Tegra234: pad-power of \<^verbatim>\<open>touch_clk_pcc4\<close> with the
  argument 1.
\<close>

theorem pad_power_set_then_get_witness:
  "fst (tegra_pinconf_group_set tegra234_pinctrl pmx_zero 0 [(TEGRA_PINCONF_PARAM_PAD_POWER, 1)]) = Inr () \<and>
   fst (tegra_pinconf_group_get tegra234_pinctrl
          (snd (tegra_pinconf_group_set tegra234_pinctrl pmx_zero 0 [(TEGRA_PINCONF_PARAM_PAD_POWER, 1)])) 0
          TEGRA_PINCONF_PARAM_PAD_POWER) = Inr (TEGRA_PINCONF_PARAM_PAD_POWER, 1) \<and>
   reg_field (regs (snd (tegra_pinconf_group_set tegra234_pinctrl pmx_zero 0
       [(TEGRA_PINCONF_PARAM_PAD_POWER, 1)])) (0, 0)) 0 1 = 0"
  using pad_power_set_then_get [of 0 tegra234_pinctrl 0 0 0 1 pmx_zero 1]
  by (simp add: ngroups_tegra234 tegra234_flags tegra234_groups_0 touch_clk_pcc4_pad_power_reg u32_of_simps)

text \<open>
  Claim C5 as it was stated fails for an argument other than 0 and 1: after
  setting pad-power to 5 the getter returns 1.
\<close>

theorem pad_power_raw_argument_counterexample:
  "tegra_pinconf_reg tegra234_pinctrl (groups tegra234_pinctrl ! 0) TEGRA_PINCONF_PARAM_PAD_POWER =
     Inr (0, 0, 0, 1) \<and>
   fst (tegra_pinconf_group_set tegra234_pinctrl pmx_zero 0 [(TEGRA_PINCONF_PARAM_PAD_POWER, 5)]) = Inr () \<and>
   fst (tegra_pinconf_group_get tegra234_pinctrl
          (snd (tegra_pinconf_group_set tegra234_pinctrl pmx_zero 0 [(TEGRA_PINCONF_PARAM_PAD_POWER, 5)])) 0
          TEGRA_PINCONF_PARAM_PAD_POWER) = Inr (TEGRA_PINCONF_PARAM_PAD_POWER, 1) \<and>
   (1 :: u16) \<noteq> 5"
proof -
  let ?p = TEGRA_PINCONF_PARAM_PAD_POWER
  let ?pmx1 = "snd (tegra_pinconf_group_set tegra234_pinctrl pmx_zero 0 [(?p, 5)])"
  have g: "(0::nat) < ngroups tegra234_pinctrl" by (simp add: ngroups_tegra234)
  have r: "tegra_pinconf_reg tegra234_pinctrl (groups tegra234_pinctrl ! 0) ?p = Inr (0, 0, 0, 1)"
    by (simp add: tegra234_flags tegra234_groups_0 touch_clk_pcc4_pad_power_reg)
  have set: "fst (tegra_pinconf_group_set tegra234_pinctrl pmx_zero 0 [(?p, 5)]) = Inr () \<and>
     reg_field (regs ?pmx1 (u32_of 0, u32_of 0)) (nat 0) 1 = 0"
    using group_set_one_bit [OF g r, of 5 pmx_zero] by (simp add: lnot_def)
  have get: "fst (tegra_pinconf_group_get tegra234_pinctrl ?pmx1 0 ?p) =
      Inr (?p, lnot (ucast (reg_field (regs ?pmx1 (u32_of 0, u32_of 0)) (nat 0) (nat 1))))"
    using group_get_ok [OF g r, of ?pmx1] by simp
  from set r show ?thesis
    unfolding get by (simp add: lnot_def)
qed

subsection \<open>A list of configurations\<close>

lemma group_set_loop_append:
  "group_set_loop soc g (cs @ cs') pmx =
     (case group_set_loop soc g cs pmx of
        (Inl e, pmx1) \<Rightarrow> (Inl e, pmx1)
      | (Inr u, pmx1) \<Rightarrow> group_set_loop soc g cs' pmx1)"
proof (induction cs arbitrary: pmx)
  case Nil
  show ?case by simp
next
  case (Cons c cs)
  show ?case
  proof (cases "group_set_body soc g c pmx")
    case (Pair r pmx1)
    then show ?thesis
      by (cases r) (simp_all add: Cons.IH)
  qed
qed

lemma group_set_body_failure_regs:
  assumes "group_set_body soc g c pmx = (Inl e, pmx1)"
  shows "regs pmx1 = regs pmx \<and> gpio_conf pmx1 = gpio_conf pmx"
  using assms
  by (auto simp add: group_set_body_def Let_def pmx_readl_def
      split: sum.splits prod.splits if_splits)

lemma touch_clk_pcc4_set_tristate:
  "fst (tegra_pinconf_group_set tegra234_pinctrl pmx_zero 0 [(TEGRA_PINCONF_PARAM_TRISTATE, 1)]) = Inr ()"
  "regs (snd (tegra_pinconf_group_set tegra234_pinctrl pmx_zero 0 [(TEGRA_PINCONF_PARAM_TRISTATE, 1)]))
     (1, 0x2000) = 16"
  by (simp_all add: tegra_pinconf_group_set_def ngroups_tegra234 tegra234_flags tegra234_groups_0
      group_set_body_def touch_clk_pcc4_tristate_reg Let_def pmx_readl_def u32_of_simps lnot_def
      pmx_zero_def)

lemma touch_clk_pcc4_set_lock:
  "tegra_pinconf_group_set tegra234_pinctrl pmx 0 ((TEGRA_PINCONF_PARAM_LOCK, 1) # cs) =
     (Inl Not_supported_on_group, pmx)"
  by (simp add: tegra_pinconf_group_set_def ngroups_tegra234 tegra234_flags tegra234_groups_0
      group_set_body_def touch_clk_pcc4_lock_reg)

text \<open>
  Claim C1, as amended. When the configurations \<open>cs\<close> are applied without a
  failure and the next one, \<open>c\<close>, fails with an error of the driver, then the
  setter for the whole list \<open>cs @ c # cs'\<close> returns that error and stops there:
  the state is the one that the failing configuration leaves, in which the
  registers are as \<open>cs\<close> has written them (nothing is undone), and the
  configurations \<open>cs'\<close> after the failing one are not applied, whatever they are.
\<close>

theorem group_set_stops_at_first_failure:
  assumes "grp < ngroups soc"
    and "tegra_pinconf_group_set soc pmx grp cs = (Inr (), pmx1)"
    and "tegra_pinconf_group_set soc pmx1 grp [c] = (Inl e, pmx2)"
    and "errno e \<noteq> None"
  shows "tegra_pinconf_group_set soc pmx grp (cs @ c # cs') = (Inl e, pmx2) \<and>
     regs pmx2 = regs pmx1"
proof -
  let ?g = "groups soc ! grp"
  from assms(1,2) have l: "group_set_loop soc ?g cs pmx = (Inr (), pmx1)"
    by (simp add: tegra_pinconf_group_set_def)
  from assms(1,3) have b: "group_set_body soc ?g c pmx1 = (Inl e, pmx2)"
    by (simp add: tegra_pinconf_group_set_def split: prod.splits sum.splits)
  from assms(1) l b have "tegra_pinconf_group_set soc pmx grp (cs @ c # cs') = (Inl e, pmx2)"
    by (simp add: tegra_pinconf_group_set_def group_set_loop_append)
  with group_set_body_failure_regs [OF b] show ?thesis by simp
qed

text \<open>
  The amended claim C1 on \<^verbatim>\<open>touch_clk_pcc4\<close>: tristate is written, lock is not
  supported, and pull, which comes after, is not applied: the register holds 16.
\<close>

theorem group_set_stops_at_first_failure_witness:
  "tegra_pinconf_group_set tegra234_pinctrl pmx_zero 0
       ([(TEGRA_PINCONF_PARAM_TRISTATE, 1)] @ (TEGRA_PINCONF_PARAM_LOCK, 1) # [(TEGRA_PINCONF_PARAM_PULL, 1)]) =
     (Inl Not_supported_on_group,
      snd (tegra_pinconf_group_set tegra234_pinctrl pmx_zero 0 [(TEGRA_PINCONF_PARAM_TRISTATE, 1)])) \<and>
   regs (snd (tegra_pinconf_group_set tegra234_pinctrl pmx_zero 0 [(TEGRA_PINCONF_PARAM_TRISTATE, 1)]))
     (1, 0x2000) = 16"
proof -
  let ?pmx1 = "snd (tegra_pinconf_group_set tegra234_pinctrl pmx_zero 0 [(TEGRA_PINCONF_PARAM_TRISTATE, 1)])"
  have g: "(0::nat) < ngroups tegra234_pinctrl" by (simp add: ngroups_tegra234)
  have a: "tegra_pinconf_group_set tegra234_pinctrl pmx_zero 0 [(TEGRA_PINCONF_PARAM_TRISTATE, 1)] =
      (Inr (), ?pmx1)"
    using touch_clk_pcc4_set_tristate(1) by (simp add: prod_eq_iff)
  have b: "tegra_pinconf_group_set tegra234_pinctrl ?pmx1 0 [(TEGRA_PINCONF_PARAM_LOCK, 1)] =
      (Inl Not_supported_on_group, ?pmx1)"
    by (rule touch_clk_pcc4_set_lock)
  have e: "errno Not_supported_on_group \<noteq> None" by simp
  from group_set_stops_at_first_failure [OF g a b e, of "[(TEGRA_PINCONF_PARAM_PULL, 1)]"]
    touch_clk_pcc4_set_tristate(2)
  show ?thesis by simp
qed

text \<open>
  Claim C1 as it was stated fails: with lock (not supported on the Tegra234)
  before tristate, the setter returns the error and the state is untouched,
  although tristate alone succeeds and writes 16 to the register.
\<close>

theorem group_set_batch_counterexample:
  "tegra_pinconf_group_set tegra234_pinctrl pmx_zero 0
       [(TEGRA_PINCONF_PARAM_LOCK, 1), (TEGRA_PINCONF_PARAM_TRISTATE, 1)] =
     (Inl Not_supported_on_group, pmx_zero) \<and>
   regs pmx_zero (1, 0x2000) = 0 \<and>
   fst (tegra_pinconf_group_set tegra234_pinctrl pmx_zero 0 [(TEGRA_PINCONF_PARAM_TRISTATE, 1)]) = Inr () \<and>
   regs (snd (tegra_pinconf_group_set tegra234_pinctrl pmx_zero 0 [(TEGRA_PINCONF_PARAM_TRISTATE, 1)]))
     (1, 0x2000) = 16"
  using touch_clk_pcc4_set_tristate
  by (simp add: touch_clk_pcc4_set_lock) (simp add: pmx_zero_def)

subsection \<open>Clearing the parked bits\<close>












text \<open>
  No group of the Tegra234 has parked bits: there the pass changes nothing and
  accesses no register.
\<close>

lemma clear_parked_bits_loop_no_masks:
  "list_all (\<lambda>g. parked_bitmask g = 0) gs \<Longrightarrow> clear_parked_bits_loop gs pmx = pmx"
  by (induction gs arbitrary: pmx) (simp_all add: clear_parked_bits_body_def)

lemma tegra234_clear_parked_bits:
  "tegra_pinctrl_clear_parked_bits tegra234_pinctrl pmx = pmx"
proof -
  from tegra234_groups_shape have "list_all (\<lambda>g. parked_bitmask g = 0) tegra234_groups"
    by (simp add: list_all_iff)
  then show ?thesis
    by (simp add: tegra_pinctrl_clear_parked_bits_def tegra234_flags clear_parked_bits_loop_no_masks)
qed

subsection \<open>GPIO request and release\<close>

text \<open>
  The search for the group of a pin stops at the first group whose only pin it
  is.
\<close>

lemma pin_group_scan_first:
  "grp < length gs \<Longrightarrow> pins (gs ! grp) = [offset] \<Longrightarrow> \<forall>j<grp. pins (gs ! j) \<noteq> [offset] \<Longrightarrow>
     pin_group_scan gs offset k = k + grp"
proof (induction gs arbitrary: grp k)
  case Nil
  then show ?case by simp
next
  case (Cons g gs)
  show ?case
  proof (cases grp)
    case 0
    with Cons.prems(2) show ?thesis by (simp add: npins_def)
  next
    case (Suc grp')
    from Cons.prems(3) Suc have ne: "pins g \<noteq> [offset]" by auto
    have skip: "npins g \<noteq> 1 \<or> offset \<noteq> pins g ! 0"
    proof (cases "pins g")
      case Nil
      then show ?thesis by (simp add: npins_def)
    next
      case (Cons p ps)
      with ne show ?thesis by (cases ps) (auto simp add: npins_def)
    qed
    from Cons.prems Suc have "\<forall>j<grp'. pins (gs ! j) \<noteq> [offset]" by auto
    with Cons.IH [of grp' "k + 1"] Cons.prems(1,2) Suc
    have "pin_group_scan gs offset (k + 1) = k + 1 + grp'" by simp
    with skip Suc show ?thesis by auto
  qed
qed

text \<open>
  Selecting a function and setting configurations do not touch the shadow
  \<^verbatim>\<open>gpio_conf\<close>.
\<close>

lemma set_mux_gpio_conf:
  "gpio_conf (snd (tegra_pinctrl_set_mux soc pmx function grp)) = gpio_conf pmx"
  by (simp add: tegra_pinctrl_set_mux_def Let_def pmx_readl_def split: prod.splits)

lemma group_set_body_gpio_conf:
  "gpio_conf (snd (group_set_body soc g c pmx)) = gpio_conf pmx"
  by (simp add: group_set_body_def Let_def pmx_readl_def split: sum.splits prod.splits)

lemma group_set_loop_gpio_conf:
  "gpio_conf (snd (group_set_loop soc g cs pmx)) = gpio_conf pmx"
proof (induction cs arbitrary: pmx)
  case Nil
  show ?case by simp
next
  case (Cons c cs)
  show ?case
  proof (cases "group_set_body soc g c pmx")
    case (Pair r pmx1)
    with group_set_body_gpio_conf [of soc g c pmx] have "gpio_conf pmx1 = gpio_conf pmx" by simp
    with Pair show ?thesis by (cases r) (simp_all add: Cons.IH)
  qed
qed

lemma group_set_gpio_conf:
  "gpio_conf (snd (tegra_pinconf_group_set soc pmx grp cs)) = gpio_conf pmx"
  by (simp add: tegra_pinconf_group_set_def group_set_loop_gpio_conf)

lemma run_requests_gpio_conf:
  "gpio_conf (run_requests soc rs pmx) = gpio_conf pmx"
proof (induction rs arbitrary: pmx)
  case Nil
  show ?case by simp
next
  case (Cons r rs)
  show ?case
    by (cases r) (simp_all add: Cons.IH set_mux_gpio_conf group_set_gpio_conf)
qed

lemma gpio_save_config_saves:
  assumes "pin_group_scan (groups soc) offset 0 = grp" "grp < ngroups soc"
    and "0 \<le> mux_reg (groups soc ! grp)"
  shows "tegra_pinctrl_gpio_save_config soc pmx offset =
     (Inr (), (snd (pmx_readl pmx (u32_of (mux_bank (groups soc ! grp))) (u32_of (mux_reg (groups soc ! grp)))))
        \<lparr>gpio_conf := (gpio_conf pmx)
           (offset := regs pmx (u32_of (mux_bank (groups soc ! grp)), u32_of (mux_reg (groups soc ! grp))))\<rparr>)"
  using assms
  by (simp add: tegra_pinctrl_gpio_save_config_def Let_def pmx_readl_def)

lemma gpio_request_enable_saves:
  assumes "pin_group_scan (groups soc) offset 0 = grp" "grp < ngroups soc"
    and "0 \<le> mux_reg (groups soc ! grp)"
  shows "gpio_conf (snd (tegra_pinctrl_gpio_request_enable soc pmx offset)) offset =
     regs pmx (u32_of (mux_bank (groups soc ! grp)), u32_of (mux_reg (groups soc ! grp)))"
  using assms
  by (simp add: tegra_pinctrl_gpio_request_enable_def gpio_save_config_saves Let_def pmx_readl_def)

lemma gpio_disable_free_restores:
  assumes "pin_group_scan (groups soc) offset 0 = grp" "grp < ngroups soc"
    and "0 \<le> mux_reg (groups soc ! grp)"
  shows "regs (tegra_pinctrl_gpio_disable_free soc pmx offset)
       (u32_of (mux_bank (groups soc ! grp)), u32_of (mux_reg (groups soc ! grp))) =
     gpio_conf pmx offset"
  using assms
  by (simp add: tegra_pinctrl_gpio_disable_free_def tegra_pinctrl_gpio_restore_config_def Let_def)

text \<open>
  Claim C9. Let a pin be the only pin of a group with a mux register, the
  group that the search of the driver finds for the pin (no earlier group of
  the table has this pin as its only pin). Then a GPIO request for the pin,
  followed by any sequence of function selections and configuration lists for
  any groups, followed by the release of the pin, leaves in the mux register of
  the group the value that it held before the request, whole, and so with the
  SFIO bit it had then.
\<close>

theorem gpio_release_restores_mux_register:
  assumes "grp < ngroups soc"
    and "pins (groups soc ! grp) = [offset]"
    and "\<forall>j<grp. pins (groups soc ! j) \<noteq> [offset]"
    and "0 \<le> mux_reg (groups soc ! grp)"
  shows "regs (tegra_pinctrl_gpio_disable_free soc
           (run_requests soc rs (snd (tegra_pinctrl_gpio_request_enable soc pmx offset))) offset)
       (u32_of (mux_bank (groups soc ! grp)), u32_of (mux_reg (groups soc ! grp))) =
     regs pmx (u32_of (mux_bank (groups soc ! grp)), u32_of (mux_reg (groups soc ! grp)))"
proof -
  have scan: "pin_group_scan (groups soc) offset 0 = grp"
    using pin_group_scan_first [of grp "groups soc" offset 0] assms(1-3)
    by (simp add: ngroups_def)
  show ?thesis
    by (simp add: gpio_disable_free_restores [OF scan assms(1,4)] run_requests_gpio_conf
        gpio_request_enable_saves [OF scan assms(1,4)])
qed

lemma touch_clk_pcc4_pin_scan:
  "pin_group_scan tegra234_groups TEGRA_PIN_TOUCH_CLK_PCC4 0 = 0"
proof -
  have l: "0 < length tegra234_groups"
    using ngroups_tegra234 by (simp add: ngroups_def tegra234_flags)
  have p: "pins (tegra234_groups ! 0) = [TEGRA_PIN_TOUCH_CLK_PCC4]"
    by (simp add: tegra234_groups_0 touch_clk_pcc4_fields)
  from pin_group_scan_first [OF l p, of 0] show ?thesis by simp
qed

lemma clear_BIT:
  fixes val :: u32
  assumes "0 \<le> n"
  shows "ucast ((ucast val :: 64 word) AND NOT (BIT n)) = val AND NOT (push_bit (nat n) 1)"
  by (rule bit_eqI) (auto simp add: BIT_def bit_simps)

lemma touch_clk_pcc4_gpio_cycle:
  "regs (snd (tegra_pinctrl_gpio_request_enable tegra234_pinctrl pmx_ones TEGRA_PIN_TOUCH_CLK_PCC4))
     (1, 0x2000) = 0xFFFFFBFF"
  "regs (run_requests tegra234_pinctrl
           [Select_function TEGRA_MUX_TOUCH 0, Configure_group 0 [(TEGRA_PINCONF_PARAM_TRISTATE, 1)]]
           (snd (tegra_pinctrl_gpio_request_enable tegra234_pinctrl pmx_ones TEGRA_PIN_TOUCH_CLK_PCC4)))
     (1, 0x2000) = 0xFFFFFFFD"
  by (simp_all add: tegra_pinctrl_gpio_request_enable_def tegra_pinctrl_gpio_save_config_def
      tegra_pinctrl_set_mux_def tegra_pinconf_group_set_def group_set_body_def
      touch_clk_pcc4_tristate_reg lnot_def clear_BIT
      touch_clk_pcc4_pin_scan ngroups_tegra234 tegra234_flags tegra234_groups_0
      touch_clk_pcc4_fields TEGRA_MUX_defs u32_of_simps Let_def pmx_readl_def pmx_ones_def)

text \<open>
  Claim C9 on the Tegra234, for the pin of \<^verbatim>\<open>touch_clk_pcc4\<close> with
  all registers ones: the request clears the SFIO bit, the function selection
  and the configuration in between leave \<open>0xFFFFFFFD\<close> in the mux register, and
  the release puts \<open>0xFFFFFFFF\<close> back.
\<close>

theorem gpio_release_restores_mux_register_witness:
  "regs pmx_ones (1, 0x2000) = 0xFFFFFFFF \<and>
   regs (run_requests tegra234_pinctrl
           [Select_function TEGRA_MUX_TOUCH 0, Configure_group 0 [(TEGRA_PINCONF_PARAM_TRISTATE, 1)]]
           (snd (tegra_pinctrl_gpio_request_enable tegra234_pinctrl pmx_ones TEGRA_PIN_TOUCH_CLK_PCC4)))
     (1, 0x2000) = 0xFFFFFFFD \<and>
   regs (tegra_pinctrl_gpio_disable_free tegra234_pinctrl
           (run_requests tegra234_pinctrl
              [Select_function TEGRA_MUX_TOUCH 0, Configure_group 0 [(TEGRA_PINCONF_PARAM_TRISTATE, 1)]]
              (snd (tegra_pinctrl_gpio_request_enable tegra234_pinctrl pmx_ones TEGRA_PIN_TOUCH_CLK_PCC4)))
           TEGRA_PIN_TOUCH_CLK_PCC4)
     (1, 0x2000) = 0xFFFFFFFF"
  using gpio_release_restores_mux_register [of 0 tegra234_pinctrl TEGRA_PIN_TOUCH_CLK_PCC4
      "[Select_function TEGRA_MUX_TOUCH 0, Configure_group 0 [(TEGRA_PINCONF_PARAM_TRISTATE, 1)]]" pmx_ones]
    touch_clk_pcc4_gpio_cycle(2)
  by (simp add: ngroups_tegra234 tegra234_flags tegra234_groups_0 touch_clk_pcc4_fields u32_of_simps)
     (simp add: pmx_ones_def)

subsection \<open>The other path to the SFIO bit\<close>

text \<open>
  \<^verbatim>\<open>tegra_pinctrl_gpio_request_enable\<close> tests \<^verbatim>\<open>sfsel_bit\<close> before it shifts: for
  the pin of \<^verbatim>\<open>eqos_comp\<close> it returns \<^verbatim>\<open>-EINVAL\<close>. \<^verbatim>\<open>tegra_pinctrl_set_mux\<close> has no
  such test (claims C2 and C10).
\<close>

lemma eqos_comp_pin_scan:
  "pin_group_scan tegra234_groups TEGRA_PIN_EQOS_COMP 0 = 50"
  by code_simp

lemma gpio_request_enable_eqos_comp:
  "fst (tegra_pinctrl_gpio_request_enable tegra234_pinctrl pmx TEGRA_PIN_EQOS_COMP) = Inl No_sfsel_field"
  by (simp add: tegra_pinctrl_gpio_request_enable_def tegra_pinctrl_gpio_save_config_def
      ngroups_tegra234 tegra234_flags eqos_comp_pin_scan eqos_comp_fields Let_def pmx_readl_def)

end
